theory Spec2Isabelle
  imports Complex_Main "HOL-Library.List_Lexorder" "HOL-Library.Char_ord"
begin

section \<open>Python and Django primitives used by teachers/views.py\<close>

text \<open>
  The exceptions the views can meet: those of the ORM (\<open>.get\<close>,
  \<open>get_or_create\<close>), of \<open>strptime\<close>, of the conversion of a form value to
  an integer column, and of Python's true division. The \<open>Http404\<close> of
  \<open>get_object_or_404\<close> is a response of its own below.
\<close>

datatype exn = DoesNotExist | MultipleObjectsReturned | ValueError | TypeError | ZeroDivisionError

text \<open>
  Python's \<open>xs[:k]\<close>: the first \<open>k\<close> elements for \<open>k \<ge> 0\<close>, all but the
  last \<open>-k\<close> for a negative \<open>k\<close>.
\<close>

definition py_slice_to :: "'a list \<Rightarrow> int \<Rightarrow> 'a list" where
  "py_slice_to xs k =
     (if 0 \<le> k then take (nat k) xs else take (nat (int (length xs) + k)) xs)"

text \<open>Python's \<open>sum\<close> over integers: a left-to-right accumulation from 0.\<close>

definition py_sum :: "int list \<Rightarrow> int" where
  "py_sum xs = foldl (\<lambda>acc x. acc + x) 0 xs"

subsection \<open>Floats\<close>

text \<open>
  A Python float is an IEEE 754 double; the model holds it as the real number it
  stands for. \<open>bit_length\<close> is Python's \<open>int.bit_length\<close>, \<open>two_to e\<close> is
  \<open>2 ** e\<close>, and \<open>float_exponent x\<close> is the exponent of the binade of a
  non-zero \<open>x\<close>: the \<open>k\<close> with \<open>2 ** k <= |x| < 2 ** (k + 1)\<close>.
\<close>

fun bit_length :: "int \<Rightarrow> nat" where
  "bit_length n = (if n \<le> 0 then 0 else Suc (bit_length (n div 2)))"

declare bit_length.simps [simp del]

definition two_to :: "int \<Rightarrow> real" where
  "two_to e = (if 0 \<le> e then 2 ^ nat e else 1 / 2 ^ nat (- e))"

definition float_exponent :: "real \<Rightarrow> int" where
  "float_exponent x =
     (if 1 \<le> \<bar>x\<bar> then int (bit_length \<lfloor>\<bar>x\<bar>\<rfloor>) - 1
      else - int (bit_length (\<lceil>1 / \<bar>x\<bar>\<rceil> - 1)))"

text \<open>The nearest integer, a tie going to the even one.\<close>

definition nearest_even :: "real \<Rightarrow> int" where
  "nearest_even y =
     (let f = \<lfloor>y\<rfloor>; d = y - of_int f
      in if d < 1 / 2 then f
         else if 1 / 2 < d then f + 1
         else if even f then f else f + 1)"

text \<open>
  The double nearest to a real number, as every float operation of Python delivers
  it (round to nearest, ties to even): 53 bits of significand, and the spacing
  \<open>2 ** -1074\<close> of the subnormal numbers as the finest one. Doubles end below
  \<open>2 ** 1024\<close>; the quotients and products of the views are quotients of sums of
  integer columns and percentages, far below that, and the model has no infinity.
\<close>

definition float_round :: "real \<Rightarrow> real" where
  "float_round x =
     (if x = 0 then 0
      else let e = max (float_exponent x - 52) (- 1074)
           in of_int (nearest_even (x / two_to e)) * two_to e)"

text \<open>
  Python's \<open>a / b\<close> on two integers is the correctly rounded quotient
  (\<open>float_truediv\<close>, for a divisor that is not zero) and raises ZeroDivisionError
  for the divisor 0; \<open>x * y\<close> on floats is the rounded product. The
  OverflowError of a quotient of \<open>2 ** 1024\<close> or more is not a branch here: no
  sum of marks that an integer column can hold comes near it.
\<close>

definition float_truediv :: "int \<Rightarrow> int \<Rightarrow> real" where
  "float_truediv a b = float_round (real_of_int a / real_of_int b)"

definition py_truediv :: "int \<Rightarrow> int \<Rightarrow> exn + real" where
  "py_truediv a b = (if b = 0 then Inl ZeroDivisionError else Inr (float_truediv a b))"

definition float_mul :: "real \<Rightarrow> real \<Rightarrow> real" where
  "float_mul x y = float_round (x * y)"

text \<open>\<open>math.ceil\<close> of a float is the exact ceiling, an integer.\<close>

definition math_ceil :: "real \<Rightarrow> int" where
  "math_ceil x = \<lceil>x\<rceil>"

text \<open>
  The views call Python's \<open>round(x, n)\<close> on floats; the model takes that function
  as the parameter \<open>py_round\<close> of every definition that rounds.
  \<open>round_half_even\<close> is the rounding to \<open>n\<close> decimals, half to even, in exact
  arithmetic, and \<open>round_float\<close> the instance to evaluate with: CPython rounds the
  exact value of the float to \<open>n\<close> decimals and delivers the double nearest to that
  decimal number.
\<close>

definition round_half_even :: "real \<Rightarrow> nat \<Rightarrow> real" where
  "round_half_even x n =
     (let y = x * 10 ^ n; f = \<lfloor>y\<rfloor>; d = y - of_int f
      in (if d < 1 / 2 then of_int f
          else if 1 / 2 < d then of_int f + 1
          else if even f then of_int f else of_int f + 1) / 10 ^ n)"

definition round_float :: "real \<Rightarrow> nat \<Rightarrow> real" where
  "round_float x n = float_round (round_half_even x n)"

section \<open>Data model\<close>

text \<open>
  The models live in \<open>teachers/models.py\<close> and \<open>students/models.py\<close>; the
  records hold the fields that the views read and write. A foreign key to a Teacher
  or an Assign is held as the row itself, as the ORM hands it to the view
  (\<open>exam_session.assign.teacher\<close>); every other foreign key (student, subject,
  class, attendance class, student subject) is held as the primary key of its row. A
  teacher without a user account has \<open>t_user = None\<close>.
\<close>

record user =
  u_id :: nat
  is_authenticated :: bool
  is_teacher :: bool
  is_staff :: bool
  is_superuser :: bool

record Teacher =
  t_id :: nat
  t_name :: string
  t_user :: "nat option"

record Assign =
  a_id :: nat
  a_teacher :: Teacher
  a_subject :: nat
  a_class_id :: nat
  a_academic_year :: string
  a_semester :: int

record AssignTime =
  at_assign :: Assign
  at_period :: string
  at_day :: string

record Student =
  s_pk :: nat
  USN :: string
  s_name :: string
  s_class_id :: nat

record ExamSession =
  es_assign :: Assign
  es_name :: string
  es_status :: bool

record AttendanceClass =
  ac_assign :: Assign
  ac_date :: int
  ac_status :: int

record Attendance =
  att_student :: nat
  att_subject :: nat
  att_attendanceclass :: nat
  att_date :: int
  att_status :: bool

record StudentSubject =
  ss_student :: nat
  ss_subject :: nat

record Marks =
  m_studentsubject :: nat
  m_name :: string
  m_marks1 :: int

section \<open>Attendance statistics\<close>

record attendance_statistics =
  total_students :: int
  present_students :: int
  absent_students :: int
  attendance_percentage :: real

text \<open>
  \<open>_calculate_attendance_statistics(attendance_queryset)\<close>, lines 34-50. The
  queryset is the list of its rows; \<open>.count()\<close> is the length and
  \<open>.filter(status=True)\<close> keeps the rows marked present. The percentage is
  computed in floats: \<open>round\<close> receives the rounded product of the rounded
  quotient and 100. The quotient is taken only of a total that is not zero.
\<close>

definition calculate_attendance_statistics ::
  "(real \<Rightarrow> nat \<Rightarrow> real) \<Rightarrow> Attendance list \<Rightarrow> attendance_statistics" where
  "calculate_attendance_statistics py_round attendance_queryset =
     (let total = int (length attendance_queryset);
          present = int (length (filter (\<lambda>a. att_status a = True) attendance_queryset));
          absent = total - present;
          percentage =
            (if 0 < total
             then py_round (float_mul (float_truediv present total) 100) 1
             else 0)
      in \<lparr> total_students = total, present_students = present,
           absent_students = absent, attendance_percentage = percentage \<rparr>)"

section \<open>Marks and CIE aggregation\<close>

text \<open>
  \<open>view_students\<close>, lines 784 and 791-792, for one student whose marks are
  \<open>marks_list\<close>. \<open>CIE_CALCULATION_LIMIT\<close> and \<open>CIE_DIVISOR\<close> come from
  \<open>utils/constant.py\<close> and are parameters here. The sum is one of integers; the
  division is Python's true division, which delivers a float.
\<close>

definition total_marks :: "int list \<Rightarrow> int" where
  "total_marks marks_list = py_sum marks_list"

definition cie_score :: "int \<Rightarrow> int \<Rightarrow> int list \<Rightarrow> exn + int" where
  "cie_score CIE_CALCULATION_LIMIT CIE_DIVISOR marks_list =
     (if marks_list \<noteq> []
      then (case py_truediv (py_sum (py_slice_to marks_list CIE_CALCULATION_LIMIT)) CIE_DIVISOR of
              Inl e \<Rightarrow> Inl e
            | Inr q \<Rightarrow> Inr (math_ceil q))
      else Inr 0)"

section \<open>Database, requests and responses\<close>

text \<open>
  A table is the list of its rows in insertion order. Teacher, Assign and Student rows
  carry their primary key (\<open>t_id\<close>, \<open>a_id\<close>, \<open>s_pk\<close>); the primary key of a
  row of any other table is its position in the list, so that a new row takes the next
  key and \<open>save()\<close> writes the row at its key. No view deletes a row.
\<close>

record db =
  teachers :: "Teacher list"
  assigns :: "Assign list"
  assign_times :: "AssignTime list"
  students :: "Student list"
  exam_sessions :: "ExamSession list"
  attendance_classes :: "AttendanceClass list"
  attendances :: "Attendance list"
  student_subjects :: "StudentSubject list"
  marks :: "Marks list"

record request =
  req_user :: user
  req_method :: string
  POST :: "string \<Rightarrow> string option"
  GET :: "string \<Rightarrow> string option"

text \<open>
  The flash messages of \<open>django.contrib.messages\<close>, by level. The texts are the
  translated strings of the source: \<open>AssignmentAccessDenied\<close> is the message of
  lines 187 and 774, \<open>TimetableAccessDenied\<close> is TIMETABLE_ACCESS_DENIED_MESSAGE,
  \<open>NoAvailableTeachers\<close> is FREE_TEACHERS_NO_AVAILABLE_TEACHERS_MESSAGE.
\<close>

datatype level = MsgError | MsgWarning | MsgSuccess

datatype message =
    TeacherCredentialsRequired
  | TeacherProfileNotFound
  | AssignmentAccessDenied
  | ExamCreated string
  | ExamAlreadyExists string
  | ExamCreationFailed exn
  | ExamNameMissing
  | TimetableAccessDenied
  | NoAvailableTeachers
  | InvalidDateFormat
  | AttendanceRecorded

text \<open>
  What a view answers: a rendered template with its context, a redirect to a named
  URL with its arguments, the 404 of \<open>get_object_or_404\<close>, or an exception that
  no handler of the view catches. A view returns its response, the messages it
  queued and the database it leaves.
\<close>

datatype 'c response = Render string 'c | Redirect string "nat list" | Http404 | Raised exn

type_synonym 'c outcome = "'c response \<times> (level \<times> message) list \<times> db"

definition response_of :: "'c outcome \<Rightarrow> 'c response" where
  "response_of out = fst out"

definition messages_of :: "'c outcome \<Rightarrow> (level \<times> message) list" where
  "messages_of out = fst (snd out)"

definition db_of :: "'c outcome \<Rightarrow> db" where
  "db_of out = snd (snd out)"

text \<open>The context a response renders, if it renders.\<close>

fun context_of :: "'c response \<Rightarrow> 'c option" where
  "context_of (Render t c) = Some c"
| "context_of r = None"

text \<open>The URL name a response redirects to, and the template it renders.\<close>

fun redirect_target :: "'c response \<Rightarrow> string option" where
  "redirect_target (Redirect u args) = Some u"
| "redirect_target r = None"

fun rendered_template :: "'c response \<Rightarrow> string option" where
  "rendered_template (Render t c) = Some t"
| "rendered_template r = None"

text \<open>
  The parts of the runtime that the views call and \<open>views.py\<close> does not define:
  \<open>strptime\<close> with DATE_FORMAT (\<open>None\<close> is its ValueError; a date is its ordinal),
  the conversion of a form string to an integer column or key (\<open>None\<close> is its
  ValueError), Python's \<open>round\<close>, and the two CIE constants.
\<close>

record env =
  strptime :: "string \<Rightarrow> int option"
  int_of_str :: "string \<Rightarrow> int option"
  py_round :: "real \<Rightarrow> nat \<Rightarrow> real"
  CIE_CALCULATION_LIMIT :: int
  CIE_DIVISOR :: int

subsection \<open>ORM lookups\<close>

text \<open>The primary keys of the rows that satisfy a filter.\<close>

definition pks_where :: "('r \<Rightarrow> bool) \<Rightarrow> 'r list \<Rightarrow> nat list" where
  "pks_where p rows = filter (\<lambda>i. p (rows ! i)) [0..<length rows]"

text \<open>\<open>Model.objects.get(...)\<close> on a table keyed by position.\<close>

definition objects_get :: "('r \<Rightarrow> bool) \<Rightarrow> 'r list \<Rightarrow> exn + nat" where
  "objects_get p rows =
     (case pks_where p rows of
        [] \<Rightarrow> Inl DoesNotExist
      | [i] \<Rightarrow> Inr i
      | i # j # ks \<Rightarrow> Inl MultipleObjectsReturned)"

text \<open>
  \<open>get_or_create(**lookup, defaults=...)\<close>: the key of the only matching row, or
  of the row it appends; the flag says whether it created one.
\<close>

definition get_or_create :: "('r \<Rightarrow> bool) \<Rightarrow> 'r \<Rightarrow> 'r list \<Rightarrow> exn + (nat \<times> bool \<times> 'r list)" where
  "get_or_create p new rows =
     (case pks_where p rows of
        [] \<Rightarrow> Inr (length rows, True, rows @ [new])
      | [i] \<Rightarrow> Inr (i, False, rows)
      | i # j # ks \<Rightarrow> Inl MultipleObjectsReturned)"

text \<open>\<open>get_object_or_404(Model, id=pk)\<close>; \<open>None\<close> is the 404.\<close>

definition get_by_pk :: "'r list \<Rightarrow> nat \<Rightarrow> 'r option" where
  "get_by_pk rows pk = (if pk < length rows then Some (rows ! pk) else None)"

definition get_assign_or_404 :: "db \<Rightarrow> nat \<Rightarrow> Assign option" where
  "get_assign_or_404 d assign_id = find (\<lambda>a. a_id a = assign_id) (assigns d)"

definition get_teacher_or_404 :: "db \<Rightarrow> nat \<Rightarrow> Teacher option" where
  "get_teacher_or_404 d teacher_id = find (\<lambda>t. t_id t = teacher_id) (teachers d)"

text \<open>\<open>class_obj.student_set.all()\<close>.\<close>

definition student_set :: "db \<Rightarrow> nat \<Rightarrow> Student list" where
  "student_set d class_id = filter (\<lambda>s. s_class_id s = class_id) (students d)"

text \<open>The answer of \<open>@login_required\<close> to a request without a logged-in user.\<close>

definition login_redirect :: "db \<Rightarrow> 'c outcome" where
  "login_redirect d = (Redirect ''login'' [], [], d)"

section \<open>Exams and marks\<close>

record marks_list_ctx =
  ml_assignment :: Assign
  ml_m_list :: "ExamSession list"
  ml_total_exams :: int
  ml_completed_exams :: int
  ml_pending_exams :: int

text \<open>
  The branch \<open>create_exam\<close> of \<open>t_marks_list\<close>, lines 193-210. Whatever
  \<open>get_or_create\<close> raises is caught and reported.
\<close>

definition create_exam :: "request \<Rightarrow> Assign \<Rightarrow> nat \<Rightarrow> db \<Rightarrow> marks_list_ctx outcome" where
  "create_exam req assignment assign_id d =
     (case POST req ''exam_name'' of
        None \<Rightarrow> (Redirect ''t_marks_list'' [assign_id], [(MsgError, ExamNameMissing)], d)
      | Some exam_name \<Rightarrow>
          if exam_name = []
          then (Redirect ''t_marks_list'' [assign_id], [(MsgError, ExamNameMissing)], d)
          else
            (case get_or_create
                    (\<lambda>e. a_id (es_assign e) = a_id assignment \<and> es_name e = exam_name)
                    \<lparr> es_assign = assignment, es_name = exam_name, es_status = False \<rparr>
                    (exam_sessions d) of
               Inl ex \<Rightarrow>
                 (Redirect ''t_marks_list'' [assign_id], [(MsgError, ExamCreationFailed ex)], d)
             | Inr (pk, created, rows) \<Rightarrow>
                 (Redirect ''t_marks_list'' [assign_id],
                  [if created then (MsgSuccess, ExamCreated exam_name)
                   else (MsgWarning, ExamAlreadyExists exam_name)],
                  d\<lparr> exam_sessions := rows \<rparr>)))"

text \<open>The page of \<open>t_marks_list\<close>, lines 190 and 212-224.\<close>

definition marks_list_page :: "Assign \<Rightarrow> db \<Rightarrow> marks_list_ctx" where
  "marks_list_page assignment d =
     (let exam_sessions_list =
            filter (\<lambda>e. a_id (es_assign e) = a_id assignment) (exam_sessions d);
          total_exams = int (length exam_sessions_list);
          completed_exams = int (length (filter (\<lambda>e. es_status e = True) exam_sessions_list));
          pending_exams = total_exams - completed_exams
      in \<lparr> ml_assignment = assignment, ml_m_list = exam_sessions_list,
           ml_total_exams = total_exams, ml_completed_exams = completed_exams,
           ml_pending_exams = pending_exams \<rparr>)"

text \<open>\<open>t_marks_list(request, assign_id)\<close>, lines 180-224.\<close>

definition t_marks_list :: "request \<Rightarrow> nat \<Rightarrow> db \<Rightarrow> marks_list_ctx outcome" where
  "t_marks_list req assign_id d =
     (if \<not> is_authenticated (req_user req) then login_redirect d
      else case get_assign_or_404 d assign_id of
        None \<Rightarrow> (Http404, [], d)
      | Some assignment \<Rightarrow>
          let owner_user = t_user (a_teacher assignment) in
          if owner_user \<noteq> None \<and> owner_user \<noteq> Some (u_id (req_user req))
          then (Redirect ''teacher_dashboard'' [], [(MsgError, AssignmentAccessDenied)], d)
          else if req_method req = ''POST'' \<and> POST req ''create_exam'' \<noteq> None
          then create_exam req assignment assign_id d
          else (Render ''t_marks_list.html'' (marks_list_page assignment d), [], d))"

text \<open>
  The loop of \<open>marks_confirm\<close>, lines 285-296, over the students of the class,
  threading the Marks table. A student without a submitted mark or without a
  StudentSubject row is skipped; \<open>marks_instance.save()\<close> converts the submitted
  string to the integer column. A row that \<open>get_or_create\<close> creates gets the
  submitted mark at once, so the column's default (0 here) is never seen.
\<close>

fun marks_confirm_loop ::
  "env \<Rightarrow> request \<Rightarrow> StudentSubject list \<Rightarrow> nat \<Rightarrow> string \<Rightarrow> Student list \<Rightarrow> Marks list
     \<Rightarrow> exn + Marks list" where
  "marks_confirm_loop e req sss subject exam_name [] rows = Inr rows"
| "marks_confirm_loop e req sss subject exam_name (student # rest) rows =
     (case POST req (USN student) of
        None \<Rightarrow> marks_confirm_loop e req sss subject exam_name rest rows
      | Some student_mark \<Rightarrow>
          (case objects_get (\<lambda>ss. ss_subject ss = subject \<and> ss_student ss = s_pk student) sss of
             Inl DoesNotExist \<Rightarrow> marks_confirm_loop e req sss subject exam_name rest rows
           | Inl ex \<Rightarrow> Inl ex
           | Inr student_subject \<Rightarrow>
               (case get_or_create
                       (\<lambda>m. m_studentsubject m = student_subject \<and> m_name m = exam_name)
                       \<lparr> m_studentsubject = student_subject, m_name = exam_name, m_marks1 = 0 \<rparr>
                       rows of
                  Inl ex \<Rightarrow> Inl ex
                | Inr (pk, created, rows1) \<Rightarrow>
                    (case int_of_str e student_mark of
                       None \<Rightarrow> Inl ValueError
                     | Some v \<Rightarrow>
                         marks_confirm_loop e req sss subject exam_name rest
                           (rows1[pk := (rows1 ! pk)\<lparr> m_marks1 := v \<rparr>])))))"

text \<open>
  \<open>marks_confirm(request, marks_c_id)\<close>, lines 276-301. The whole body runs in
  \<open>transaction.atomic()\<close>: an exception leaves the database as it was.
\<close>

definition marks_confirm :: "env \<Rightarrow> request \<Rightarrow> nat \<Rightarrow> db \<Rightarrow> unit outcome" where
  "marks_confirm e req marks_c_id d =
     (if \<not> is_authenticated (req_user req) then login_redirect d
      else case get_by_pk (exam_sessions d) marks_c_id of
        None \<Rightarrow> (Http404, [], d)
      | Some exam_session \<Rightarrow>
          let assignment = es_assign exam_session;
              subject = a_subject assignment;
              class_object = a_class_id assignment
          in (case marks_confirm_loop e req (student_subjects d) subject (es_name exam_session)
                     (student_set d class_object) (marks d) of
                Inl ex \<Rightarrow> (Raised ex, [], d)
              | Inr rows \<Rightarrow>
                  (Redirect ''t_marks_list'' [a_id assignment], [],
                   d\<lparr> marks := rows,
                      exam_sessions :=
                        (exam_sessions d)[marks_c_id := exam_session\<lparr> es_status := True \<rparr>] \<rparr>)))"

section \<open>Attendance\<close>

text \<open>
  The loop of lines 544-553 and 628-637: one \<open>get_or_create\<close> per student of the
  class, keyed by (student, subject, attendance class, date); an existing row gets the
  submitted status. The form value counts as present only when it is the string
  \<open>present\<close>.
\<close>

fun attendance_loop ::
  "request \<Rightarrow> nat \<Rightarrow> nat \<Rightarrow> int \<Rightarrow> Student list \<Rightarrow> Attendance list \<Rightarrow> exn + Attendance list" where
  "attendance_loop req subject assc date [] rows = Inr rows"
| "attendance_loop req subject assc date (student # rest) rows =
     (let status_str = POST req (USN student);
          status = (status_str = Some ''present'')
      in case get_or_create
                (\<lambda>a. att_student a = s_pk student \<and> att_subject a = subject \<and>
                      att_attendanceclass a = assc \<and> att_date a = date)
                \<lparr> att_student = s_pk student, att_subject = subject,
                  att_attendanceclass = assc, att_date = date, att_status = status \<rparr>
                rows of
           Inl ex \<Rightarrow> Inl ex
         | Inr (pk, created, rows1) \<Rightarrow>
             attendance_loop req subject assc date rest
               (if \<not> created then rows1[pk := (rows1 ! pk)\<lparr> att_status := status \<rparr>] else rows1))"

text \<open>\<open>confirm(request, ass_c_id)\<close>, lines 618-642.\<close>

definition confirm :: "request \<Rightarrow> nat \<Rightarrow> db \<Rightarrow> unit outcome" where
  "confirm req ass_c_id d =
     (if \<not> is_authenticated (req_user req) then login_redirect d
      else case get_by_pk (attendance_classes d) ass_c_id of
        None \<Rightarrow> (Http404, [], d)
      | Some assc \<Rightarrow>
          let assign = ac_assign assc;
              subject = a_subject assign;
              class_obj = a_class_id assign;
              has_students = (student_set d class_obj \<noteq> []);
              studs = (if has_students then student_set d class_obj else [])
          in (case attendance_loop req subject ass_c_id (ac_date assc) studs (attendances d) of
                Inl ex \<Rightarrow> (Raised ex, [], d)
              | Inr rows \<Rightarrow>
                  (Redirect ''t_class_date'' [a_id (ac_assign assc)],
                   [(MsgSuccess, AttendanceRecorded)],
                   d\<lparr> attendances := rows,
                      attendance_classes :=
                        (attendance_classes d)[ass_c_id := assc\<lparr> ac_status := 1 \<rparr>] \<rparr>)))"

text \<open>
  \<open>get_object_or_404(AttendanceClass, id=assc_id)\<close> with the key read from the
  form (lines 539-540, 560-561): a missing field looks up \<open>id=None\<close> and finds
  nothing, a value that is no number raises ValueError.
\<close>

datatype 'a fetched = Fetched 'a | Missing | Broke exn

definition fetch_assc :: "env \<Rightarrow> db \<Rightarrow> string option \<Rightarrow> (nat \<times> AttendanceClass) fetched" where
  "fetch_assc e d assc_id =
     (case assc_id of
        None \<Rightarrow> Missing
      | Some s \<Rightarrow>
          (case int_of_str e s of
             None \<Rightarrow> Broke ValueError
           | Some i \<Rightarrow>
               if i < 0 then Missing
               else (case get_by_pk (attendance_classes d) (nat i) of
                       None \<Rightarrow> Missing
                     | Some assc \<Rightarrow> Fetched (nat i, assc))))"

record class_date_ctx =
  cd_assign :: Assign
  cd_att_list :: "(AttendanceClass \<times> attendance_statistics) list"
  cd_selected_assc :: "AttendanceClass option"
  cd_has_students :: bool
  cd_students :: "Student list"
  cd_total_students :: int

text \<open>
  Lines 509-524 and 563-584 of \<open>t_class_date\<close>: the sessions of the assignment,
  latest date first, each with its statistics, read before the POST is handled.
\<close>

definition class_date_page ::
  "env \<Rightarrow> db \<Rightarrow> Assign \<Rightarrow> AttendanceClass option \<Rightarrow> class_date_ctx" where
  "class_date_page e d assign selected_assc =
     (let att_list =
            rev (sort_key (\<lambda>(pk, ac). ac_date ac)
                   (filter (\<lambda>(pk, ac). a_id (ac_assign ac) = a_id assign)
                      (zip [0..<length (attendance_classes d)] (attendance_classes d))));
          class_obj = a_class_id assign;
          has_students = (student_set d class_obj \<noteq> []);
          studs = (if has_students then student_set d class_obj else [])
      in \<lparr> cd_assign = assign,
           cd_att_list =
             map (\<lambda>(pk, att_class).
                    (att_class,
                     calculate_attendance_statistics (py_round e)
                       (filter (\<lambda>a. att_attendanceclass a = pk \<and> att_subject a = a_subject assign)
                          (attendances d))))
               att_list,
           cd_selected_assc = selected_assc,
           cd_has_students = has_students,
           cd_students = studs,
           cd_total_students = int (length studs) \<rparr>)"

text \<open>
  The branch \<open>create_attendance\<close> of \<open>t_class_date\<close>, lines 527-536 and the
  rendering that follows it: the session of the date is created unless the assignment
  has one, then read back and shown as the selected session.
\<close>

definition create_attendance :: "env \<Rightarrow> request \<Rightarrow> Assign \<Rightarrow> db \<Rightarrow> class_date_ctx outcome" where
  "create_attendance e req assign d =
     (case POST req ''attendance_date'' of
        None \<Rightarrow> (Raised TypeError, [], d)
      | Some date_str \<Rightarrow>
          (case strptime e date_str of
             None \<Rightarrow>
               (Redirect ''t_class_date'' [a_id assign], [(MsgError, InvalidDateFormat)], d)
           | Some attendance_date \<Rightarrow>
               let key = (\<lambda>ac. a_id (ac_assign ac) = a_id assign \<and> ac_date ac = attendance_date);
                   d1 = (if pks_where key (attendance_classes d) = []
                         then d\<lparr> attendance_classes :=
                                  attendance_classes d @
                                    [\<lparr> ac_assign = assign, ac_date = attendance_date,
                                       ac_status = 0 \<rparr>] \<rparr>
                         else d)
               in (case objects_get key (attendance_classes d1) of
                     Inl ex \<Rightarrow> (Raised ex, [], d1)
                   | Inr pk \<Rightarrow>
                       (Render ''t_class_date.html''
                          (class_date_page e d assign (Some (attendance_classes d1 ! pk))),
                        [], d1))))"

text \<open>The branch \<open>confirm_attendance\<close>, lines 539-557.\<close>

definition confirm_attendance ::
  "env \<Rightarrow> request \<Rightarrow> Assign \<Rightarrow> Student list \<Rightarrow> db \<Rightarrow> class_date_ctx outcome" where
  "confirm_attendance e req assign studs d =
     (case fetch_assc e d (POST req ''assc_id'') of
        Missing \<Rightarrow> (Http404, [], d)
      | Broke ex \<Rightarrow> (Raised ex, [], d)
      | Fetched (assc_pk, assc) \<Rightarrow>
          (case attendance_loop req (a_subject assign) assc_pk (ac_date assc) studs
                  (attendances d) of
             Inl ex \<Rightarrow> (Raised ex, [], d)
           | Inr rows \<Rightarrow>
               (Redirect ''t_class_date'' [a_id assign],
                [(MsgSuccess, AttendanceRecorded)],
                d\<lparr> attendances := rows,
                   attendance_classes :=
                     (attendance_classes d)[assc_pk := assc\<lparr> ac_status := 1 \<rparr>] \<rparr>)))"

text \<open>The branch \<open>select_attendance\<close>, lines 560-561, and its rendering.\<close>

definition select_attendance :: "env \<Rightarrow> request \<Rightarrow> Assign \<Rightarrow> db \<Rightarrow> class_date_ctx outcome" where
  "select_attendance e req assign d =
     (case fetch_assc e d (POST req ''assc_id'') of
        Missing \<Rightarrow> (Http404, [], d)
      | Broke ex \<Rightarrow> (Raised ex, [], d)
      | Fetched (assc_pk, selected_assc) \<Rightarrow>
          (Render ''t_class_date.html'' (class_date_page e d assign (Some selected_assc)),
           [], d))"

text \<open>\<open>t_class_date(request, assign_id)\<close>, lines 505-584.\<close>

definition t_class_date :: "env \<Rightarrow> request \<Rightarrow> nat \<Rightarrow> db \<Rightarrow> class_date_ctx outcome" where
  "t_class_date e req assign_id d =
     (if \<not> is_authenticated (req_user req) then login_redirect d
      else case get_assign_or_404 d assign_id of
        None \<Rightarrow> (Http404, [], d)
      | Some assign \<Rightarrow>
          let class_obj = a_class_id assign;
              has_students = (student_set d class_obj \<noteq> []);
              studs = (if has_students then student_set d class_obj else [])
          in
          if req_method req = ''POST'' \<and> POST req ''create_attendance'' \<noteq> None
          then create_attendance e req assign d
          else if req_method req = ''POST'' \<and> POST req ''confirm_attendance'' \<noteq> None
          then confirm_attendance e req assign studs d
          else if req_method req = ''POST'' \<and> POST req ''select_attendance'' \<noteq> None
          then select_attendance e req assign d
          else (Render ''t_class_date.html'' (class_date_page e d assign None), [], d))"

section \<open>Free teachers for a slot\<close>

record free_teachers_ctx =
  ft_list :: "Teacher list"
  required_subject :: nat
  assignment_time :: AssignTime
  teachers_without_knowledge :: "Teacher list"
  total_teachers_checked :: int
  available_teachers_count :: int

text \<open>
  Line 476: \<open>Teacher.objects.filter(assign__class_id=...).distinct()\<close>, the
  teachers with an assignment to the class, each once.
\<close>

definition teachers_of_class :: "db \<Rightarrow> nat \<Rightarrow> Teacher list" where
  "teachers_of_class d class_id =
     remdups (filter (\<lambda>t. list_ex (\<lambda>a. t_id (a_teacher a) = t_id t \<and> a_class_id a = class_id)
                             (assigns d))
                (teachers d))"

text \<open>
  The loop of lines 481-487, threading \<open>ft_list\<close> and
  \<open>teachers_without_knowledge\<close>.
\<close>

fun free_teachers_loop ::
  "db \<Rightarrow> AssignTime \<Rightarrow> nat \<Rightarrow> Teacher list \<Rightarrow> Teacher list \<times> Teacher list
     \<Rightarrow> Teacher list \<times> Teacher list" where
  "free_teachers_loop d asst required [] acc = acc"
| "free_teachers_loop d asst required (t # ts) (ft, without) =
     (let at_list = filter (\<lambda>at_row. t_id (a_teacher (at_assign at_row)) = t_id t) (assign_times d);
          is_busy = list_ex (\<lambda>at_row. at_period at_row = at_period asst \<and> at_day at_row = at_day asst) at_list;
          has_subject_knowledge =
            list_ex (\<lambda>a. t_id (a_teacher a) = t_id t \<and> a_subject a = required) (assigns d)
      in free_teachers_loop d asst required ts
           (if \<not> is_busy
            then (if has_subject_knowledge then (ft @ [t], without) else (ft, without @ [t]))
            else (ft, without)))"

text \<open>\<open>free_teachers(request, asst_id)\<close>, lines 470-499.\<close>

definition free_teachers :: "request \<Rightarrow> nat \<Rightarrow> db \<Rightarrow> free_teachers_ctx outcome" where
  "free_teachers req asst_id d =
     (if \<not> is_authenticated (req_user req) then login_redirect d
      else case get_by_pk (assign_times d) asst_id of
        None \<Rightarrow> (Http404, [], d)
      | Some asst \<Rightarrow>
          let required = a_subject (at_assign asst);
              t_list = teachers_of_class d (a_class_id (at_assign asst));
              lists = free_teachers_loop d asst required t_list ([], [])
          in (Render ''free_teachers.html''
                \<lparr> ft_list = fst lists, required_subject = required, assignment_time = asst,
                  teachers_without_knowledge = snd lists,
                  total_teachers_checked = int (length t_list),
                  available_teachers_count = int (length (fst lists)) \<rparr>,
              (if fst lists = [] then [(MsgWarning, NoAvailableTeachers)] else []),
              d))"

section \<open>Timetable\<close>

text \<open>
  Lines 422-429: the slot list with the two markers. \<open>TIME_SLOTS\<close>,
  \<open>BREAK_PERIOD\<close> and \<open>LUNCH_PERIOD\<close> come from \<open>utils/constant.py\<close> and are
  parameters; the two slot labels are literals of the view.
\<close>

fun time_slots_loop :: "string \<Rightarrow> string \<Rightarrow> string list \<Rightarrow> string list \<Rightarrow> string list" where
  "time_slots_loop BREAK LUNCH [] time_slots = time_slots"
| "time_slots_loop BREAK LUNCH (slot # rest) time_slots =
     time_slots_loop BREAK LUNCH rest
       (if slot = ''9:30 - 10:30'' then (time_slots @ [slot]) @ [BREAK]
        else if slot = ''12:40 - 1:30'' then (time_slots @ [slot]) @ [LUNCH]
        else time_slots @ [slot])"

definition build_time_slots :: "string \<Rightarrow> string \<Rightarrow> string list \<Rightarrow> string list" where
  "build_time_slots BREAK LUNCH base_slots = time_slots_loop BREAK LUNCH base_slots []"

record cell =
  cell_subject :: nat
  cell_teacher :: Teacher
  cell_assignment :: Assign

text \<open>
  The grid is a dict of dicts: a day that is no key has no row, a slot that is no key
  of the row has no cell, and a cell holds \<open>None\<close> or the assignment placed there.
\<close>

type_synonym timetable = "string \<Rightarrow> (string \<Rightarrow> cell option option) option"

text \<open>Line 431: every cell of every day starts as \<open>None\<close>.\<close>

definition empty_timetable :: "string list \<Rightarrow> string list \<Rightarrow> timetable" where
  "empty_timetable days time_slots =
     map_of (map (\<lambda>day. (day, map_of (map (\<lambda>slot. (slot, None)) time_slots))) days)"

text \<open>Lines 432-438: each scheduled slot goes to its cell when the grid has that cell.\<close>

fun fill_timetable :: "AssignTime list \<Rightarrow> timetable \<Rightarrow> timetable" where
  "fill_timetable [] tt = tt"
| "fill_timetable (at_row # rest) tt =
     fill_timetable rest
       (case tt (at_day at_row) of
          None \<Rightarrow> tt
        | Some row \<Rightarrow>
            (case row (at_period at_row) of
               None \<Rightarrow> tt
             | Some c \<Rightarrow>
                 tt(at_day at_row \<mapsto>
                      row(at_period at_row \<mapsto>
                            Some \<lparr> cell_subject = a_subject (at_assign at_row),
                                   cell_teacher = a_teacher (at_assign at_row),
                                   cell_assignment = at_assign at_row \<rparr>))))"

definition build_timetable ::
  "string list \<Rightarrow> string \<Rightarrow> string \<Rightarrow> string list \<Rightarrow> AssignTime list \<Rightarrow> timetable" where
  "build_timetable days BREAK LUNCH base_slots asst =
     fill_timetable asst (empty_timetable days (build_time_slots BREAK LUNCH base_slots))"

text \<open>The cell of a day and a slot: \<open>None\<close> when the grid has no such cell.\<close>

definition cell_at :: "timetable \<Rightarrow> string \<Rightarrow> string \<Rightarrow> cell option option" where
  "cell_at tt day slot = (case tt day of None \<Rightarrow> None | Some row \<Rightarrow> row slot)"

text \<open>
  The constants of the timetable, and the filters of lines 367-419 (academic year,
  semester and the date range of the week), which depend on the clock and on
  \<open>utils/date_utils.py\<close>: \<open>week_filter\<close> says which scheduled slots they keep.
\<close>

record timetable_env =
  DAYS_OF_WEEK :: "string list"
  TIME_SLOTS :: "string list"
  BREAK_PERIOD :: string
  LUNCH_PERIOD :: string
  week_filter :: "request \<Rightarrow> AssignTime \<Rightarrow> bool"

record timetable_ctx =
  tt_teacher :: Teacher
  tt_timetable :: timetable
  tt_days :: "string list"
  tt_time_slots :: "string list"

text \<open>\<open>t_timetable(request, teacher_id)\<close>, lines 354-464.\<close>

definition t_timetable :: "timetable_env \<Rightarrow> request \<Rightarrow> nat \<Rightarrow> db \<Rightarrow> timetable_ctx outcome" where
  "t_timetable te req teacher_id d =
     (if \<not> is_authenticated (req_user req) then login_redirect d
      else case get_teacher_or_404 d teacher_id of
        None \<Rightarrow> (Http404, [], d)
      | Some teacher \<Rightarrow>
          if t_user teacher \<noteq> Some (u_id (req_user req)) \<and>
             \<not> (is_staff (req_user req) \<or> is_superuser (req_user req))
          then (Redirect ''teacher_dashboard'' [], [(MsgError, TimetableAccessDenied)], d)
          else
            let asst = filter (\<lambda>at_row. t_id (a_teacher (at_assign at_row)) = teacher_id \<and> week_filter te req at_row)
                         (assign_times d)
            in (Render ''t_timetable.html''
                  \<lparr> tt_teacher = teacher,
                    tt_timetable =
                      build_timetable (DAYS_OF_WEEK te) (BREAK_PERIOD te) (LUNCH_PERIOD te)
                        (TIME_SLOTS te) asst,
                    tt_days = DAYS_OF_WEEK te,
                    tt_time_slots = build_time_slots (BREAK_PERIOD te) (LUNCH_PERIOD te) (TIME_SLOTS te) \<rparr>,
                [], d))"

section \<open>Students of an assignment with totals\<close>

record student_row =
  sr_student :: Student
  sr_marks :: "Marks list"
  sr_total_marks :: int
  sr_attendance_percentage :: real
  sr_cie_score :: int
  sr_total_classes :: int
  sr_attended_classes :: int
  sr_is_registered :: bool

text \<open>
  \<open>student_subject.marks_set.all().order_by('name')\<close>, line 783: the Marks rows of
  one enrolment, ordered by the name of the exam.
\<close>

definition marks_by_name :: "db \<Rightarrow> nat \<Rightarrow> Marks list" where
  "marks_by_name d student_subject =
     sort_key m_name (filter (\<lambda>m. m_studentsubject m = student_subject) (marks d))"

text \<open>The body of the loop of \<open>view_students\<close>, lines 781-812, for one student.\<close>

definition student_data :: "env \<Rightarrow> db \<Rightarrow> Assign \<Rightarrow> Student \<Rightarrow> exn + student_row" where
  "student_data e d assignment student =
     (case objects_get (\<lambda>ss. ss_student ss = s_pk student \<and> ss_subject ss = a_subject assignment)
             (student_subjects d) of
        Inl DoesNotExist \<Rightarrow>
          Inr \<lparr> sr_student = student, sr_marks = [], sr_total_marks = 0,
                sr_attendance_percentage = 0, sr_cie_score = 0, sr_total_classes = 0,
                sr_attended_classes = 0, sr_is_registered = False \<rparr>
      | Inl ex \<Rightarrow> Inl ex
      | Inr student_subject \<Rightarrow>
          let ms = marks_by_name d student_subject;
              total = total_marks (map m_marks1 ms);
              attendance_records =
                filter (\<lambda>a. att_student a = s_pk student \<and> att_subject a = a_subject assignment)
                  (attendances d);
              total_classes = int (length attendance_records);
              attended_classes = int (length (filter (\<lambda>a. att_status a = True) attendance_records));
              percentage =
                (if 0 < total_classes
                 then py_round e (float_mul (float_truediv attended_classes total_classes) 100) 2
                 else 0);
              marks_list = map m_marks1 ms
          in (case cie_score (CIE_CALCULATION_LIMIT e) (CIE_DIVISOR e) marks_list of
                Inl ex \<Rightarrow> Inl ex
              | Inr cie \<Rightarrow>
                  Inr \<lparr> sr_student = student, sr_marks = ms, sr_total_marks = total,
                        sr_attendance_percentage = percentage, sr_cie_score = cie,
                        sr_total_classes = total_classes, sr_attended_classes = attended_classes,
                        sr_is_registered = True \<rparr>))"

fun students_data_loop :: "env \<Rightarrow> db \<Rightarrow> Assign \<Rightarrow> Student list \<Rightarrow> exn + student_row list" where
  "students_data_loop e d assignment [] = Inr []"
| "students_data_loop e d assignment (student # rest) =
     (case student_data e d assignment student of
        Inl ex \<Rightarrow> Inl ex
      | Inr row \<Rightarrow>
          (case students_data_loop e d assignment rest of
             Inl ex \<Rightarrow> Inl ex
           | Inr rows \<Rightarrow> Inr (row # rows)))"

record view_students_ctx =
  vs_assignment :: Assign
  vs_students_data :: "student_row list"
  vs_students_total :: int

text \<open>
  \<open>view_students(request, assign_id)\<close>, lines 765-832. The context holds the rows
  before Django's paginator cuts them into pages of 25.
\<close>

definition view_students :: "env \<Rightarrow> request \<Rightarrow> nat \<Rightarrow> db \<Rightarrow> view_students_ctx outcome" where
  "view_students e req assign_id d =
     (if \<not> is_authenticated (req_user req) then login_redirect d
      else case get_assign_or_404 d assign_id of
        None \<Rightarrow> (Http404, [], d)
      | Some assignment \<Rightarrow>
          let owner_user = t_user (a_teacher assignment) in
          if owner_user \<noteq> None \<and> owner_user \<noteq> Some (u_id (req_user req))
          then (Redirect ''teacher_dashboard'' [], [(MsgError, AssignmentAccessDenied)], d)
          else
            let studs = sort_key s_name (student_set d (a_class_id assignment)) in
            (case students_data_loop e d assignment studs of
               Inl ex \<Rightarrow> (Raised ex, [], d)
             | Inr students_data \<Rightarrow>
                 (Render ''t_view_students.html''
                    \<lparr> vs_assignment = assignment, vs_students_data = students_data,
                      vs_students_total = int (length students_data) \<rparr>,
                  [], d)))"

section \<open>The views that only read\<close>

text \<open>
  These views look rows up, compute a view model in Python objects and render; none
  of them calls \<open>save\<close>, \<open>create\<close> or \<open>get_or_create\<close>. Their answer is modelled up
  to the first lookup and the template; the context is kept where a calculator above
  produces it. An ORM exception while the view model is assembled (two StudentSubject
  rows of one student in the loop of \<open>t_marks_entry\<close>, say) would answer with a
  server error in place of the page, and leave the database unchanged as well.
\<close>

text \<open>\<open>teacher_dashboard(request)\<close>, lines 56-72.\<close>

definition teacher_dashboard :: "request \<Rightarrow> db \<Rightarrow> Teacher outcome" where
  "teacher_dashboard req d =
     (if \<not> is_authenticated (req_user req) then login_redirect d
      else if \<not> is_teacher (req_user req)
      then (Redirect ''unified_login'' [], [(MsgError, TeacherCredentialsRequired)], d)
      else (case pks_where (\<lambda>t. t_user t = Some (u_id (req_user req))) (teachers d) of
              [] \<Rightarrow> (Redirect ''unified_logout'' [], [(MsgError, TeacherProfileNotFound)], d)
            | [i] \<Rightarrow> (Render ''t_homepage.html'' (teachers d ! i), [], d)
            | i # j # ks \<Rightarrow> (Raised MultipleObjectsReturned, [], d)))"

text \<open>\<open>teacher_logout(request)\<close>, lines 75-77, and \<open>index(request)\<close>, lines 80-83.\<close>

definition teacher_logout :: "request \<Rightarrow> db \<Rightarrow> unit outcome" where
  "teacher_logout req d = (Redirect ''unified_logout'' [], [], d)"

definition index :: "request \<Rightarrow> db \<Rightarrow> unit outcome" where
  "index req d =
     (if \<not> is_authenticated (req_user req) then login_redirect d
      else (Redirect ''teacher_dashboard'' [], [], d))"

text \<open>\<open>t_clas(request, teacher_id, choice)\<close>, lines 89-174.\<close>

definition t_clas :: "request \<Rightarrow> nat \<Rightarrow> nat \<Rightarrow> db \<Rightarrow> Teacher outcome" where
  "t_clas req teacher_id choice d =
     (if \<not> is_authenticated (req_user req) then login_redirect d
      else case get_teacher_or_404 d teacher_id of
        None \<Rightarrow> (Http404, [], d)
      | Some teacher1 \<Rightarrow> (Render ''t_clas.html'' teacher1, [], d))"

text \<open>
  \<open>t_marks_entry(request, marks_c_id)\<close>, lines 227-273, and
  \<open>edit_marks(request, marks_c_id)\<close>, lines 304-348: the same page, the second with
  \<open>is_edit_mode\<close> set.
\<close>

definition t_marks_entry :: "request \<Rightarrow> nat \<Rightarrow> db \<Rightarrow> (ExamSession \<times> bool) outcome" where
  "t_marks_entry req marks_c_id d =
     (if \<not> is_authenticated (req_user req) then login_redirect d
      else case get_by_pk (exam_sessions d) marks_c_id of
        None \<Rightarrow> (Http404, [], d)
      | Some exam_session \<Rightarrow> (Render ''t_marks_entry.html'' (exam_session, False), [], d))"

definition edit_marks :: "request \<Rightarrow> nat \<Rightarrow> db \<Rightarrow> (ExamSession \<times> bool) outcome" where
  "edit_marks req marks_c_id d =
     (if \<not> is_authenticated (req_user req) then login_redirect d
      else case get_by_pk (exam_sessions d) marks_c_id of
        None \<Rightarrow> (Http404, [], d)
      | Some exam_session \<Rightarrow> (Render ''t_marks_entry.html'' (exam_session, True), [], d))"

text \<open>\<open>t_attendance(request, ass_c_id)\<close>, lines 587-615.\<close>

definition t_attendance :: "request \<Rightarrow> nat \<Rightarrow> db \<Rightarrow> (AttendanceClass \<times> Student list) outcome" where
  "t_attendance req ass_c_id d =
     (if \<not> is_authenticated (req_user req) then login_redirect d
      else case get_by_pk (attendance_classes d) ass_c_id of
        None \<Rightarrow> (Http404, [], d)
      | Some assc \<Rightarrow>
          (Render ''t_attendance.html'' (assc, student_set d (a_class_id (ac_assign assc))), [], d))"

text \<open>
  \<open>edit_att(request, ass_c_id)\<close>, lines 645-664, and
  \<open>view_att(request, ass_c_id)\<close>, lines 667-698.
\<close>

definition edit_att :: "env \<Rightarrow> request \<Rightarrow> nat \<Rightarrow> db \<Rightarrow> (Attendance list \<times> attendance_statistics) outcome" where
  "edit_att e req ass_c_id d =
     (if \<not> is_authenticated (req_user req) then login_redirect d
      else case get_by_pk (attendance_classes d) ass_c_id of
        None \<Rightarrow> (Http404, [], d)
      | Some assc \<Rightarrow>
          let att_list =
                filter (\<lambda>a. att_attendanceclass a = ass_c_id \<and> att_subject a = a_subject (ac_assign assc))
                  (attendances d)
          in (Render ''t_edit_att.html''
                (att_list, calculate_attendance_statistics (py_round e) att_list), [], d))"

definition view_att :: "env \<Rightarrow> request \<Rightarrow> nat \<Rightarrow> db \<Rightarrow> (Attendance list \<times> attendance_statistics) outcome" where
  "view_att e req ass_c_id d =
     (if \<not> is_authenticated (req_user req) then login_redirect d
      else case get_by_pk (attendance_classes d) ass_c_id of
        None \<Rightarrow> (Http404, [], d)
      | Some assc \<Rightarrow>
          let att_list =
                filter (\<lambda>a. att_attendanceclass a = ass_c_id \<and> att_subject a = a_subject (ac_assign assc))
                  (attendances d)
          in (Render ''t_view_att.html''
                (att_list, calculate_attendance_statistics (py_round e) att_list), [], d))"

text \<open>
  \<open>t_report(request, assign_id)\<close>, lines 704-759. The figures of the report come
  from \<open>get_attendance()\<close> and \<open>get_cie()\<close> of \<open>students/models.py\<close>.
\<close>

definition t_report :: "request \<Rightarrow> nat \<Rightarrow> db \<Rightarrow> Assign outcome" where
  "t_report req assign_id d =
     (if \<not> is_authenticated (req_user req) then login_redirect d
      else case get_assign_or_404 d assign_id of
        None \<Rightarrow> (Http404, [], d)
      | Some ass \<Rightarrow> (Render ''t_report.html'' ass, [], d))"

section \<open>The module as a whole\<close>

text \<open>One call of a view of the module, with the arguments its URL carries.\<close>

datatype view_call =
    Teacher_dashboard
  | Teacher_logout
  | Index
  | T_clas nat nat
  | T_marks_list nat
  | T_marks_entry nat
  | Marks_confirm nat
  | Edit_marks nat
  | T_timetable nat
  | Free_teachers nat
  | T_class_date nat
  | T_attendance nat
  | Confirm nat
  | Edit_att nat
  | View_att nat
  | T_report nat
  | View_students nat

definition forget :: "'c outcome \<Rightarrow> unit outcome" where
  "forget out = (map_response (\<lambda>c. ()) (fst out), snd out)"

fun dispatch :: "env \<Rightarrow> timetable_env \<Rightarrow> view_call \<Rightarrow> request \<Rightarrow> db \<Rightarrow> unit outcome" where
  "dispatch e te Teacher_dashboard req d = forget (teacher_dashboard req d)"
| "dispatch e te Teacher_logout req d = forget (teacher_logout req d)"
| "dispatch e te Index req d = forget (index req d)"
| "dispatch e te (T_clas teacher_id choice) req d = forget (t_clas req teacher_id choice d)"
| "dispatch e te (T_marks_list assign_id) req d = forget (t_marks_list req assign_id d)"
| "dispatch e te (T_marks_entry marks_c_id) req d = forget (t_marks_entry req marks_c_id d)"
| "dispatch e te (Marks_confirm marks_c_id) req d = forget (marks_confirm e req marks_c_id d)"
| "dispatch e te (Edit_marks marks_c_id) req d = forget (edit_marks req marks_c_id d)"
| "dispatch e te (T_timetable teacher_id) req d = forget (t_timetable te req teacher_id d)"
| "dispatch e te (Free_teachers asst_id) req d = forget (free_teachers req asst_id d)"
| "dispatch e te (T_class_date assign_id) req d = forget (t_class_date e req assign_id d)"
| "dispatch e te (T_attendance ass_c_id) req d = forget (t_attendance req ass_c_id d)"
| "dispatch e te (Confirm ass_c_id) req d = forget (confirm req ass_c_id d)"
| "dispatch e te (Edit_att ass_c_id) req d = forget (edit_att e req ass_c_id d)"
| "dispatch e te (View_att ass_c_id) req d = forget (view_att e req ass_c_id d)"
| "dispatch e te (T_report assign_id) req d = forget (t_report req assign_id d)"
| "dispatch e te (View_students assign_id) req d = forget (view_students e req assign_id d)"

text \<open>A sequence of calls, each on the database the previous one left.\<close>

fun run :: "env \<Rightarrow> timetable_env \<Rightarrow> (view_call \<times> request) list \<Rightarrow> db \<Rightarrow> db" where
  "run e te [] d = d"
| "run e te ((call, req) # rest) d = run e te rest (db_of (dispatch e te call req d))"

section \<open>A small school to evaluate the views on\<close>

definition user_A :: user where
  "user_A = \<lparr> u_id = 10, is_authenticated = True, is_teacher = True, is_staff = False,
              is_superuser = False \<rparr>"

definition user_B :: user where
  "user_B = \<lparr> u_id = 20, is_authenticated = True, is_teacher = True, is_staff = False,
              is_superuser = False \<rparr>"

definition teacher_A :: Teacher where
  "teacher_A = \<lparr> t_id = 1, t_name = ''A'', t_user = Some 10 \<rparr>"

definition teacher_B :: Teacher where
  "teacher_B = \<lparr> t_id = 2, t_name = ''B'', t_user = Some 20 \<rparr>"

definition teacher_C :: Teacher where
  "teacher_C = \<lparr> t_id = 3, t_name = ''C'', t_user = None \<rparr>"

definition assign_X :: Assign where
  "assign_X = \<lparr> a_id = 1, a_teacher = teacher_A, a_subject = 7, a_class_id = 5,
                a_academic_year = ''2024-2025'', a_semester = 1 \<rparr>"

definition assign_Y :: Assign where
  "assign_Y = \<lparr> a_id = 2, a_teacher = teacher_B, a_subject = 8, a_class_id = 5,
                a_academic_year = ''2024-2025'', a_semester = 1 \<rparr>"

definition assign_Z :: Assign where
  "assign_Z = \<lparr> a_id = 3, a_teacher = teacher_C, a_subject = 7, a_class_id = 5,
                a_academic_year = ''2024-2025'', a_semester = 1 \<rparr>"

definition student_1 :: Student where
  "student_1 = \<lparr> s_pk = 1, USN = ''USN1'', s_name = ''Ann'', s_class_id = 5 \<rparr>"

definition student_2 :: Student where
  "student_2 = \<lparr> s_pk = 2, USN = ''USN2'', s_name = ''Bob'', s_class_id = 5 \<rparr>"

text \<open>
  Teacher A teaches subject 7 to class 5 on Monday 9:30, teacher B subject 8 on Monday
  11:00, teacher C (who has no user account) subject 7 on Tuesday 9:30. The class has
  two students, both enrolled in subject 7. Nothing has been recorded yet.
\<close>

definition school :: db where
  "school = \<lparr> teachers = [teacher_A, teacher_B, teacher_C],
              assigns = [assign_X, assign_Y, assign_Z],
              assign_times =
                [\<lparr> at_assign = assign_X, at_period = ''9:30 - 10:30'', at_day = ''Monday'' \<rparr>,
                 \<lparr> at_assign = assign_Y, at_period = ''11:00 - 11:50'', at_day = ''Monday'' \<rparr>,
                 \<lparr> at_assign = assign_Z, at_period = ''9:30 - 10:30'', at_day = ''Tuesday'' \<rparr>],
              students = [student_1, student_2],
              exam_sessions = [],
              attendance_classes = [],
              attendances = [],
              student_subjects =
                [\<lparr> ss_student = 1, ss_subject = 7 \<rparr>, \<lparr> ss_student = 2, ss_subject = 7 \<rparr>],
              marks = [] \<rparr>"

text \<open>A GET request, and a POST with the given form fields, of a user.\<close>

definition get_request :: "user \<Rightarrow> request" where
  "get_request u = \<lparr> req_user = u, req_method = ''GET'', POST = (\<lambda>k. None), GET = (\<lambda>k. None) \<rparr>"

definition post_request :: "user \<Rightarrow> (string \<times> string) list \<Rightarrow> request" where
  "post_request u form =
     \<lparr> req_user = u, req_method = ''POST'', POST = map_of form, GET = (\<lambda>k. None) \<rparr>"

text \<open>
  A runtime for evaluation: it reads one date, converts the decimal strings the
  examples submit, rounds as CPython does, and has the CIE constants 5 and 2.
\<close>

definition runtime :: env where
  "runtime = \<lparr> strptime = (\<lambda>s. if s = ''2024-01-10'' then Some 738895 else None),
               int_of_str = (\<lambda>s. if s = ''18'' then Some 18 else if s = ''20'' then Some 20
                                  else if s = ''0'' then Some 0 else if s = ''1'' then Some 1
                                  else None),
               py_round = round_float,
               CIE_CALCULATION_LIMIT = 5,
               CIE_DIVISOR = 2 \<rparr>"

text \<open>
  The school after teacher A has opened an attendance session for 2024-01-10 and an
  exam session \<open>Mid-1\<close> for the assignment of subject 7 to class 5.
\<close>

definition school_in_term :: db where
  "school_in_term =
     school\<lparr> exam_sessions := [\<lparr> es_assign = assign_X, es_name = ''Mid-1'', es_status = False \<rparr>],
             attendance_classes := [\<lparr> ac_assign = assign_X, ac_date = 738895, ac_status = 0 \<rparr>] \<rparr>"

text \<open>
  The attendance form teacher A submits for session 0: student USN1 present, student
  USN2 with a value that is not \<open>present\<close>.
\<close>

definition confirm_form :: request where
  "confirm_form = post_request user_A
      [(''confirm_attendance'', ''1''), (''assc_id'', ''0''), (''USN1'', ''present''), (''USN2'', ''late'')]"

text \<open>
  The form with which teacher A creates the exam session \<open>Mid-1\<close> and the attendance
  session of 2024-01-10.
\<close>

definition create_form :: request where
  "create_form = post_request user_A
      [(''create_exam'', ''1''), (''exam_name'', ''Mid-1''),
       (''create_attendance'', ''1''), (''attendance_date'', ''2024-01-10'')]"

text \<open>The marks teacher A submits for the exam session 0: 18 and 20.\<close>

definition marks_form :: request where
  "marks_form = post_request user_A [(''USN1'', ''18''), (''USN2'', ''20'')]"

text \<open>
  Timetable constants for evaluation, with a week filter that keeps every slot, and a
  term of teacher A: marks confirmed, exam and attendance creation repeated,
  attendance confirmed, and a page read by teacher B.
\<close>

definition timetable_consts :: timetable_env where
  "timetable_consts =
     \<lparr> DAYS_OF_WEEK = [''Monday'', ''Tuesday''],
       TIME_SLOTS = [''8:30 - 9:30'', ''9:30 - 10:30'', ''11:00 - 11:50'', ''12:40 - 1:30''],
       BREAK_PERIOD = ''Break'',
       LUNCH_PERIOD = ''Lunch'',
       week_filter = (\<lambda>req at_row. True) \<rparr>"

definition term_calls :: "(view_call \<times> request) list" where
  "term_calls =
     [(Marks_confirm 0, marks_form), (T_marks_list 1, create_form), (Confirm 0, confirm_form),
      (T_class_date 1, create_form), (T_marks_entry 0, get_request user_B)]"

text \<open>
  Teacher B, who owns neither assignment, submits marks for the exam session of
  teacher A, and creates an exam session for the assignment of teacher C.
\<close>

definition marks_form_B :: request where
  "marks_form_B = post_request user_B [(''USN1'', ''18''), (''USN2'', ''20'')]"

definition create_form_B :: request where
  "create_form_B = post_request user_B [(''create_exam'', ''1''), (''exam_name'', ''Quiz'')]"

text \<open>
  The school after six exams of the assignment of subject 7 to class 5, created in the
  order T6, T1, T3, T2, T5, T4, with the marks of student Ann entered in that order:
  7 for T6, 9 for T1 and 10 for each of the others.
\<close>

definition school_graded :: db where
  "school_graded =
     school\<lparr> exam_sessions :=
               [\<lparr> es_assign = assign_X, es_name = ''T6'', es_status = True \<rparr>,
                \<lparr> es_assign = assign_X, es_name = ''T1'', es_status = True \<rparr>,
                \<lparr> es_assign = assign_X, es_name = ''T3'', es_status = True \<rparr>,
                \<lparr> es_assign = assign_X, es_name = ''T2'', es_status = True \<rparr>,
                \<lparr> es_assign = assign_X, es_name = ''T5'', es_status = True \<rparr>,
                \<lparr> es_assign = assign_X, es_name = ''T4'', es_status = True \<rparr>],
             marks :=
               [\<lparr> m_studentsubject = 0, m_name = ''T6'', m_marks1 = 7 \<rparr>,
                \<lparr> m_studentsubject = 0, m_name = ''T1'', m_marks1 = 9 \<rparr>,
                \<lparr> m_studentsubject = 0, m_name = ''T3'', m_marks1 = 10 \<rparr>,
                \<lparr> m_studentsubject = 0, m_name = ''T2'', m_marks1 = 10 \<rparr>,
                \<lparr> m_studentsubject = 0, m_name = ''T5'', m_marks1 = 10 \<rparr>,
                \<lparr> m_studentsubject = 0, m_name = ''T4'', m_marks1 = 10 \<rparr>] \<rparr>"

section \<open>Predicates of the properties\<close>



section \<open>Properties\<close>

subsection \<open>Outcomes\<close>

lemma db_of_triple: "db_of (r, m, d) = d"
  by (simp add: db_of_def)

lemma response_of_triple: "response_of (r, m, d) = r"
  by (simp add: response_of_def)

lemma messages_of_triple: "messages_of (r, m, d) = m"
  by (simp add: messages_of_def)

subsection \<open>Floats\<close>

text \<open>
  What the rounding to a double keeps: the binade of a number, its ceiling when it is
  a quotient of two integers below \<open>2^53\<close>, and the number itself up to half a
  unit of the last of the 53 bits.
\<close>

lemma bit_length_pos: "0 < n \<Longrightarrow> 0 < bit_length n"
  by (subst bit_length.simps) simp

lemma bit_length_bounds:
  "0 < n \<Longrightarrow> 2 ^ (bit_length n - 1) \<le> n \<and> n < 2 ^ bit_length n"
proof (induction n rule: bit_length.induct)
  case (1 n)
  show ?case
  proof (cases "n = 1")
    case True
    have "bit_length 1 = Suc (bit_length 0)"
      by (subst bit_length.simps) simp
    also have "bit_length 0 = 0"
      by (subst bit_length.simps) simp
    finally show ?thesis using True by simp
  next
    case False
    with "1.prems" have h: "0 < n div 2" by simp
    have n: "\<not> n \<le> 0" using "1.prems" by simp
    from "1.IH" [OF n h]
    have lo: "2 ^ (bit_length (n div 2) - 1) \<le> n div 2"
      and hi: "n div 2 < 2 ^ bit_length (n div 2)" by simp_all
    have bl: "bit_length n = Suc (bit_length (n div 2))"
      using n by (subst bit_length.simps) simp
    obtain j where j: "bit_length (n div 2) = Suc j"
      using bit_length_pos [OF h] by (cases "bit_length (n div 2)") simp_all
    have "(2::int) ^ Suc j \<le> 2 * (n div 2)" using lo j by simp
    also have "\<dots> \<le> n" by simp
    finally have 1: "(2::int) ^ (bit_length n - 1) \<le> n" using bl j by simp
    have "n < 2 * (n div 2) + 2" by simp
    also have "\<dots> \<le> 2 * 2 ^ bit_length (n div 2)" using hi by simp
    finally have 2: "n < 2 ^ bit_length n" using bl by simp
    from 1 2 show ?thesis ..
  qed
qed

lemma two_to_powr: "two_to e = 2 powr real_of_int e"
  by (simp add: two_to_def powr_real_of_int field_simps)

lemma two_to_pos: "0 < two_to e"
  by (simp add: two_to_powr)

lemma two_to_mono: "e \<le> e' \<Longrightarrow> two_to e \<le> two_to e'"
  by (simp add: two_to_powr)

lemma two_to_nat: "two_to (int k) = 2 ^ k"
  by (simp add: two_to_def)

lemma two_to_neg: "two_to (- int k) = 1 / 2 ^ k"
  by (simp add: two_to_def)

lemma float_exponent_bounds:
  assumes "x \<noteq> 0"
  shows "two_to (float_exponent x) \<le> \<bar>x\<bar> \<and> \<bar>x\<bar> < two_to (float_exponent x + 1)"
proof (cases "1 \<le> \<bar>x\<bar>")
  case True
  define n where "n = \<lfloor>\<bar>x\<bar>\<rfloor>"
  have n: "0 < n" using True by (simp add: n_def)
  obtain j where j: "bit_length n = Suc j"
    using bit_length_pos [OF n] by (cases "bit_length n") simp_all
  from bit_length_bounds [OF n] j have lo: "2 ^ j \<le> n" and hi: "n < 2 ^ Suc j" by simp_all
  have ex: "float_exponent x = int j"
    using True j by (simp add: float_exponent_def n_def)
  have "real_of_int (2 ^ j) \<le> real_of_int n" using lo by linarith
  also have "real_of_int n \<le> \<bar>x\<bar>" by (simp add: n_def)
  finally have 1: "two_to (float_exponent x) \<le> \<bar>x\<bar>" by (simp add: ex two_to_nat)
  have "n + 1 \<le> 2 ^ Suc j" using hi by simp
  then have "real_of_int (n + 1) \<le> real_of_int (2 ^ Suc j)" by linarith
  moreover have "\<bar>x\<bar> < real_of_int (n + 1)" by (simp add: n_def)
  ultimately have "\<bar>x\<bar> < 2 ^ Suc j" by simp
  moreover have "two_to (float_exponent x + 1) = 2 ^ Suc j"
    using two_to_nat [of "Suc j"] by (simp add: ex add.commute)
  ultimately have 2: "\<bar>x\<bar> < two_to (float_exponent x + 1)" by simp
  from 1 2 show ?thesis ..
next
  case False
  define y where "y = 1 / \<bar>x\<bar>"
  have x: "0 < \<bar>x\<bar>" "\<bar>x\<bar> < 1" using assms False by simp_all
  have y1: "1 < y" using x by (simp add: y_def)
  define n where "n = \<lceil>y\<rceil> - 1"
  have n: "0 < n" using y1 by (simp add: n_def)
  obtain j where j: "bit_length n = Suc j"
    using bit_length_pos [OF n] by (cases "bit_length n") simp_all
  from bit_length_bounds [OF n] j have lo: "2 ^ j \<le> n" and hi: "n < 2 ^ Suc j" by simp_all
  have ex: "float_exponent x = - int (Suc j)"
    using False j by (simp add: float_exponent_def n_def y_def)
  have "y \<le> real_of_int (n + 1)" by (simp add: n_def)
  also have "real_of_int (n + 1) \<le> real_of_int (2 ^ Suc j)" using hi by linarith
  finally have yhi: "y \<le> 2 ^ Suc j" by simp
  have "real_of_int (2 ^ j) \<le> real_of_int n" using lo by linarith
  also have "real_of_int n < y" by (simp add: n_def) linarith
  finally have ylo: "2 ^ j < y" by simp
  have xy: "\<bar>x\<bar> = 1 / y" by (simp add: y_def)
  have 1: "two_to (float_exponent x) \<le> \<bar>x\<bar>"
    unfolding ex two_to_neg xy using yhi y1 by (simp add: field_simps)
  have "float_exponent x + 1 = - int j" by (simp add: ex)
  then have "two_to (float_exponent x + 1) = 1 / 2 ^ j" by (simp add: two_to_neg)
  moreover have "1 / y < 1 / 2 ^ j" using ylo y1 by (simp add: field_simps)
  ultimately have 2: "\<bar>x\<bar> < two_to (float_exponent x + 1)" by (simp add: xy)
  from 1 2 show ?thesis ..
qed

lemma nearest_even_half: "\<bar>real_of_int (nearest_even y) - y\<bar> \<le> 1 / 2"
proof -
  have "real_of_int \<lfloor>y\<rfloor> \<le> y" "y < real_of_int \<lfloor>y\<rfloor> + 1" by linarith+
  then show ?thesis
    by (auto simp add: nearest_even_def Let_def)
qed

lemma nearest_even_le:
  assumes "y \<le> real_of_int N"
  shows "nearest_even y \<le> N"
proof -
  have "real_of_int (nearest_even y) \<le> y + 1 / 2"
    using nearest_even_half [of y] by linarith
  with assms have "real_of_int (nearest_even y) < real_of_int (N + 1)" by simp
  then show ?thesis by linarith
qed

lemma nearest_even_gt:
  assumes "real_of_int N + 1 / 2 < y"
  shows "N < nearest_even y"
proof -
  have "y - 1 / 2 \<le> real_of_int (nearest_even y)"
    using nearest_even_half [of y] by linarith
  with assms have "real_of_int N < real_of_int (nearest_even y)" by linarith
  then show ?thesis by linarith
qed


lemma float_round_ceiling:
  fixes a b :: int
  assumes a: "\<bar>a\<bar> < 2 ^ 53" and b0: "b \<noteq> 0" and b: "\<bar>b\<bar> < 2 ^ 53"
  shows "\<lceil>float_round (real_of_int a / real_of_int b)\<rceil> = \<lceil>real_of_int a / real_of_int b\<rceil>"
proof (cases "a = 0")
  case True
  then show ?thesis by (simp add: float_round_def)
next
  case False
  define q where "q = real_of_int a / real_of_int b"
  define e0 where "e0 = float_exponent q"
  define A where "A = real_of_int \<bar>a\<bar>"
  define B where "B = real_of_int \<bar>b\<bar>"
  have q0: "q \<noteq> 0" using False b0 by (simp add: q_def)
  have absq: "\<bar>q\<bar> = A / B" by (simp add: q_def A_def B_def)
  have a1: "1 \<le> A" unfolding A_def using False by linarith
  have b1: "1 \<le> B" unfolding B_def using b0 by linarith
  have ar: "A < 2 ^ 53"
    unfolding A_def using a of_int_less_iff [of "\<bar>a\<bar>" "2 ^ 53", where ?'a = real] by simp
  have br: "B < 2 ^ 53"
    unfolding B_def using b of_int_less_iff [of "\<bar>b\<bar>" "2 ^ 53", where ?'a = real] by simp
  from float_exponent_bounds [OF q0]
  have lo: "two_to e0 \<le> \<bar>q\<bar>" and hi: "\<bar>q\<bar> < two_to (e0 + 1)" by (simp_all add: e0_def)
  have qlow: "1 / 2 ^ 53 < \<bar>q\<bar>"
  proof -
    have "1 / 2 ^ 53 < 1 / B" using b1 br by (simp add: field_simps)
    also have "\<dots> \<le> \<bar>q\<bar>" unfolding absq using a1 b1 by (simp add: field_simps)
    finally show ?thesis .
  qed
  have qhigh: "\<bar>q\<bar> < 2 ^ 53"
  proof -
    have "A \<le> A * B" using a1 b1 by simp
    then have "\<bar>q\<bar> \<le> A" unfolding absq using b1 by (simp add: field_simps)
    also have "\<dots> < 2 ^ 53" by (rule ar)
    finally show ?thesis .
  qed
  have e0_lo: "- 53 \<le> e0"
  proof (rule ccontr)
    assume "\<not> - 53 \<le> e0"
    then have "e0 + 1 \<le> - int 53" by simp
    from two_to_mono [OF this] have "two_to (e0 + 1) \<le> 1 / 2 ^ 53" by (simp only: two_to_neg)
    with hi qlow show False by linarith
  qed
  have e0_hi: "e0 \<le> 52"
  proof (rule ccontr)
    assume "\<not> e0 \<le> 52"
    then have "int 53 \<le> e0" by simp
    from two_to_mono [OF this] have "2 ^ 53 \<le> two_to e0" by (simp only: two_to_nat)
    with lo qhigh show False by linarith
  qed
  define k where "k = nat (52 - e0)"
  have e: "max (e0 - 52) (- 1074) = - int k" using e0_lo e0_hi by (simp add: k_def)
  have fr: "float_round q = real_of_int (nearest_even (q * 2 ^ k)) / 2 ^ k"
    using q0 e by (simp add: float_round_def Let_def two_to_neg flip: e0_def)
  define n where "n = \<lceil>q\<rceil>"
  have qn: "q \<le> real_of_int n" and nq: "real_of_int n - 1 < q" by (simp_all add: n_def) linarith
  have up: "nearest_even (q * 2 ^ k) \<le> n * 2 ^ k"
  proof (rule nearest_even_le)
    show "q * 2 ^ k \<le> real_of_int (n * 2 ^ k)" using qn by simp
  qed
  have e0k: "e0 = 52 - int k" using e0_hi by (simp add: k_def)
  have tw: "two_to e0 = 2 ^ 52 / 2 ^ k"
  proof -
    have "two_to e0 = 2 powr (52 + - real k)" by (simp add: two_to_powr e0k)
    also have "\<dots> = 2 powr 52 * 2 powr (- real k)" by (rule powr_add)
    also have "2 powr (- real k) = 1 / 2 ^ k"
      using two_to_neg [of k] by (simp add: two_to_powr)
    also have "(2::real) powr 52 = 2 ^ 52"
      using two_to_nat [of 52] by (simp add: two_to_powr)
    finally show ?thesis by simp
  qed
  have bk: "B < 2 * 2 ^ k"
  proof -
    have "2 ^ 52 / 2 ^ k * B \<le> A"
      using lo b1 unfolding tw absq by (simp add: field_simps)
    also have "\<dots> < 2 ^ 53" by (rule ar)
    finally have "2 ^ 52 * B < 2 ^ 53 * 2 ^ k" by (simp add: field_simps)
    then show ?thesis by simp
  qed
  have gap: "1 / B \<le> q - (real_of_int n - 1)"
  proof -
    have eq: "(q - (real_of_int n - 1)) * real_of_int b = real_of_int (a - (n - 1) * b)"
      using b0 by (simp add: q_def field_simps)
    have pos: "0 < q - (real_of_int n - 1)" using nq by simp
    have "(q - (real_of_int n - 1)) * real_of_int b \<noteq> 0" using pos b0 by simp
    then have "real_of_int (a - (n - 1) * b) \<noteq> 0" unfolding eq .
    then have "a - (n - 1) * b \<noteq> 0" by (metis of_int_0)
    then have "1 \<le> real_of_int \<bar>a - (n - 1) * b\<bar>" by linarith
    also have "\<dots> = \<bar>(q - (real_of_int n - 1)) * real_of_int b\<bar>" unfolding eq by simp
    also have "\<dots> = (q - (real_of_int n - 1)) * B"
      using pos by (simp add: abs_mult B_def)
    finally show ?thesis using b1 by (simp add: field_simps)
  qed
  have low: "(n - 1) * 2 ^ k < nearest_even (q * 2 ^ k)"
  proof (rule nearest_even_gt)
    have "1 / 2 < 2 ^ k / B" using bk b1 by (simp add: field_simps)
    also have "\<dots> = 2 ^ k * (1 / B)" by simp
    also have "\<dots> \<le> 2 ^ k * (q - (real_of_int n - 1))"
      using gap by (simp only: mult_le_cancel_left_pos zero_less_power zero_less_numeral)
    finally show "real_of_int ((n - 1) * 2 ^ k) + 1 / 2 < q * 2 ^ k"
      by (simp add: algebra_simps)
  qed
  have "\<lceil>float_round q\<rceil> = n"
  proof (rule ceiling_unique)
    have "real_of_int ((n - 1) * 2 ^ k) < real_of_int (nearest_even (q * 2 ^ k))"
      using low by linarith
    then show "real_of_int n - 1 < float_round q"
      unfolding fr by (simp add: field_simps)
    have "real_of_int (nearest_even (q * 2 ^ k)) \<le> real_of_int (n * 2 ^ k)"
      using up by linarith
    then show "float_round q \<le> real_of_int n"
      unfolding fr by (simp add: field_simps)
  qed
  then show ?thesis by (simp add: q_def n_def)
qed

lemma float_round_error:
  assumes "\<bar>x\<bar> < 2 ^ j"
  shows "\<bar>float_round x - x\<bar> \<le> 2 ^ j / 2 ^ 54"
proof (cases "x = 0")
  case True
  then show ?thesis by (simp add: float_round_def)
next
  case False
  define e where "e = max (float_exponent x - 52) (- 1074)"
  have fr: "float_round x = real_of_int (nearest_even (x / two_to e)) * two_to e"
    using False by (simp add: float_round_def Let_def e_def)
  from float_exponent_bounds [OF False] have lo: "two_to (float_exponent x) \<le> \<bar>x\<bar>" ..
  have ex: "float_exponent x < int j"
  proof (rule ccontr)
    assume "\<not> float_exponent x < int j"
    then have "int j \<le> float_exponent x" by simp
    from two_to_mono [OF this] have "2 ^ j \<le> two_to (float_exponent x)" by (simp only: two_to_nat)
    with lo assms(1) show False by linarith
  qed
  have "e \<le> int j - 53" using ex by (simp add: e_def)
  from two_to_mono [OF this] have te: "two_to e \<le> 2 powr (real j - 53)"
    by (simp add: two_to_powr)
  have "2 powr (real j - 53) = 2 powr (real j) * 2 powr (- 53)"
    using powr_add [of 2 "real j" "- 53"] by simp
  also have "2 powr (real j) = (2::real) ^ j" by (simp add: powr_realpow)
  also have "(2::real) powr (- 53) = 1 / 2 ^ 53"
    using two_to_neg [of 53] by (simp add: two_to_powr)
  finally have te': "two_to e \<le> 2 ^ j / 2 ^ 53" using te by simp
  have "float_round x - x = (real_of_int (nearest_even (x / two_to e)) - x / two_to e) * two_to e"
    using two_to_pos [of e] by (simp add: fr field_simps)
  then have "\<bar>float_round x - x\<bar>
      = \<bar>real_of_int (nearest_even (x / two_to e)) - x / two_to e\<bar> * two_to e"
    using two_to_pos [of e] by (simp add: abs_mult)
  also have "\<dots> \<le> 1 / 2 * two_to e"
    using nearest_even_half [of "x / two_to e"] two_to_pos [of e]
    by (simp only: mult_le_cancel_right_pos)
  also have "\<dots> \<le> 1 / 2 * (2 ^ j / 2 ^ 53)" using te' by simp
  finally show ?thesis by simp
qed


lemma float_percentage_error:
  fixes p t :: int
  assumes p0: "0 \<le> p" and pt: "p \<le> t" and t0: "0 < t"
  shows "\<bar>float_mul (float_truediv p t) 100 - real_of_int p / real_of_int t * 100\<bar> \<le> 1 / 2 ^ 45"
proof -
  define q where "q = real_of_int p / real_of_int t"
  define x where "x = float_round q"
  have q: "0 \<le> q" "q \<le> 1" using assms by (simp_all add: q_def)
  then have "\<bar>q\<bar> < 2 ^ 1" by simp
  from float_round_error [OF this] have e1: "\<bar>x - q\<bar> \<le> 1 / 2 ^ 53" by (simp add: x_def)
  then have "\<bar>x\<bar> \<le> 1 + 1 / 2 ^ 53" using q by linarith
  then have "\<bar>x * 100\<bar> < 2 ^ 7" by (simp add: abs_mult)
  from float_round_error [OF this] have e2: "\<bar>float_round (x * 100) - x * 100\<bar> \<le> 1 / 2 ^ 47"
    by simp
  define c1 :: real where "c1 = 1 / 2 ^ 53"
  define c2 :: real where "c2 = 1 / 2 ^ 47"
  have "\<bar>x - q\<bar> \<le> c1" and "\<bar>float_round (x * 100) - x * 100\<bar> \<le> c2"
    using e1 e2 by (simp_all only: c1_def c2_def)
  then have "\<bar>float_round (x * 100) - q * 100\<bar> \<le> c2 + 100 * c1" by linarith
  also have "\<dots> \<le> 1 / 2 ^ 45" by (simp add: c1_def c2_def)
  finally show ?thesis by (simp add: float_mul_def float_truediv_def x_def q_def)
qed

subsection \<open>Calculators\<close>

lemma py_sum_acc: "foldl (\<lambda>acc x. acc + x) a xs = a + sum_list xs"
  for a :: int
  by (induction xs arbitrary: a) simp_all

lemma py_sum_eq: "py_sum xs = sum_list xs"
  by (simp add: py_sum_def py_sum_acc)

text \<open>
  C3. For every collection of attendance rows, also the empty one, the counts add up
  (present + absent = total). When there is a row, the percentage is the rounding to
  one decimal of present / total * 100 as Python computes it, in floats: the rounded
  product of the rounded quotient and 100, which is within \<open>2^-45\<close> of the exact
  percentage. When there is no row the percentage is 0.
\<close>

theorem attendance_statistics_counts:
  "present_students (calculate_attendance_statistics rnd qs)
     + absent_students (calculate_attendance_statistics rnd qs)
     = total_students (calculate_attendance_statistics rnd qs)
   \<and> total_students (calculate_attendance_statistics rnd qs) = int (length qs)
   \<and> present_students (calculate_attendance_statistics rnd qs)
       = int (length (filter att_status qs))
   \<and> 0 \<le> absent_students (calculate_attendance_statistics rnd qs)
   \<and> (0 < total_students (calculate_attendance_statistics rnd qs) \<longrightarrow>
        attendance_percentage (calculate_attendance_statistics rnd qs)
          = rnd (float_mul
                   (float_truediv (present_students (calculate_attendance_statistics rnd qs))
                      (total_students (calculate_attendance_statistics rnd qs)))
                   100) 1
        \<and> \<bar>float_mul
              (float_truediv (present_students (calculate_attendance_statistics rnd qs))
                 (total_students (calculate_attendance_statistics rnd qs)))
              100
            - real_of_int (present_students (calculate_attendance_statistics rnd qs))
                / real_of_int (total_students (calculate_attendance_statistics rnd qs)) * 100\<bar>
          \<le> 1 / 2 ^ 45)
   \<and> (total_students (calculate_attendance_statistics rnd qs) = 0 \<longrightarrow>
        attendance_percentage (calculate_attendance_statistics rnd qs) = 0)"
proof -
  define total where "total = int (length qs)"
  define present where "present = int (length (filter att_status qs))"
  have le: "present \<le> total"
    unfolding present_def total_def using length_filter_le [of att_status qs] by simp
  have p0: "0 \<le> present" by (simp add: present_def)
  have t: "total_students (calculate_attendance_statistics rnd qs) = total"
    by (simp add: calculate_attendance_statistics_def Let_def total_def)
  have p: "present_students (calculate_attendance_statistics rnd qs) = present"
    by (simp add: calculate_attendance_statistics_def Let_def present_def)
  have a: "absent_students (calculate_attendance_statistics rnd qs) = total - present"
    by (simp add: calculate_attendance_statistics_def Let_def present_def total_def)
  have pc: "attendance_percentage (calculate_attendance_statistics rnd qs)
      = (if 0 < total then rnd (float_mul (float_truediv present total) 100) 1 else 0)"
    by (simp add: calculate_attendance_statistics_def Let_def present_def total_def)
  have err: "0 < total \<Longrightarrow>
      \<bar>float_mul (float_truediv present total) 100 - real_of_int present / real_of_int total * 100\<bar>
        \<le> 1 / 2 ^ 45"
    by (rule float_percentage_error [OF p0 le])
  show ?thesis
    unfolding t p a pc using le err by (simp add: total_def present_def)
qed

theorem attendance_statistics_counts_witness:
  "total_students (calculate_attendance_statistics round_float
      (replicate 23 \<lparr>att_student = 1, att_subject = 7, att_attendanceclass = 0, att_date = 738895, att_status = True\<rparr>
       @ replicate 57 \<lparr>att_student = 2, att_subject = 7, att_attendanceclass = 0, att_date = 738895, att_status = False\<rparr>))
     = 80
   \<and> present_students (calculate_attendance_statistics round_float
      (replicate 23 \<lparr>att_student = 1, att_subject = 7, att_attendanceclass = 0, att_date = 738895, att_status = True\<rparr>
       @ replicate 57 \<lparr>att_student = 2, att_subject = 7, att_attendanceclass = 0, att_date = 738895, att_status = False\<rparr>))
     = 23
   \<and> absent_students (calculate_attendance_statistics round_float
      (replicate 23 \<lparr>att_student = 1, att_subject = 7, att_attendanceclass = 0, att_date = 738895, att_status = True\<rparr>
       @ replicate 57 \<lparr>att_student = 2, att_subject = 7, att_attendanceclass = 0, att_date = 738895, att_status = False\<rparr>))
     = 57
   \<and> float_truediv 23 80 = 2589569785738035 / 9007199254740992
   \<and> float_mul (float_truediv 23 80) 100 = 8092405580431359 / 281474976710656
   \<and> attendance_percentage (calculate_attendance_statistics round_float
      (replicate 23 \<lparr>att_student = 1, att_subject = 7, att_attendanceclass = 0, att_date = 738895, att_status = True\<rparr>
       @ replicate 57 \<lparr>att_student = 2, att_subject = 7, att_attendanceclass = 0, att_date = 738895, att_status = False\<rparr>))
     = float_round (287 / 10)
   \<and> float_round (287 / 10) = 8078331831595827 / 281474976710656
   \<and> attendance_percentage (calculate_attendance_statistics round_float []) = 0"
proof -
  let ?qs = "replicate 23 \<lparr>att_student = 1, att_subject = 7, att_attendanceclass = 0, att_date = 738895, att_status = True\<rparr>
       @ replicate 57 \<lparr>att_student = 2, att_subject = 7, att_attendanceclass = 0, att_date = 738895, att_status = False\<rparr>"
  have q: "float_truediv 23 80 = 2589569785738035 / 9007199254740992"
    by (simp add: float_truediv_def float_round_def float_exponent_def nearest_even_def
        two_to_def bit_length.simps Let_def)
  have m: "float_mul (2589569785738035 / 9007199254740992) 100 = 8092405580431359 / 281474976710656"
    by (simp add: float_mul_def float_round_def float_exponent_def nearest_even_def
        two_to_def bit_length.simps Let_def)
  have r: "round_half_even (8092405580431359 / 281474976710656) (Suc 0) = 287 / 10"
    by (simp add: round_half_even_def Let_def)
  have f: "float_round (287 / 10) = 8078331831595827 / 281474976710656"
    by (simp add: float_round_def float_exponent_def nearest_even_def
        two_to_def bit_length.simps Let_def)
  have n: "length ?qs = 80" "length (filter att_status ?qs) = 23"
    by simp_all
  from attendance_statistics_counts [of round_float ?qs]
    attendance_statistics_counts [of round_float "[]"]
  show ?thesis
    by (simp add: q m r f round_float_def)
qed

subsection \<open>Evaluating on the small school\<close>

lemmas school_defs = school_def get_request_def post_request_def user_A_def user_B_def
  teacher_A_def teacher_B_def teacher_C_def assign_X_def assign_Y_def assign_Z_def
  student_1_def student_2_def
  school_in_term_def runtime_def confirm_form_def create_form_def marks_form_def
  timetable_consts_def term_calls_def marks_form_B_def create_form_B_def

subsection \<open>Marks of a student\<close>

lemma sum_list_insort_key:
  "sum_list (map f (insort_key k x xs)) = f x + sum_list (map f xs)"
  for f :: "'a \<Rightarrow> int"
  by (induction xs) simp_all

lemma sum_list_sort_key:
  "sum_list (map f (sort_key k xs)) = sum_list (map f xs)"
  for f :: "'a \<Rightarrow> int"
  by (induction xs) (simp_all add: sum_list_insort_key)

lemma marks_by_name_sorted: "sorted (map m_name (marks_by_name d ss))"
  by (simp add: marks_by_name_def)

lemma marks_by_name_set:
  "set (marks_by_name d ss) = {m \<in> set (marks d). m_studentsubject m = ss}"
  by (auto simp add: marks_by_name_def)

lemma marks_by_name_length:
  "length (marks_by_name d ss) = length (filter (\<lambda>m. m_studentsubject m = ss) (marks d))"
  by (simp add: marks_by_name_def)

lemma marks_by_name_total:
  "total_marks (map m_marks1 (marks_by_name d ss))
     = sum_list (map m_marks1 (filter (\<lambda>m. m_studentsubject m = ss) (marks d)))"
  by (simp add: total_marks_def py_sum_eq marks_by_name_def sum_list_sort_key)

lemma cie_score_bounded:
  assumes K: "0 \<le> K" and D: "D \<noteq> 0" and Db: "\<bar>D\<bar> < 2 ^ 53"
    and bound: "\<bar>sum_list (take (nat K) marks_list)\<bar> < 2 ^ 53"
  shows "cie_score K D marks_list
           = Inr (if marks_list = [] then 0
                  else \<lceil>real_of_int (sum_list (take (nat K) marks_list)) / real_of_int D\<rceil>)"
  using K D float_round_ceiling [OF bound D Db]
  by (simp add: cie_score_def py_truediv_def float_truediv_def math_ceil_def py_slice_to_def
      py_sum_eq)

lemma students_data_loop_rows:
  "students_data_loop e d a studs = Inr rows \<Longrightarrow>
     list_all2 (\<lambda>s row. student_data e d a s = Inr row) studs rows"
proof (induction studs arbitrary: rows)
  case Nil
  then show ?case by simp
next
  case (Cons s rest)
  then show ?case
    by (auto split: sum.splits)
qed

lemma list_all2_member:
  assumes "list_all2 P xs ys" and "x \<in> set xs"
  shows "\<exists>y\<in>set ys. P x y"
  using assms by (induction rule: list_all2_induct) auto

lemma view_students_rows:
  assumes got: "get_assign_or_404 d assign_id = Some assignment"
    and ctx: "context_of (response_of (view_students e req assign_id d)) = Some ctx"
  shows "list_all2 (\<lambda>s row. student_data e d assignment s = Inr row)
           (sort_key s_name (student_set d (a_class_id assignment))) (vs_students_data ctx)"
proof (cases "is_authenticated (req_user req)")
  case False
  then have "context_of (response_of (view_students e req assign_id d)) = None"
    by (simp add: view_students_def login_redirect_def response_of_triple)
  with ctx show ?thesis by simp
next
  case auth: True
  show ?thesis
  proof (cases "t_user (a_teacher assignment) \<noteq> None
           \<and> t_user (a_teacher assignment) \<noteq> Some (u_id (req_user req))")
    case True
    then have "context_of (response_of (view_students e req assign_id d)) = None"
      using auth got by (simp add: view_students_def Let_def response_of_triple)
    with ctx show ?thesis by simp
  next
    case owner: False
    let ?studs = "sort_key s_name (student_set d (a_class_id assignment))"
    show ?thesis
    proof (cases "students_data_loop e d assignment ?studs")
      case (Inl ex)
      then have "context_of (response_of (view_students e req assign_id d)) = None"
        using auth got owner by (auto simp add: view_students_def Let_def response_of_triple)
      with ctx show ?thesis by simp
    next
      case (Inr rows)
      then have "context_of (response_of (view_students e req assign_id d))
          = Some \<lparr> vs_assignment = assignment, vs_students_data = rows,
                   vs_students_total = int (length rows) \<rparr>"
        using auth got owner by (auto simp add: view_students_def Let_def response_of_triple)
      with ctx have "vs_students_data ctx = rows" by auto
      with students_data_loop_rows [OF Inr] show ?thesis by simp
    qed
  qed
qed

text \<open>
  C2, as the code has it. For a student enrolled in the subject, the marks that
  \<open>view_students\<close> aggregates are the Marks rows of the enrolment ordered by the
  name of the exam (line 783), not by the creation of the exams. The total is the sum
  of all of them. The CIE score is 0 when there is none, and otherwise the ceiling of
  the sum of the first \<open>CIE_CALCULATION_LIMIT\<close> marks in that order divided by
  \<open>CIE_DIVISOR\<close>: the division is Python's float division, whose ceiling is the
  exact one when that sum and the divisor are below \<open>2^53\<close> in absolute value. The
  limit is a count (not negative) and the divisor is not zero. The row with these
  values is the one that the page of \<open>view_students\<close> shows for the student.
\<close>

theorem student_cie_over_marks_by_name:
  assumes enrolled:
      "objects_get (\<lambda>ss. ss_student ss = s_pk student \<and> ss_subject ss = a_subject assignment)
         (student_subjects d) = Inr ss"
    and K: "0 \<le> CIE_CALCULATION_LIMIT e"
    and D: "CIE_DIVISOR e \<noteq> 0" and Db: "\<bar>CIE_DIVISOR e\<bar> < 2 ^ 53"
    and bound: "\<bar>sum_list (take (nat (CIE_CALCULATION_LIMIT e))
                   (map m_marks1 (marks_by_name d ss)))\<bar> < 2 ^ 53"
  shows "\<exists>row. student_data e d assignment student = Inr row
           \<and> sr_marks row = marks_by_name d ss
           \<and> sorted (map m_name (sr_marks row))
           \<and> set (sr_marks row) = {m \<in> set (marks d). m_studentsubject m = ss}
           \<and> length (sr_marks row) = length (filter (\<lambda>m. m_studentsubject m = ss) (marks d))
           \<and> sr_total_marks row
               = sum_list (map m_marks1 (filter (\<lambda>m. m_studentsubject m = ss) (marks d)))
           \<and> sr_cie_score row
               = (if sr_marks row = [] then 0
                  else \<lceil>real_of_int (sum_list (take (nat (CIE_CALCULATION_LIMIT e))
                                          (map m_marks1 (sr_marks row))))
                        / real_of_int (CIE_DIVISOR e)\<rceil>)
           \<and> (\<forall>ctx. get_assign_or_404 d assign_id = Some assignment
                  \<and> context_of (response_of (view_students e req assign_id d)) = Some ctx
                  \<and> student \<in> set (student_set d (a_class_id assignment))
                \<longrightarrow> row \<in> set (vs_students_data ctx))"
proof -
  let ?ms = "marks_by_name d ss"
  let ?cie = "if ?ms = [] then 0
              else \<lceil>real_of_int (sum_list (take (nat (CIE_CALCULATION_LIMIT e)) (map m_marks1 ?ms)))
                    / real_of_int (CIE_DIVISOR e)\<rceil>"
  have cie: "cie_score (CIE_CALCULATION_LIMIT e) (CIE_DIVISOR e) (map m_marks1 ?ms) = Inr ?cie"
    using cie_score_bounded [OF K D Db bound] by simp
  obtain row where row: "student_data e d assignment student = Inr row"
    and m: "sr_marks row = ?ms" and t: "sr_total_marks row = total_marks (map m_marks1 ?ms)"
    and c: "sr_cie_score row = ?cie"
    using enrolled cie by (simp add: student_data_def Let_def)
  have page: "row \<in> set (vs_students_data ctx)"
    if got: "get_assign_or_404 d assign_id = Some assignment"
      and ctx: "context_of (response_of (view_students e req assign_id d)) = Some ctx"
      and s: "student \<in> set (student_set d (a_class_id assignment))"
    for ctx
  proof -
    from s have "student \<in> set (sort_key s_name (student_set d (a_class_id assignment)))"
      by simp
    from list_all2_member [OF view_students_rows [OF got ctx] this]
    obtain r where "r \<in> set (vs_students_data ctx)"
      and "student_data e d assignment student = Inr r" by blast
    with row show ?thesis by simp
  qed
  have rest: "sr_marks row = marks_by_name d ss
           \<and> sorted (map m_name (sr_marks row))
           \<and> set (sr_marks row) = {m \<in> set (marks d). m_studentsubject m = ss}
           \<and> length (sr_marks row) = length (filter (\<lambda>m. m_studentsubject m = ss) (marks d))
           \<and> sr_total_marks row
               = sum_list (map m_marks1 (filter (\<lambda>m. m_studentsubject m = ss) (marks d)))
           \<and> sr_cie_score row
               = (if sr_marks row = [] then 0
                  else \<lceil>real_of_int (sum_list (take (nat (CIE_CALCULATION_LIMIT e))
                                          (map m_marks1 (sr_marks row))))
                        / real_of_int (CIE_DIVISOR e)\<rceil>)"
    using m t c marks_by_name_sorted [of d ss] marks_by_name_set [of d ss]
      marks_by_name_length [of d ss] marks_by_name_total [of d ss]
    by simp
  from row rest page show ?thesis by blast
qed

theorem student_cie_witness:
  "objects_get (\<lambda>ss. ss_student ss = s_pk student_1 \<and> ss_subject ss = a_subject assign_X)
      (student_subjects school_graded) = Inr 0
   \<and> 0 \<le> CIE_CALCULATION_LIMIT runtime
   \<and> CIE_DIVISOR runtime \<noteq> 0 \<and> \<bar>CIE_DIVISOR runtime\<bar> < 2 ^ 53
   \<and> map m_marks1 (marks_by_name school_graded 0) = [9, 10, 10, 10, 10, 7]
   \<and> map_sum id (map m_name \<circ> sr_marks) (student_data runtime school_graded assign_X student_1)
       = Inr [''T1'', ''T2'', ''T3'', ''T4'', ''T5'', ''T6'']
   \<and> map_sum id sr_total_marks (student_data runtime school_graded assign_X student_1) = Inr 56
   \<and> map_sum id sr_cie_score (student_data runtime school_graded assign_X student_1) = Inr 25
   \<and> get_assign_or_404 school_graded 1 = Some assign_X
   \<and> student_1 \<in> set (student_set school_graded (a_class_id assign_X))
   \<and> map_option (map sr_cie_score \<circ> vs_students_data)
         (context_of (response_of (view_students runtime (get_request user_A) 1 school_graded)))
       = Some [25, 0]"
proof -
  have en: "objects_get (\<lambda>ss. ss_student ss = s_pk student_1 \<and> ss_subject ss = a_subject assign_X)
      (student_subjects school_graded) = Inr 0"
    by (simp add: school_graded_def school_defs objects_get_def pks_where_def)
  have k: "0 \<le> CIE_CALCULATION_LIMIT runtime" and d: "CIE_DIVISOR runtime \<noteq> 0"
    and db: "\<bar>CIE_DIVISOR runtime\<bar> < 2 ^ 53"
    by (simp_all add: runtime_def)
  have ms: "marks_by_name school_graded 0 =
      [\<lparr> m_studentsubject = 0, m_name = ''T1'', m_marks1 = 9 \<rparr>,
       \<lparr> m_studentsubject = 0, m_name = ''T2'', m_marks1 = 10 \<rparr>,
       \<lparr> m_studentsubject = 0, m_name = ''T3'', m_marks1 = 10 \<rparr>,
       \<lparr> m_studentsubject = 0, m_name = ''T4'', m_marks1 = 10 \<rparr>,
       \<lparr> m_studentsubject = 0, m_name = ''T5'', m_marks1 = 10 \<rparr>,
       \<lparr> m_studentsubject = 0, m_name = ''T6'', m_marks1 = 7 \<rparr>]"
    by (simp add: marks_by_name_def school_graded_def school_defs)
  have b: "\<bar>sum_list (take (nat (CIE_CALCULATION_LIMIT runtime))
                   (map m_marks1 (marks_by_name school_graded 0)))\<bar> < 2 ^ 53"
    by (simp add: ms runtime_def)
  have kd: "CIE_CALCULATION_LIMIT runtime = 5" "CIE_DIVISOR runtime = 2"
    by (simp_all add: runtime_def)
  have tot: "sum_list (map m_marks1 (filter (\<lambda>m. m_studentsubject m = 0) (marks school_graded))) = 56"
    by (simp add: school_graded_def school_defs)
  from student_cie_over_marks_by_name [OF en k d db b, where req = "get_request user_A" and assign_id = 1]
  obtain row where row: "student_data runtime school_graded assign_X student_1 = Inr row"
    and m: "sr_marks row = marks_by_name school_graded 0"
    and t: "sr_total_marks row
           = sum_list (map m_marks1 (filter (\<lambda>m. m_studentsubject m = 0) (marks school_graded)))"
    and c: "sr_cie_score row
               = (if sr_marks row = [] then 0
                  else \<lceil>real_of_int (sum_list (take (nat (CIE_CALCULATION_LIMIT runtime))
                                          (map m_marks1 (sr_marks row))))
                        / real_of_int (CIE_DIVISOR runtime)\<rceil>)"
    by blast
  have c': "sr_cie_score row = 25"
    unfolding c m ms kd by simp
  have g: "get_assign_or_404 school_graded (Suc 0) = Some assign_X"
    by (simp add: school_graded_def school_defs get_assign_or_404_def)
  have mem: "student_1 \<in> set (student_set school_graded (a_class_id assign_X))"
    by (simp add: student_set_def school_graded_def school_defs)
  have studs: "sort_key s_name (student_set school_graded (a_class_id assign_X))
      = [student_1, student_2]"
    by (simp add: student_set_def school_graded_def school_defs)
  have u: "is_authenticated (req_user (get_request user_A))"
     "t_user (a_teacher assign_X) = Some (u_id (req_user (get_request user_A)))"
    by (simp_all add: school_defs)
  have en2: "objects_get (\<lambda>ss. ss_student ss = s_pk student_2 \<and> ss_subject ss = a_subject assign_X)
      (student_subjects school_graded) = Inr 1"
    by (simp add: school_graded_def school_defs objects_get_def pks_where_def)
  have ms1: "marks_by_name school_graded (Suc 0) = []"
    by (simp add: marks_by_name_def school_graded_def school_defs)
  have no_att: "attendances school_graded = []"
    by (simp add: school_graded_def school_defs)
  obtain r2 where r2: "student_data runtime school_graded assign_X student_2 = Inr r2"
      "sr_cie_score r2 = 0"
    by (simp add: student_data_def en2 ms1 no_att cie_score_def Let_def)
  have page: "map_option (map sr_cie_score \<circ> vs_students_data)
         (context_of (response_of (view_students runtime (get_request user_A) 1 school_graded)))
       = Some [25, 0]"
    using u by (simp add: view_students_def g studs row r2 c' response_of_triple Let_def)
  show ?thesis
    using en page by (simp add: row m t c' ms tot kd g mem)
qed

text \<open>
  C2 as stated fails on the order. With the exams created in the order T6, T1, T3, T2,
  T5, T4 the formula on the marks in creation order gives \<open>ceil((7+9+10+10+10)/2) = 23\<close>,
  and the view, which takes the marks by exam name, gives \<open>ceil((9+10+10+10+10)/2) = 25\<close>.
  It also fails beyond the precision of a float: for the single mark \<open>2^53 + 1\<close> the
  quotient by 2 is rounded to \<open>2^52\<close>, one less than the exact ceiling.
\<close>

theorem cie_follows_exam_names:
  "map es_name (exam_sessions school_graded) = [''T6'', ''T1'', ''T3'', ''T2'', ''T5'', ''T4'']
   \<and> map m_name (marks school_graded) = [''T6'', ''T1'', ''T3'', ''T2'', ''T5'', ''T4'']
   \<and> map m_studentsubject (marks school_graded) = [0, 0, 0, 0, 0, 0]
   \<and> map m_marks1 (marks school_graded) = [7, 9, 10, 10, 10, 10]
   \<and> \<lceil>real_of_int (sum_list (take 5 [7, 9, 10, 10, 10, 10])) / real_of_int 2\<rceil> = (23::int)
   \<and> CIE_CALCULATION_LIMIT runtime = 5 \<and> CIE_DIVISOR runtime = 2
   \<and> map_sum id sr_cie_score (student_data runtime school_graded assign_X student_1) = Inr 25
   \<and> map_option (map sr_cie_score \<circ> vs_students_data)
         (context_of (response_of (view_students runtime (get_request user_A) 1 school_graded)))
       = Some [25, 0]
   \<and> cie_score 5 2 [2 ^ 53 + 1] = Inr (2 ^ 52)
   \<and> \<lceil>real_of_int (2 ^ 53 + 1) / real_of_int 2\<rceil> = (2 ^ 52 + 1 :: int)"
proof -
  have ms: "marks_by_name school_graded 0 =
      [\<lparr> m_studentsubject = 0, m_name = ''T1'', m_marks1 = 9 \<rparr>,
       \<lparr> m_studentsubject = 0, m_name = ''T2'', m_marks1 = 10 \<rparr>,
       \<lparr> m_studentsubject = 0, m_name = ''T3'', m_marks1 = 10 \<rparr>,
       \<lparr> m_studentsubject = 0, m_name = ''T4'', m_marks1 = 10 \<rparr>,
       \<lparr> m_studentsubject = 0, m_name = ''T5'', m_marks1 = 10 \<rparr>,
       \<lparr> m_studentsubject = 0, m_name = ''T6'', m_marks1 = 7 \<rparr>]"
    by (simp add: marks_by_name_def school_graded_def school_defs)
  have q: "float_truediv 49 2 = 49 / 2"
    by (simp add: float_truediv_def float_round_def float_exponent_def nearest_even_def
        two_to_def bit_length.simps Let_def)
  have c: "cie_score 5 2 [9, 10, 10, 10, 10, 7] = Inr 25"
    by (simp add: cie_score_def py_truediv_def py_slice_to_def py_sum_def math_ceil_def q)
  have en: "objects_get (\<lambda>ss. ss_student ss = s_pk student_1 \<and> ss_subject ss = a_subject assign_X)
      (student_subjects school_graded) = Inr 0"
    by (simp add: school_graded_def school_defs objects_get_def pks_where_def)
  have no_att: "attendances school_graded = []"
    by (simp add: school_graded_def school_defs)
  have sd: "map_sum id sr_cie_score (student_data runtime school_graded assign_X student_1) = Inr 25"
    by (simp add: student_data_def en ms c no_att runtime_def Let_def)
  have big: "float_truediv 9007199254740993 2 = 4503599627370496"
    by (simp add: float_truediv_def float_round_def float_exponent_def nearest_even_def
        two_to_def bit_length.simps Let_def)
  have c2: "cie_score 5 2 [9007199254740993] = Inr 4503599627370496"
    by (simp add: cie_score_def py_truediv_def py_slice_to_def py_sum_def math_ceil_def big)
  have g: "get_assign_or_404 school_graded (Suc 0) = Some assign_X"
    by (simp add: school_graded_def school_defs get_assign_or_404_def)
  have studs: "sort_key s_name (student_set school_graded (a_class_id assign_X))
      = [student_1, student_2]"
    by (simp add: student_set_def school_graded_def school_defs)
  have u: "is_authenticated (req_user (get_request user_A))"
     "t_user (a_teacher assign_X) = Some (u_id (req_user (get_request user_A)))"
    by (simp_all add: school_defs)
  have en2: "objects_get (\<lambda>ss. ss_student ss = s_pk student_2 \<and> ss_subject ss = a_subject assign_X)
      (student_subjects school_graded) = Inr 1"
    by (simp add: school_graded_def school_defs objects_get_def pks_where_def)
  have ms1: "marks_by_name school_graded (Suc 0) = []"
    by (simp add: marks_by_name_def school_graded_def school_defs)
  obtain r1 where r1: "student_data runtime school_graded assign_X student_1 = Inr r1"
      "sr_cie_score r1 = 25"
    using sd by (cases "student_data runtime school_graded assign_X student_1") auto
  obtain r2 where r2: "student_data runtime school_graded assign_X student_2 = Inr r2"
      "sr_cie_score r2 = 0"
    by (simp add: student_data_def en2 ms1 no_att cie_score_def Let_def)
  have page: "map_option (map sr_cie_score \<circ> vs_students_data)
         (context_of (response_of (view_students runtime (get_request user_A) 1 school_graded)))
       = Some [25, 0]"
    using u by (simp add: view_students_def g studs r1 r2 response_of_triple Let_def)
  show ?thesis
    using sd c2 page by (simp add: school_graded_def school_defs runtime_def)
qed

subsection \<open>Free teachers\<close>

lemma free_teachers_loop_members:
  "t \<in> set (fst (free_teachers_loop d asst required ts acc)) \<union> set (snd (free_teachers_loop d asst required ts acc))
   \<Longrightarrow> t \<in> set (fst acc) \<union> set (snd acc) \<or>
       (t \<in> set ts \<and>
        \<not> list_ex (\<lambda>at_row. at_period at_row = at_period asst \<and> at_day at_row = at_day asst)
             (filter (\<lambda>at_row. t_id (a_teacher (at_assign at_row)) = t_id t) (assign_times d)))"
proof (induction ts arbitrary: acc)
  case Nil
  then show ?case by simp
next
  case (Cons u us)
  obtain ft wo where acc: "acc = (ft, wo)" by (cases acc)
  show ?case
    using Cons.IH Cons.prems unfolding acc
    by (fastforce simp: Let_def split: if_splits)
qed

lemma free_teachers_loop_qualified:
  "t \<in> set (fst (free_teachers_loop d asst required ts acc))
   \<Longrightarrow> t \<in> set (fst acc) \<or>
       (t \<in> set ts \<and> list_ex (\<lambda>a. t_id (a_teacher a) = t_id t \<and> a_subject a = required) (assigns d))"
proof (induction ts arbitrary: acc)
  case Nil
  then show ?case by simp
next
  case (Cons u us)
  obtain ft wo where acc: "acc = (ft, wo)" by (cases acc)
  show ?case
    using Cons.IH Cons.prems unfolding acc
    by (fastforce simp: Let_def split: if_splits)
qed

text \<open>
  C4. For every queried scheduled slot, the page shows two lists such that a teacher
  with a scheduled slot of the same day and period as the queried one is in neither
  list, and a teacher with no assignment for the required subject is not in the list
  of qualified free teachers.
\<close>

theorem free_teachers_excludes_busy_and_unqualified:
  assumes auth: "is_authenticated (req_user req)"
    and slot: "asst_id < length (assign_times d)"
  shows "\<exists>ctx msgs.
           free_teachers req asst_id d = (Render ''free_teachers.html'' ctx, msgs, d)
         \<and> assignment_time ctx = assign_times d ! asst_id
         \<and> required_subject ctx = a_subject (at_assign (assign_times d ! asst_id))
         \<and> (\<forall>t. (\<exists>at_row \<in> set (assign_times d).
                     t_id (a_teacher (at_assign at_row)) = t_id t
                   \<and> at_day at_row = at_day (assign_times d ! asst_id)
                   \<and> at_period at_row = at_period (assign_times d ! asst_id))
                \<longrightarrow> t \<notin> set (ft_list ctx) \<and> t \<notin> set (teachers_without_knowledge ctx))
         \<and> (\<forall>t. \<not> (\<exists>a \<in> set (assigns d).
                       t_id (a_teacher a) = t_id t
                     \<and> a_subject a = a_subject (at_assign (assign_times d ! asst_id)))
                \<longrightarrow> t \<notin> set (ft_list ctx))"
proof -
  define asst where "asst = assign_times d ! asst_id"
  define required where "required = a_subject (at_assign asst)"
  define t_list where "t_list = teachers_of_class d (a_class_id (at_assign asst))"
  define lists where "lists = free_teachers_loop d asst required t_list ([], [])"
  define ctx where "ctx =
    \<lparr> ft_list = fst lists, required_subject = required, assignment_time = asst,
      teachers_without_knowledge = snd lists,
      total_teachers_checked = int (length t_list),
      available_teachers_count = int (length (fst lists)) \<rparr>"
  have run: "free_teachers req asst_id d =
      (Render ''free_teachers.html'' ctx,
       (if fst lists = [] then [(MsgWarning, NoAvailableTeachers)] else []), d)"
    using auth slot
    by (simp add: free_teachers_def get_by_pk_def Let_def ctx_def lists_def t_list_def
        required_def asst_def)
  have busy: "t \<notin> set (ft_list ctx) \<and> t \<notin> set (teachers_without_knowledge ctx)"
    if "\<exists>at_row \<in> set (assign_times d).
          t_id (a_teacher (at_assign at_row)) = t_id t
        \<and> at_day at_row = at_day asst \<and> at_period at_row = at_period asst" for t
  proof -
    have "list_ex (\<lambda>at_row. at_period at_row = at_period asst \<and> at_day at_row = at_day asst)
            (filter (\<lambda>at_row. t_id (a_teacher (at_assign at_row)) = t_id t) (assign_times d))"
      using that by (auto simp: list_ex_iff)
    then have "t \<notin> set (fst lists) \<union> set (snd lists)"
      using free_teachers_loop_members [of t d asst required t_list "([], [])"]
      unfolding lists_def by auto
    then show ?thesis by (simp add: ctx_def)
  qed
  have unqualified: "t \<notin> set (ft_list ctx)"
    if "\<not> (\<exists>a \<in> set (assigns d). t_id (a_teacher a) = t_id t \<and> a_subject a = required)" for t
  proof -
    have "\<not> list_ex (\<lambda>a. t_id (a_teacher a) = t_id t \<and> a_subject a = required) (assigns d)"
      using that by (auto simp: list_ex_iff)
    then have "t \<notin> set (fst lists)"
      using free_teachers_loop_qualified [of t d asst required t_list "([], [])"]
      unfolding lists_def by auto
    then show ?thesis by (simp add: ctx_def)
  qed
  show ?thesis
    using run busy unqualified
    by (intro exI [of _ ctx] exI [of _ "if fst lists = [] then [(MsgWarning, NoAvailableTeachers)] else []"])
       (simp add: ctx_def asst_def required_def)
qed

theorem free_teachers_witness:
  "is_authenticated (req_user (get_request user_A)) \<and> 0 < length (assign_times school)
   \<and> (\<exists>at_row \<in> set (assign_times school).
          t_id (a_teacher (at_assign at_row)) = t_id teacher_A
        \<and> at_day at_row = at_day (assign_times school ! 0)
        \<and> at_period at_row = at_period (assign_times school ! 0))
   \<and> \<not> (\<exists>a \<in> set (assigns school).
             t_id (a_teacher a) = t_id teacher_B
           \<and> a_subject a = a_subject (at_assign (assign_times school ! 0)))
   \<and> map_option ft_list (context_of (response_of (free_teachers (get_request user_A) 0 school)))
       = Some [teacher_C]
   \<and> map_option teachers_without_knowledge
        (context_of (response_of (free_teachers (get_request user_A) 0 school)))
       = Some [teacher_B]"
  using free_teachers_excludes_busy_and_unqualified [of "get_request user_A" 0 school]
  by (simp add: school_defs free_teachers_def get_by_pk_def teachers_of_class_def
      response_of_def Let_def)

subsection \<open>Timetable\<close>

lemma time_slots_loop_acc:
  "time_slots_loop B L base acc = acc @ time_slots_loop B L base []"
proof (induction base arbitrary: acc)
  case Nil
  then show ?case by simp
next
  case (Cons slot rest)
  define step where "step = (\<lambda>acc. if slot = ''9:30 - 10:30'' then (acc @ [slot]) @ [B]
      else if slot = ''12:40 - 1:30'' then (acc @ [slot]) @ [L] else acc @ [slot])"
  have unroll: "time_slots_loop B L (slot # rest) a = time_slots_loop B L rest (step a)" for a
    by (simp add: step_def)
  have app: "step a = a @ step []" for a
    by (simp add: step_def)
  have "time_slots_loop B L (slot # rest) acc = step acc @ time_slots_loop B L rest []"
    unfolding unroll by (rule Cons.IH)
  also have "\<dots> = acc @ (step [] @ time_slots_loop B L rest [])"
    using app [of acc] by simp
  also have "step [] @ time_slots_loop B L rest [] = time_slots_loop B L (slot # rest) []"
    unfolding unroll by (rule Cons.IH [symmetric])
  finally show ?case .
qed

lemma build_time_slots_Nil: "build_time_slots B L [] = []"
  by (simp add: build_time_slots_def)

lemma build_time_slots_Cons:
  "build_time_slots B L (slot # rest) =
     (if slot = ''9:30 - 10:30'' then [slot, B]
      else if slot = ''12:40 - 1:30'' then [slot, L]
      else [slot]) @ build_time_slots B L rest"
proof -
  define first where "first = (if slot = ''9:30 - 10:30'' then [slot, B]
      else if slot = ''12:40 - 1:30'' then [slot, L] else [slot])"
  have "build_time_slots B L (slot # rest) = time_slots_loop B L rest first"
    by (simp add: build_time_slots_def first_def)
  also have "\<dots> = first @ time_slots_loop B L rest []"
    by (rule time_slots_loop_acc)
  finally show ?thesis
    by (simp only: first_def build_time_slots_def)
qed

lemma build_time_slots_append:
  "build_time_slots B L (pre @ post) = build_time_slots B L pre @ build_time_slots B L post"
  by (induction pre) (simp_all add: build_time_slots_Nil build_time_slots_Cons)

lemma fill_timetable_other_cell:
  "\<forall>at_row \<in> set asst. \<not> (at_day at_row = day \<and> at_period at_row = slot)
   \<Longrightarrow> cell_at (fill_timetable asst tt) day slot = cell_at tt day slot"
proof (induction asst arbitrary: tt)
  case Nil
  then show ?case by simp
next
  case (Cons r rest)
  have keep: "cell_at (case tt (at_day r) of
          None \<Rightarrow> tt
        | Some row \<Rightarrow>
            (case row (at_period r) of
               None \<Rightarrow> tt
             | Some c \<Rightarrow>
                 tt(at_day r \<mapsto>
                      row(at_period r \<mapsto>
                            Some \<lparr> cell_subject = a_subject (at_assign r),
                                   cell_teacher = a_teacher (at_assign r),
                                   cell_assignment = at_assign r \<rparr>)))) day slot
      = cell_at tt day slot"
    using Cons.prems by (auto simp: cell_at_def split: option.splits)
  show ?case
    using Cons.IH Cons.prems keep by simp
qed

lemma cell_at_empty_timetable:
  "cell_at (empty_timetable days time_slots) day slot =
     (if day \<in> set days \<and> slot \<in> set time_slots then Some None else None)"
proof -
  have row: "map_of (map (\<lambda>s. (s, None :: cell option)) time_slots) slot =
      (if slot \<in> set time_slots then Some None else None)"
    by (induction time_slots) auto
  have day: "map_of (map (\<lambda>dy. (dy, f)) days) day = (if day \<in> set days then Some f else None)" for f :: "string \<Rightarrow> cell option option"
    by (induction days) auto
  show ?thesis
    by (simp add: cell_at_def empty_timetable_def day row)
qed

lemma marker_cell_taken:
  assumes "day \<in> set days" and "m \<in> set (build_time_slots B L base)"
  shows "cell_at (build_timetable days B L base
                    [\<lparr> at_assign = a, at_period = m, at_day = day \<rparr>]) day m
         = Some (Some \<lparr> cell_subject = a_subject a, cell_teacher = a_teacher a,
                        cell_assignment = a \<rparr>)"
proof -
  have "cell_at (empty_timetable days (build_time_slots B L base)) day m = Some None"
    using assms by (simp add: cell_at_empty_timetable)
  then show ?thesis
    by (auto simp: build_timetable_def cell_at_def split: option.splits)
qed

text \<open>
  C8, as the code has it. In the slot list the break marker stands right after the slot
  \<open>9:30 - 10:30\<close> and the lunch marker right after the slot \<open>12:40 - 1:30\<close>.
  The cell of a day at a marker stays empty for every list of scheduled slots none of
  whose period is the marker's own label; the grid has no other guard for the markers.
\<close>

theorem timetable_markers:
  "build_time_slots B L (pre @ [''9:30 - 10:30''] @ post)
     = build_time_slots B L pre @ [''9:30 - 10:30'', B] @ build_time_slots B L post
   \<and> build_time_slots B L (pre @ [''12:40 - 1:30''] @ post)
     = build_time_slots B L pre @ [''12:40 - 1:30'', L] @ build_time_slots B L post
   \<and> ((\<forall>at_row \<in> set asst. at_period at_row \<noteq> B) \<longrightarrow>
        cell_at (build_timetable days B L base asst) day B
          = (if day \<in> set days \<and> B \<in> set (build_time_slots B L base) then Some None else None))
   \<and> ((\<forall>at_row \<in> set asst. at_period at_row \<noteq> L) \<longrightarrow>
        cell_at (build_timetable days B L base asst) day L
          = (if day \<in> set days \<and> L \<in> set (build_time_slots B L base) then Some None else None))"
proof -
  have m1: "build_time_slots B L (pre @ [''9:30 - 10:30''] @ post)
     = build_time_slots B L pre @ [''9:30 - 10:30'', B] @ build_time_slots B L post"
    by (simp add: build_time_slots_append build_time_slots_Cons)
  have m2: "build_time_slots B L (pre @ [''12:40 - 1:30''] @ post)
     = build_time_slots B L pre @ [''12:40 - 1:30'', L] @ build_time_slots B L post"
    by (simp add: build_time_slots_append build_time_slots_Cons)
  have c: "cell_at (build_timetable days B L base asst) day m
          = (if day \<in> set days \<and> m \<in> set (build_time_slots B L base) then Some None else None)"
    if "\<forall>at_row \<in> set asst. at_period at_row \<noteq> m" for m
  proof -
    have "\<forall>at_row \<in> set asst. \<not> (at_day at_row = day \<and> at_period at_row = m)"
      using that by blast
    then show ?thesis
      unfolding build_timetable_def
      by (simp only: fill_timetable_other_cell cell_at_empty_timetable)
  qed
  show ?thesis
    using m1 m2 c by blast
qed

theorem timetable_markers_witness:
  "build_time_slots ''Break'' ''Lunch''
      ([''8:30 - 9:30''] @ [''9:30 - 10:30''] @ [''11:00 - 11:50'', ''12:40 - 1:30''])
     = [''8:30 - 9:30'', ''9:30 - 10:30'', ''Break'', ''11:00 - 11:50'', ''12:40 - 1:30'', ''Lunch'']
   \<and> list_all (\<lambda>at_row. at_period at_row \<noteq> ''Break'') (assign_times school)
   \<and> list_all (\<lambda>at_row. at_period at_row \<noteq> ''Lunch'') (assign_times school)
   \<and> cell_at (build_timetable [''Monday'', ''Tuesday''] ''Break'' ''Lunch''
                [''8:30 - 9:30'', ''9:30 - 10:30'', ''11:00 - 11:50'', ''12:40 - 1:30'']
                (assign_times school)) ''Monday'' ''Break'' = Some None
   \<and> cell_at (build_timetable [''Monday'', ''Tuesday''] ''Break'' ''Lunch''
                [''8:30 - 9:30'', ''9:30 - 10:30'', ''11:00 - 11:50'', ''12:40 - 1:30'']
                (assign_times school)) ''Monday'' ''Lunch'' = Some None
   \<and> cell_at (build_timetable [''Monday'', ''Tuesday''] ''Break'' ''Lunch''
                [''8:30 - 9:30'', ''9:30 - 10:30'', ''11:00 - 11:50'', ''12:40 - 1:30'']
                (assign_times school)) ''Monday'' ''9:30 - 10:30''
       = Some (Some \<lparr> cell_subject = 7, cell_teacher = teacher_A, cell_assignment = assign_X \<rparr>)"
  using timetable_markers [of "''Break''" "''Lunch''" "[''8:30 - 9:30'']"
      "[''11:00 - 11:50'', ''12:40 - 1:30'']" "assign_times school"
      "[''Monday'', ''Tuesday'']"
      "[''8:30 - 9:30'', ''9:30 - 10:30'', ''11:00 - 11:50'', ''12:40 - 1:30'']" "''Monday''"]
  by (simp add: school_defs build_timetable_def build_time_slots_def empty_timetable_def
      cell_at_def)

text \<open>
  C8 as stated fails: a scheduled slot whose period is the break marker's label is
  placed in the break cell of its day, by the test of line 433.
\<close>

theorem marker_cell_occupied:
  "cell_at (build_timetable [''Monday'', ''Tuesday''] ''Break'' ''Lunch''
              [''8:30 - 9:30'', ''9:30 - 10:30'', ''11:00 - 11:50'', ''12:40 - 1:30'']
              [\<lparr> at_assign = assign_X, at_period = ''Break'', at_day = ''Monday'' \<rparr>])
      ''Monday'' ''Break''
   = Some (Some \<lparr> cell_subject = 7, cell_teacher = teacher_A, cell_assignment = assign_X \<rparr>)"
  by (simp add: build_timetable_def build_time_slots_def empty_timetable_def cell_at_def
      assign_X_def)

subsection \<open>ORM lookups\<close>

lemma pks_where_set: "set (pks_where p rows) = {i. i < length rows \<and> p (rows ! i)}"
  by (auto simp: pks_where_def)

lemma pks_where_Nil_iff: "pks_where p rows = [] \<longleftrightarrow> (\<forall>r \<in> set rows. \<not> p r)"
proof -
  have "pks_where p rows = [] \<longleftrightarrow> set (pks_where p rows) = {}"
    by simp
  also have "\<dots> \<longleftrightarrow> (\<forall>i < length rows. \<not> p (rows ! i))"
    unfolding pks_where_set by blast
  also have "\<dots> \<longleftrightarrow> (\<forall>r \<in> set rows. \<not> p r)"
    by (simp add: all_set_conv_all_nth)
  finally show ?thesis .
qed

lemma pks_where_single:
  assumes "pks_where p rows = [i]"
  shows "i < length rows \<and> p (rows ! i) \<and> (\<forall>j < length rows. p (rows ! j) \<longrightarrow> j = i)"
proof -
  have "set (pks_where p rows) = {i}" using assms by simp
  then show ?thesis unfolding pks_where_set by blast
qed

text \<open>What \<open>get_or_create\<close> returns, case by case.\<close>

lemma get_or_create_cases:
  assumes "get_or_create p new rows = Inr (pk, created, rows1)"
  shows "(created \<and> pk = length rows \<and> rows1 = rows @ [new] \<and> (\<forall>r \<in> set rows. \<not> p r))
       \<or> (\<not> created \<and> rows1 = rows \<and> pk < length rows \<and> p (rows ! pk)
           \<and> (\<forall>j < length rows. p (rows ! j) \<longrightarrow> j = pk))"
proof (cases "pks_where p rows")
  case Nil
  then have "\<forall>r \<in> set rows. \<not> p r"
    by (simp add: pks_where_Nil_iff)
  moreover have "created \<and> pk = length rows \<and> rows1 = rows @ [new]"
    using assms Nil by (auto simp: get_or_create_def)
  ultimately show ?thesis by blast
next
  case (Cons i rest)
  show ?thesis
  proof (cases rest)
    case Nil
    with Cons have one: "pks_where p rows = [i]" by simp
    have "pk = i \<and> \<not> created \<and> rows1 = rows"
      using assms one by (simp add: get_or_create_def)
    with pks_where_single [OF one] show ?thesis by blast
  next
    case (Cons j ks)
    with \<open>pks_where p rows = i # rest\<close> show ?thesis
      using assms by (simp add: get_or_create_def)
  qed
qed

lemma pks_where_distinct: "distinct (pks_where p rows)"
  by (simp add: pks_where_def)

lemma pks_where_unique_key:
  assumes "distinct (map f rows)"
  shows "pks_where (\<lambda>r. f r = k) rows = [] \<or> (\<exists>i. pks_where (\<lambda>r. f r = k) rows = [i])"
proof (cases "pks_where (\<lambda>r. f r = k) rows")
  case Nil
  then show ?thesis by simp
next
  case (Cons i rest)
  show ?thesis
  proof (cases rest)
    case Nil
    with Cons show ?thesis by simp
  next
    case (Cons j ks)
    have mem: "i \<in> set (pks_where (\<lambda>r. f r = k) rows)" "j \<in> set (pks_where (\<lambda>r. f r = k) rows)"
      using \<open>pks_where (\<lambda>r. f r = k) rows = i # rest\<close> Cons by simp_all
    then have i: "i < length rows" "f (rows ! i) = k" and j: "j < length rows" "f (rows ! j) = k"
      unfolding pks_where_set by simp_all
    have "map f rows ! i = map f rows ! j"
      using i j by simp
    then have "i = j"
      using nth_eq_iff_index_eq [OF assms, of i j] i(1) j(1) by simp
    moreover have "i \<noteq> j"
      using pks_where_distinct [of "\<lambda>r. f r = k" rows]
        \<open>pks_where (\<lambda>r. f r = k) rows = i # rest\<close> Cons by simp
    ultimately show ?thesis by simp
  qed
qed

subsection \<open>Attendance confirmation\<close>






lemma students_or_none: "(if xs \<noteq> [] then xs else []) = xs"
  by simp


lemma fetch_assc_Fetched:
  assumes "fetch_assc e d key = Fetched (assc_pk, assc)"
  shows "assc_pk < length (attendance_classes d) \<and> assc = attendance_classes d ! assc_pk"
  using assms
  by (auto simp: fetch_assc_def get_by_pk_def split: option.splits if_splits)

lemma t_class_date_create:
  assumes "is_authenticated (req_user req)" and "get_assign_or_404 d assign_id = Some assign"
    and "req_method req = ''POST''" and "POST req ''create_attendance'' \<noteq> None"
  shows "t_class_date e req assign_id d = create_attendance e req assign d"
  using assms by (simp add: t_class_date_def Let_def)

lemma t_class_date_confirm:
  assumes "is_authenticated (req_user req)" and "get_assign_or_404 d assign_id = Some assign"
    and "req_method req = ''POST''" and "POST req ''create_attendance'' = None"
    and "POST req ''confirm_attendance'' \<noteq> None"
  shows "t_class_date e req assign_id d =
           confirm_attendance e req assign (student_set d (a_class_id assign)) d"
  using assms by (simp add: t_class_date_def Let_def students_or_none)

lemma t_class_date_select:
  assumes "is_authenticated (req_user req)" and "get_assign_or_404 d assign_id = Some assign"
    and "req_method req = ''POST''" and "POST req ''create_attendance'' = None"
    and "POST req ''confirm_attendance'' = None" and "POST req ''select_attendance'' \<noteq> None"
  shows "t_class_date e req assign_id d = select_attendance e req assign d"
  using assms by (simp add: t_class_date_def Let_def)

lemma t_class_date_page:
  assumes "is_authenticated (req_user req)" and "get_assign_or_404 d assign_id = Some assign"
    and "req_method req \<noteq> ''POST'' \<or>
         (POST req ''create_attendance'' = None \<and> POST req ''confirm_attendance'' = None
          \<and> POST req ''select_attendance'' = None)"
  shows "t_class_date e req assign_id d =
           (Render ''t_class_date.html'' (class_date_page e d assign None), [], d)"
  using assms by (auto simp add: t_class_date_def Let_def)









subsection \<open>Creating sessions\<close>

lemma get_assign_or_404_id:
  assumes "get_assign_or_404 d assign_id = Some a"
  shows "a_id a = assign_id \<and> a \<in> set (assigns d)"
  using assms by (auto simp: get_assign_or_404_def find_Some_iff)

lemma create_exam_existing:
  assumes x: "x \<in> set (exam_sessions d)" and a: "a_id (es_assign x) = a_id assignment"
    and name: "POST req ''exam_name'' = Some (es_name x)"
  shows "db_of (create_exam req assignment assign_id d) = d"
proof (cases "es_name x = []")
  case True
  then show ?thesis using name by (simp add: create_exam_def db_of_triple)
next
  case False
  let ?p = "\<lambda>e. a_id (es_assign e) = a_id assignment \<and> es_name e = es_name x"
  let ?new = "\<lparr> es_assign = assignment, es_name = es_name x, es_status = False \<rparr>"
  show ?thesis
  proof (cases "get_or_create ?p ?new (exam_sessions d)")
    case (Inl ex)
    then show ?thesis using name False by (simp add: create_exam_def db_of_triple)
  next
    case (Inr res)
    obtain pk created rows where res: "res = (pk, created, rows)" by (cases res)
    have "\<not> created \<and> rows = exam_sessions d"
      using get_or_create_cases [OF Inr [unfolded res]] x a by auto
    then show ?thesis
      using name False Inr res by (simp add: create_exam_def db_of_triple)
  qed
qed

lemma create_exam_db:
  "db_of (create_exam req assignment assign_id d) = d
   \<or> (\<exists>name. POST req ''exam_name'' = Some name
         \<and> db_of (create_exam req assignment assign_id d) =
             d\<lparr> exam_sessions := exam_sessions d @
                  [\<lparr> es_assign = assignment, es_name = name, es_status = False \<rparr>] \<rparr>)"
proof (cases "POST req ''exam_name''")
  case None
  then show ?thesis by (simp add: create_exam_def db_of_triple)
next
  case (Some name)
  show ?thesis
  proof (cases "name = []")
    case True
    then show ?thesis using Some by (simp add: create_exam_def db_of_triple)
  next
    case False
    let ?p = "\<lambda>e. a_id (es_assign e) = a_id assignment \<and> es_name e = name"
    let ?new = "\<lparr> es_assign = assignment, es_name = name, es_status = False \<rparr>"
    show ?thesis
    proof (cases "get_or_create ?p ?new (exam_sessions d)")
      case (Inl ex)
      then show ?thesis using Some False by (simp add: create_exam_def db_of_triple)
    next
      case (Inr res)
      obtain pk created rows where res: "res = (pk, created, rows)" by (cases res)
      have "rows = exam_sessions d \<or> rows = exam_sessions d @ [?new]"
        using get_or_create_cases [OF Inr [unfolded res]] by auto
      then show ?thesis
        using Some False Inr res by (auto simp: create_exam_def db_of_triple)
    qed
  qed
qed

lemma t_marks_list_db:
  "db_of (t_marks_list req assign_id d) = d
   \<or> (\<exists>assignment. get_assign_or_404 d assign_id = Some assignment
        \<and> is_authenticated (req_user req)
        \<and> \<not> (t_user (a_teacher assignment) \<noteq> None
             \<and> t_user (a_teacher assignment) \<noteq> Some (u_id (req_user req)))
        \<and> req_method req = ''POST'' \<and> POST req ''create_exam'' \<noteq> None
        \<and> t_marks_list req assign_id d = create_exam req assignment assign_id d)"
proof (cases "is_authenticated (req_user req)")
  case False
  then show ?thesis by (simp add: t_marks_list_def login_redirect_def db_of_triple)
next
  case auth: True
  show ?thesis
  proof (cases "get_assign_or_404 d assign_id")
    case None
    then show ?thesis using auth by (simp add: t_marks_list_def db_of_triple)
  next
    case (Some assignment)
    show ?thesis
    proof (cases "t_user (a_teacher assignment) \<noteq> None
             \<and> t_user (a_teacher assignment) \<noteq> Some (u_id (req_user req))")
      case True
      then show ?thesis using auth Some by (simp add: t_marks_list_def Let_def db_of_triple)
    next
      case owner: False
      show ?thesis
      proof (cases "req_method req = ''POST'' \<and> POST req ''create_exam'' \<noteq> None")
        case True
        then have "t_marks_list req assign_id d = create_exam req assignment assign_id d"
          using auth Some owner by (auto simp add: t_marks_list_def Let_def)
        then show ?thesis using auth Some owner True by simp
      next
        case False
        then have "t_marks_list req assign_id d =
            (Render ''t_marks_list.html'' (marks_list_page assignment d), [], d)"
          using auth Some owner by (auto simp add: t_marks_list_def Let_def)
        then show ?thesis by (simp add: db_of_triple)
      qed
    qed
  qed
qed

lemma t_marks_list_existing:
  assumes x: "x \<in> set (exam_sessions d)" and a: "a_id (es_assign x) = assign_id"
    and name: "POST req ''exam_name'' = Some (es_name x)"
  shows "db_of (t_marks_list req assign_id d) = d"
  using t_marks_list_db [of req assign_id d]
proof
  assume "db_of (t_marks_list req assign_id d) = d"
  then show ?thesis .
next
  assume "\<exists>assignment. get_assign_or_404 d assign_id = Some assignment
        \<and> is_authenticated (req_user req)
        \<and> \<not> (t_user (a_teacher assignment) \<noteq> None
             \<and> t_user (a_teacher assignment) \<noteq> Some (u_id (req_user req)))
        \<and> req_method req = ''POST'' \<and> POST req ''create_exam'' \<noteq> None
        \<and> t_marks_list req assign_id d = create_exam req assignment assign_id d"
  then obtain assignment where got: "get_assign_or_404 d assign_id = Some assignment"
    and eq: "t_marks_list req assign_id d = create_exam req assignment assign_id d"
    by auto
  have "a_id (es_assign x) = a_id assignment"
    using get_assign_or_404_id [OF got] a by simp
  from create_exam_existing [OF x this name] show ?thesis
    by (simp add: eq)
qed

lemma create_attendance_existing:
  assumes x: "x \<in> set (attendance_classes d)" and a: "a_id (ac_assign x) = a_id assign"
    and form: "POST req ''attendance_date'' = Some s" and date: "strptime e s = Some (ac_date x)"
  shows "db_of (create_attendance e req assign d) = d"
proof -
  let ?key = "\<lambda>ac. a_id (ac_assign ac) = a_id assign \<and> ac_date ac = ac_date x"
  have "pks_where ?key (attendance_classes d) \<noteq> []"
    using x a by (auto simp: pks_where_Nil_iff)
  then show ?thesis
    using form date
    by (simp add: create_attendance_def Let_def db_of_def split: sum.split)
qed

lemma create_attendance_db:
  "db_of (create_attendance e req assign d) = d
   \<or> (\<exists>s date. POST req ''attendance_date'' = Some s \<and> strptime e s = Some date
         \<and> db_of (create_attendance e req assign d) =
             d\<lparr> attendance_classes := attendance_classes d @
                  [\<lparr> ac_assign = assign, ac_date = date, ac_status = 0 \<rparr>] \<rparr>)"
proof (cases "POST req ''attendance_date''")
  case None
  then show ?thesis by (simp add: create_attendance_def db_of_triple)
next
  case (Some s)
  show ?thesis
  proof (cases "strptime e s")
    case None
    then show ?thesis using Some by (simp add: create_attendance_def db_of_triple)
  next
    case date: (Some attendance_date)
    let ?key = "\<lambda>ac. a_id (ac_assign ac) = a_id assign \<and> ac_date ac = attendance_date"
    show ?thesis
    proof (cases "pks_where ?key (attendance_classes d) = []")
      case True
      then have "db_of (create_attendance e req assign d) =
             d\<lparr> attendance_classes := attendance_classes d @
                  [\<lparr> ac_assign = assign, ac_date = attendance_date, ac_status = 0 \<rparr>] \<rparr>"
        using Some date
        by (simp add: create_attendance_def Let_def db_of_def split: sum.split)
      then show ?thesis using Some date by simp
    next
      case False
      then have "db_of (create_attendance e req assign d) = d"
        using Some date
        by (simp add: create_attendance_def Let_def db_of_def split: sum.split)
      then show ?thesis by simp
    qed
  qed
qed

lemma t_class_date_create_db:
  assumes post: "req_method req = ''POST''" and create: "POST req ''create_attendance'' \<noteq> None"
  shows "db_of (t_class_date e req assign_id d) = d
   \<or> (\<exists>assign. get_assign_or_404 d assign_id = Some assign \<and> is_authenticated (req_user req)
         \<and> t_class_date e req assign_id d = create_attendance e req assign d)"
proof (cases "is_authenticated (req_user req)")
  case False
  then show ?thesis by (simp add: t_class_date_def login_redirect_def db_of_triple)
next
  case auth: True
  show ?thesis
  proof (cases "get_assign_or_404 d assign_id")
    case None
    then show ?thesis using auth by (simp add: t_class_date_def db_of_triple)
  next
    case (Some assign)
    from t_class_date_create [OF auth Some post create, of e] show ?thesis
      using auth Some by simp
  qed
qed

lemma t_class_date_existing:
  assumes post: "req_method req = ''POST''" and create: "POST req ''create_attendance'' \<noteq> None"
    and x: "x \<in> set (attendance_classes d)" and a: "a_id (ac_assign x) = assign_id"
    and form: "POST req ''attendance_date'' = Some s" and date: "strptime e s = Some (ac_date x)"
  shows "db_of (t_class_date e req assign_id d) = d"
  using t_class_date_create_db [OF post create, of e assign_id d]
proof
  assume "db_of (t_class_date e req assign_id d) = d"
  then show ?thesis .
next
  assume "\<exists>assign. get_assign_or_404 d assign_id = Some assign \<and> is_authenticated (req_user req)
         \<and> t_class_date e req assign_id d = create_attendance e req assign d"
  then obtain assign where got: "get_assign_or_404 d assign_id = Some assign"
    and eq: "t_class_date e req assign_id d = create_attendance e req assign d"
    by auto
  have "a_id (ac_assign x) = a_id assign"
    using get_assign_or_404_id [OF got] a by simp
  from create_attendance_existing [OF x this form date] show ?thesis
    by (simp add: eq)
qed

lemma t_marks_list_twice:
  "db_of (t_marks_list req assign_id (db_of (t_marks_list req assign_id d)))
     = db_of (t_marks_list req assign_id d)"
  using t_marks_list_db [of req assign_id d]
proof
  assume "db_of (t_marks_list req assign_id d) = d"
  then show ?thesis by simp
next
  assume "\<exists>assignment. get_assign_or_404 d assign_id = Some assignment
        \<and> is_authenticated (req_user req)
        \<and> \<not> (t_user (a_teacher assignment) \<noteq> None
             \<and> t_user (a_teacher assignment) \<noteq> Some (u_id (req_user req)))
        \<and> req_method req = ''POST'' \<and> POST req ''create_exam'' \<noteq> None
        \<and> t_marks_list req assign_id d = create_exam req assignment assign_id d"
  then obtain assignment where got: "get_assign_or_404 d assign_id = Some assignment"
    and eq: "t_marks_list req assign_id d = create_exam req assignment assign_id d"
    by auto
  from create_exam_db [of req assignment assign_id d] show ?thesis
  proof
    assume "db_of (create_exam req assignment assign_id d) = d"
    then show ?thesis by (simp add: eq)
  next
    assume "\<exists>name. POST req ''exam_name'' = Some name
         \<and> db_of (create_exam req assignment assign_id d) =
             d\<lparr> exam_sessions := exam_sessions d @
                  [\<lparr> es_assign = assignment, es_name = name, es_status = False \<rparr>] \<rparr>"
    then obtain name where name: "POST req ''exam_name'' = Some name"
      and d1: "db_of (t_marks_list req assign_id d) =
             d\<lparr> exam_sessions := exam_sessions d @
                  [\<lparr> es_assign = assignment, es_name = name, es_status = False \<rparr>] \<rparr>"
      by (auto simp: eq)
    define new where "new = \<lparr> es_assign = assignment, es_name = name, es_status = False \<rparr>"
    have "new \<in> set (exam_sessions (db_of (t_marks_list req assign_id d)))"
      by (simp add: d1 new_def)
    moreover have "a_id (es_assign new) = assign_id"
      using get_assign_or_404_id [OF got] by (simp add: new_def)
    moreover have "POST req ''exam_name'' = Some (es_name new)"
      using name by (simp add: new_def)
    ultimately show ?thesis
      by (rule t_marks_list_existing)
  qed
qed

lemma t_class_date_twice:
  assumes post: "req_method req = ''POST''" and create: "POST req ''create_attendance'' \<noteq> None"
  shows "db_of (t_class_date e req assign_id (db_of (t_class_date e req assign_id d)))
     = db_of (t_class_date e req assign_id d)"
  using t_class_date_create_db [OF post create, of e assign_id d]
proof
  assume "db_of (t_class_date e req assign_id d) = d"
  then show ?thesis by simp
next
  assume "\<exists>assign. get_assign_or_404 d assign_id = Some assign \<and> is_authenticated (req_user req)
         \<and> t_class_date e req assign_id d = create_attendance e req assign d"
  then obtain assign where got: "get_assign_or_404 d assign_id = Some assign"
    and eq: "t_class_date e req assign_id d = create_attendance e req assign d"
    by auto
  from create_attendance_db [of e req assign d] show ?thesis
  proof
    assume "db_of (create_attendance e req assign d) = d"
    then show ?thesis by (simp add: eq)
  next
    assume "\<exists>s date. POST req ''attendance_date'' = Some s \<and> strptime e s = Some date
         \<and> db_of (create_attendance e req assign d) =
             d\<lparr> attendance_classes := attendance_classes d @
                  [\<lparr> ac_assign = assign, ac_date = date, ac_status = 0 \<rparr>] \<rparr>"
    then obtain s date where form: "POST req ''attendance_date'' = Some s"
      and parsed: "strptime e s = Some date"
      and d1: "db_of (t_class_date e req assign_id d) =
             d\<lparr> attendance_classes := attendance_classes d @
                  [\<lparr> ac_assign = assign, ac_date = date, ac_status = 0 \<rparr>] \<rparr>"
      by (auto simp: eq)
    define new where "new = \<lparr> ac_assign = assign, ac_date = date, ac_status = 0 \<rparr>"
    have 1: "new \<in> set (attendance_classes (db_of (t_class_date e req assign_id d)))"
      by (simp add: d1 new_def)
    have 2: "a_id (ac_assign new) = assign_id"
      using get_assign_or_404_id [OF got] by (simp add: new_def)
    have 3: "strptime e s = Some (ac_date new)"
      using parsed by (simp add: new_def)
    show ?thesis
      by (rule t_class_date_existing [OF post create 1 2 form 3])
  qed
qed

text \<open>
  C5. When the assignment already has an exam session of the submitted name,
  \<open>t_marks_list\<close> leaves the database as it is: no second row, and the status of the
  existing row untouched; the same holds for \<open>t_class_date\<close> with the
  \<open>create_attendance\<close> form when the assignment has a session of the submitted date.
  So running either creation a second time changes nothing.
\<close>

theorem creation_idempotent:
  "((\<exists>x \<in> set (exam_sessions d).
        a_id (es_assign x) = assign_id \<and> POST req ''exam_name'' = Some (es_name x))
      \<longrightarrow> db_of (t_marks_list req assign_id d) = d)
   \<and> db_of (t_marks_list req assign_id (db_of (t_marks_list req assign_id d)))
       = db_of (t_marks_list req assign_id d)
   \<and> (req_method req = ''POST'' \<and> POST req ''create_attendance'' \<noteq> None \<longrightarrow>
        ((\<exists>x \<in> set (attendance_classes d).
             a_id (ac_assign x) = assign_id
           \<and> (\<exists>s. POST req ''attendance_date'' = Some s \<and> strptime e s = Some (ac_date x)))
          \<longrightarrow> db_of (t_class_date e req assign_id d) = d)
      \<and> db_of (t_class_date e req assign_id (db_of (t_class_date e req assign_id d)))
          = db_of (t_class_date e req assign_id d))"
proof (intro conjI impI)
  assume "\<exists>x \<in> set (exam_sessions d).
        a_id (es_assign x) = assign_id \<and> POST req ''exam_name'' = Some (es_name x)"
  then obtain x where "x \<in> set (exam_sessions d)" "a_id (es_assign x) = assign_id"
      "POST req ''exam_name'' = Some (es_name x)"
    by auto
  then show "db_of (t_marks_list req assign_id d) = d"
    by (rule t_marks_list_existing)
next
  show "db_of (t_marks_list req assign_id (db_of (t_marks_list req assign_id d)))
       = db_of (t_marks_list req assign_id d)"
    by (rule t_marks_list_twice)
next
  assume c: "req_method req = ''POST'' \<and> POST req ''create_attendance'' \<noteq> None"
    and "\<exists>x \<in> set (attendance_classes d).
             a_id (ac_assign x) = assign_id
           \<and> (\<exists>s. POST req ''attendance_date'' = Some s \<and> strptime e s = Some (ac_date x))"
  then obtain x s where "x \<in> set (attendance_classes d)" "a_id (ac_assign x) = assign_id"
      "POST req ''attendance_date'' = Some s" "strptime e s = Some (ac_date x)"
    by auto
  with c show "db_of (t_class_date e req assign_id d) = d"
    using t_class_date_existing by blast
next
  assume c: "req_method req = ''POST'' \<and> POST req ''create_attendance'' \<noteq> None"
  then show "db_of (t_class_date e req assign_id (db_of (t_class_date e req assign_id d)))
          = db_of (t_class_date e req assign_id d)"
    using t_class_date_twice by blast
qed

theorem creation_idempotent_witness:
  "(\<exists>x \<in> set (exam_sessions school_in_term).
        a_id (es_assign x) = 1 \<and> POST create_form ''exam_name'' = Some (es_name x))
   \<and> db_of (t_marks_list create_form 1 school_in_term) = school_in_term
   \<and> messages_of (t_marks_list create_form 1 school_in_term) = [(MsgWarning, ExamAlreadyExists ''Mid-1'')]
   \<and> req_method create_form = ''POST'' \<and> POST create_form ''create_attendance'' \<noteq> None
   \<and> (\<exists>x \<in> set (attendance_classes school_in_term).
             a_id (ac_assign x) = 1
           \<and> (\<exists>s. POST create_form ''attendance_date'' = Some s \<and> strptime runtime s = Some (ac_date x)))
   \<and> db_of (t_class_date runtime create_form 1 school_in_term) = school_in_term
   \<and> exam_sessions (db_of (t_marks_list create_form 1 school))
       = [\<lparr> es_assign = assign_X, es_name = ''Mid-1'', es_status = False \<rparr>]
   \<and> attendance_classes (db_of (t_class_date runtime create_form 1 school))
       = [\<lparr> ac_assign = assign_X, ac_date = 738895, ac_status = 0 \<rparr>]
   \<and> db_of (t_marks_list create_form 1 (db_of (t_marks_list create_form 1 school)))
       = db_of (t_marks_list create_form 1 school)
   \<and> db_of (t_class_date runtime create_form 1 (db_of (t_class_date runtime create_form 1 school)))
       = db_of (t_class_date runtime create_form 1 school)"
  using creation_idempotent [of school_in_term 1 create_form runtime]
    creation_idempotent [of school 1 create_form runtime]
  by (simp add: school_defs t_marks_list_def create_exam_def t_class_date_def
      create_attendance_def get_assign_or_404_def get_or_create_def objects_get_def
      pks_where_def messages_of_def db_of_def Let_def)

subsection \<open>Responses of the write paths\<close>

lemma pks_where_snoc:
  "pks_where p (rows @ [new]) = pks_where p rows @ (if p new then [length rows] else [])"
proof -
  have "filter (\<lambda>i. p ((rows @ [new]) ! i)) [0..<length rows]
      = filter (\<lambda>i. p (rows ! i)) [0..<length rows]"
    by (rule filter_cong) (simp_all add: nth_append)
  then show ?thesis
    by (simp add: pks_where_def)
qed

lemma create_exam_response:
  "response_of (create_exam req assignment assign_id d) = Redirect ''t_marks_list'' [assign_id]"
proof (cases "POST req ''exam_name''")
  case None
  then show ?thesis by (simp add: create_exam_def response_of_triple)
next
  case (Some name)
  show ?thesis
  proof (cases "name = []")
    case True
    then show ?thesis using Some by (simp add: create_exam_def response_of_triple)
  next
    case False
    then show ?thesis
      using Some
      by (simp add: create_exam_def response_of_def split: sum.split prod.split)
  qed
qed

lemma marks_confirm_written:
  assumes "db_of (marks_confirm e req marks_c_id d) \<noteq> d"
  shows "redirect_target (response_of (marks_confirm e req marks_c_id d)) = Some ''t_marks_list''"
proof -
  have auth: "is_authenticated (req_user req)"
  proof (rule ccontr)
    assume "\<not> is_authenticated (req_user req)"
    then have "db_of (marks_confirm e req marks_c_id d) = d"
      by (simp add: marks_confirm_def login_redirect_def db_of_triple)
    with assms show False by simp
  qed
  have found: "marks_c_id < length (exam_sessions d)"
  proof (rule ccontr)
    assume "\<not> marks_c_id < length (exam_sessions d)"
    then have "db_of (marks_confirm e req marks_c_id d) = d"
      using auth by (simp add: marks_confirm_def get_by_pk_def db_of_triple)
    with assms show False by simp
  qed
  show ?thesis
  proof (cases "marks_confirm_loop e req (student_subjects d)
      (a_subject (es_assign (exam_sessions d ! marks_c_id))) (es_name (exam_sessions d ! marks_c_id))
      (student_set d (a_class_id (es_assign (exam_sessions d ! marks_c_id)))) (marks d)")
    case (Inl ex)
    then have "db_of (marks_confirm e req marks_c_id d) = d"
      using auth found by (simp add: marks_confirm_def get_by_pk_def Let_def db_of_triple)
    with assms show ?thesis by simp
  next
    case (Inr rows)
    then show ?thesis
      using auth found
      by (simp add: marks_confirm_def get_by_pk_def Let_def response_of_triple)
  qed
qed

lemma confirm_written:
  assumes "db_of (confirm req ass_c_id d) \<noteq> d"
  shows "redirect_target (response_of (confirm req ass_c_id d)) = Some ''t_class_date''"
proof -
  have auth: "is_authenticated (req_user req)"
  proof (rule ccontr)
    assume "\<not> is_authenticated (req_user req)"
    then have "db_of (confirm req ass_c_id d) = d"
      by (simp add: confirm_def login_redirect_def db_of_triple)
    with assms show False by simp
  qed
  have found: "ass_c_id < length (attendance_classes d)"
  proof (rule ccontr)
    assume "\<not> ass_c_id < length (attendance_classes d)"
    then have "db_of (confirm req ass_c_id d) = d"
      using auth by (simp add: confirm_def get_by_pk_def db_of_triple)
    with assms show False by simp
  qed
  show ?thesis
  proof (cases "attendance_loop req (a_subject (ac_assign (attendance_classes d ! ass_c_id))) ass_c_id
           (ac_date (attendance_classes d ! ass_c_id))
           (student_set d (a_class_id (ac_assign (attendance_classes d ! ass_c_id))))
           (attendances d)")
    case (Inl ex)
    then have "db_of (confirm req ass_c_id d) = d"
      using auth found
      by (simp add: confirm_def get_by_pk_def Let_def db_of_triple students_or_none)
    with assms show ?thesis by simp
  next
    case (Inr rows)
    then show ?thesis
      using auth found
      by (simp add: confirm_def get_by_pk_def Let_def response_of_triple students_or_none)
  qed
qed

lemma confirm_attendance_written:
  assumes "db_of (confirm_attendance e req assign studs d) \<noteq> d"
  shows "redirect_target (response_of (confirm_attendance e req assign studs d)) = Some ''t_class_date''"
proof (cases "fetch_assc e d (POST req ''assc_id'')")
  case (Fetched found)
  obtain assc_pk assc where found: "found = (assc_pk, assc)" by (cases found)
  show ?thesis
  proof (cases "attendance_loop req (a_subject assign) assc_pk (ac_date assc) studs (attendances d)")
    case (Inl ex)
    then have "db_of (confirm_attendance e req assign studs d) = d"
      using Fetched found by (simp add: confirm_attendance_def db_of_triple)
    with assms show ?thesis by simp
  next
    case (Inr rows)
    then show ?thesis
      using Fetched found by (simp add: confirm_attendance_def response_of_triple)
  qed
next
  case Missing
  then have "db_of (confirm_attendance e req assign studs d) = d"
    by (simp add: confirm_attendance_def db_of_triple)
  with assms show ?thesis by simp
next
  case (Broke ex)
  then have "db_of (confirm_attendance e req assign studs d) = d"
    by (simp add: confirm_attendance_def db_of_triple)
  with assms show ?thesis by simp
qed

lemma select_attendance_db: "db_of (select_attendance e req assign d) = d"
  by (simp add: select_attendance_def db_of_def split: fetched.split)

lemma create_attendance_written:
  assumes "db_of (create_attendance e req assign d) \<noteq> d"
  shows "rendered_template (response_of (create_attendance e req assign d)) = Some ''t_class_date.html''"
proof (cases "POST req ''attendance_date''")
  case None
  then have "db_of (create_attendance e req assign d) = d"
    by (simp add: create_attendance_def db_of_triple)
  with assms show ?thesis by simp
next
  case (Some s)
  show ?thesis
  proof (cases "strptime e s")
    case None
    then have "db_of (create_attendance e req assign d) = d"
      using Some by (simp add: create_attendance_def db_of_triple)
    with assms show ?thesis by simp
  next
    case date: (Some attendance_date)
    let ?key = "\<lambda>ac. a_id (ac_assign ac) = a_id assign \<and> ac_date ac = attendance_date"
    show ?thesis
    proof (cases "pks_where ?key (attendance_classes d) = []")
      case False
      then have "db_of (create_attendance e req assign d) = d"
        using Some date
        by (simp add: create_attendance_def Let_def db_of_def split: sum.split)
      with assms show ?thesis by simp
    next
      case True
      have "pks_where ?key (attendance_classes d @
              [\<lparr> ac_assign = assign, ac_date = attendance_date, ac_status = 0 \<rparr>])
            = [length (attendance_classes d)]"
        by (simp add: pks_where_snoc True)
      then show ?thesis
        using Some date True
        by (simp add: create_attendance_def Let_def objects_get_def response_of_triple)
    qed
  qed
qed

lemma t_marks_list_create_never_renders:
  assumes "req_method req = ''POST''" and "POST req ''create_exam'' \<noteq> None"
  shows "rendered_template (response_of (t_marks_list req assign_id d)) = None"
proof (cases "is_authenticated (req_user req)")
  case False
  then show ?thesis by (simp add: t_marks_list_def login_redirect_def response_of_triple)
next
  case auth: True
  show ?thesis
  proof (cases "get_assign_or_404 d assign_id")
    case None
    then show ?thesis using auth by (simp add: t_marks_list_def response_of_triple)
  next
    case (Some assignment)
    show ?thesis
    proof (cases "t_user (a_teacher assignment) \<noteq> None
             \<and> t_user (a_teacher assignment) \<noteq> Some (u_id (req_user req))")
      case True
      then show ?thesis
        using auth Some by (simp add: t_marks_list_def Let_def response_of_triple)
    next
      case False
      then have "t_marks_list req assign_id d = create_exam req assignment assign_id d"
        using auth Some assms by (auto simp add: t_marks_list_def Let_def)
      then show ?thesis by (simp add: create_exam_response)
    qed
  qed
qed

lemma t_marks_list_written:
  assumes "db_of (t_marks_list req assign_id d) \<noteq> d"
  shows "response_of (t_marks_list req assign_id d) = Redirect ''t_marks_list'' [assign_id]"
  using t_marks_list_db [of req assign_id d] assms
  by (auto simp: create_exam_response)

lemma marks_confirm_never_renders:
  "rendered_template (response_of (marks_confirm e req marks_c_id d)) = None"
proof (cases "is_authenticated (req_user req)")
  case False
  then show ?thesis by (simp add: marks_confirm_def login_redirect_def response_of_triple)
next
  case auth: True
  show ?thesis
  proof (cases "get_by_pk (exam_sessions d) marks_c_id")
    case None
    then show ?thesis using auth by (simp add: marks_confirm_def response_of_triple)
  next
    case (Some exam_session)
    then show ?thesis
      using auth
      by (simp add: marks_confirm_def Let_def response_of_def split: sum.split)
  qed
qed

lemma confirm_never_renders:
  "rendered_template (response_of (confirm req ass_c_id d)) = None"
proof (cases "is_authenticated (req_user req)")
  case False
  then show ?thesis by (simp add: confirm_def login_redirect_def response_of_triple)
next
  case auth: True
  show ?thesis
  proof (cases "get_by_pk (attendance_classes d) ass_c_id")
    case None
    then show ?thesis using auth by (simp add: confirm_def response_of_triple)
  next
    case (Some assc)
    then show ?thesis
      using auth
      by (simp add: confirm_def Let_def response_of_def split: sum.split)
  qed
qed

lemma confirm_attendance_never_renders:
  "rendered_template (response_of (confirm_attendance e req assign studs d)) = None"
  by (simp add: confirm_attendance_def response_of_def split: fetched.split sum.split prod.split)

lemma t_class_date_confirm_never_renders:
  assumes post: "req_method req = ''POST''" and create: "POST req ''create_attendance'' = None"
    and conf: "POST req ''confirm_attendance'' \<noteq> None"
  shows "rendered_template (response_of (t_class_date e req assign_id d)) = None"
proof (cases "is_authenticated (req_user req)")
  case False
  then show ?thesis by (simp add: t_class_date_def login_redirect_def response_of_triple)
next
  case auth: True
  show ?thesis
  proof (cases "get_assign_or_404 d assign_id")
    case None
    then show ?thesis using auth by (simp add: t_class_date_def response_of_triple)
  next
    case (Some assign)
    show ?thesis
      by (simp add: t_class_date_confirm [OF auth Some post create conf]
          confirm_attendance_never_renders)
  qed
qed

lemma t_class_date_written:
  assumes changed: "db_of (t_class_date e req assign_id d) \<noteq> d"
  shows "(POST req ''create_attendance'' = None \<longrightarrow>
            redirect_target (response_of (t_class_date e req assign_id d)) = Some ''t_class_date'')
       \<and> (POST req ''create_attendance'' \<noteq> None \<longrightarrow>
            rendered_template (response_of (t_class_date e req assign_id d)) = Some ''t_class_date.html'')"
proof -
  have auth: "is_authenticated (req_user req)"
  proof (rule ccontr)
    assume "\<not> is_authenticated (req_user req)"
    then have "db_of (t_class_date e req assign_id d) = d"
      by (simp add: t_class_date_def login_redirect_def db_of_triple)
    with changed show False by simp
  qed
  obtain assign where assign: "get_assign_or_404 d assign_id = Some assign"
  proof (cases "get_assign_or_404 d assign_id")
    case None
    then have "db_of (t_class_date e req assign_id d) = d"
      using auth by (simp add: t_class_date_def db_of_triple)
    with changed have False by simp
    then show ?thesis ..
  next
    case (Some a)
    then show ?thesis by (rule that)
  qed
  have post: "req_method req = ''POST''"
  proof (rule ccontr)
    assume "req_method req \<noteq> ''POST''"
    then have "db_of (t_class_date e req assign_id d) = d"
      using t_class_date_page [OF auth assign, of e] by (simp add: db_of_triple)
    with changed show False by simp
  qed
  show ?thesis
  proof (cases "POST req ''create_attendance''")
    case (Some v)
    then have c: "POST req ''create_attendance'' \<noteq> None" by simp
    note eq = t_class_date_create [OF auth assign post c, of e]
    show ?thesis
      using changed create_attendance_written [of e req assign d] Some by (simp add: eq)
  next
    case None
    have conf: "POST req ''confirm_attendance'' \<noteq> None"
    proof
      assume none: "POST req ''confirm_attendance'' = None"
      have "db_of (t_class_date e req assign_id d) = d"
      proof (cases "POST req ''select_attendance''")
        case None
        then show ?thesis
          using t_class_date_page [OF auth assign, of e] \<open>POST req ''create_attendance'' = None\<close> none
          by (simp add: db_of_triple)
      next
        case (Some v)
        then show ?thesis
          using t_class_date_select [OF auth assign post \<open>POST req ''create_attendance'' = None\<close> none, of e]
          by (simp add: select_attendance_db)
      qed
      with changed show False by simp
    qed
    note eq = t_class_date_confirm [OF auth assign post None conf, of e]
    show ?thesis
      using changed confirm_attendance_written [of e req assign "student_set d (a_class_id assign)" d] None
      by (simp add: eq)
  qed
qed

lemma create_attendance_redirect:
  assumes "redirect_target (response_of (create_attendance e req assign d)) \<noteq> None"
  shows "\<exists>s. POST req ''attendance_date'' = Some s \<and> strptime e s = None"
proof (cases "POST req ''attendance_date''")
  case None
  then show ?thesis
    using assms by (simp add: create_attendance_def response_of_triple)
next
  case (Some s)
  show ?thesis
  proof (cases "strptime e s")
    case None
    then show ?thesis using Some by simp
  next
    case date: (Some attendance_date)
    then have "redirect_target (response_of (create_attendance e req assign d)) = None"
      using Some
      by (simp add: create_attendance_def response_of_def Let_def split: sum.split)
    with assms show ?thesis by simp
  qed
qed

lemma t_class_date_create_redirect:
  assumes auth: "is_authenticated (req_user req)"
    and post: "req_method req = ''POST''" and create: "POST req ''create_attendance'' \<noteq> None"
    and redirect: "redirect_target (response_of (t_class_date e req assign_id d)) \<noteq> None"
  shows "\<exists>s. POST req ''attendance_date'' = Some s \<and> strptime e s = None"
proof (cases "get_assign_or_404 d assign_id")
  case None
  then show ?thesis
    using auth redirect by (simp add: t_class_date_def response_of_triple)
next
  case (Some assign)
  show ?thesis
    using redirect create_attendance_redirect [of e req assign d]
    by (simp add: t_class_date_create [OF auth Some post create])
qed

lemma cd_selected_assc_page: "cd_selected_assc (class_date_page e d assign sel) = sel"
  by (simp add: class_date_page_def Let_def)

lemma create_attendance_selected:
  assumes "db_of (create_attendance e req assign d) \<noteq> d"
  shows "\<exists>s date.
           POST req ''attendance_date'' = Some s \<and> strptime e s = Some date
         \<and> map_option cd_selected_assc
               (context_of (response_of (create_attendance e req assign d)))
             = Some (Some \<lparr> ac_assign = assign, ac_date = date, ac_status = 0 \<rparr>)
         \<and> attendance_classes (db_of (create_attendance e req assign d))
             = attendance_classes d @ [\<lparr> ac_assign = assign, ac_date = date, ac_status = 0 \<rparr>]"
proof (cases "POST req ''attendance_date''")
  case None
  then have "db_of (create_attendance e req assign d) = d"
    by (simp add: create_attendance_def db_of_triple)
  with assms show ?thesis by simp
next
  case (Some s)
  show ?thesis
  proof (cases "strptime e s")
    case None
    then have "db_of (create_attendance e req assign d) = d"
      using Some by (simp add: create_attendance_def db_of_triple)
    with assms show ?thesis by simp
  next
    case date: (Some attendance_date)
    let ?key = "\<lambda>ac. a_id (ac_assign ac) = a_id assign \<and> ac_date ac = attendance_date"
    let ?new = "\<lparr> ac_assign = assign, ac_date = attendance_date, ac_status = 0 \<rparr>"
    show ?thesis
    proof (cases "pks_where ?key (attendance_classes d) = []")
      case False
      then have "db_of (create_attendance e req assign d) = d"
        using Some date
        by (simp add: create_attendance_def Let_def db_of_def split: sum.split)
      with assms show ?thesis by simp
    next
      case True
      have pk: "pks_where ?key (attendance_classes d @ [?new]) = [length (attendance_classes d)]"
        by (simp add: pks_where_snoc True)
      have "create_attendance e req assign d =
          (Render ''t_class_date.html'' (class_date_page e d assign (Some ?new)), [],
           d\<lparr> attendance_classes := attendance_classes d @ [?new] \<rparr>)"
        using Some date True pk
        by (simp add: create_attendance_def Let_def objects_get_def)
      then show ?thesis
        using Some date
        by (simp add: response_of_triple db_of_triple cd_selected_assc_page)
    qed
  qed
qed

lemma t_class_date_create_selected:
  assumes changed: "db_of (t_class_date e req assign_id d) \<noteq> d"
    and create: "POST req ''create_attendance'' \<noteq> None"
  shows "\<exists>s date assign.
            POST req ''attendance_date'' = Some s \<and> strptime e s = Some date
          \<and> get_assign_or_404 d assign_id = Some assign
          \<and> map_option cd_selected_assc
                (context_of (response_of (t_class_date e req assign_id d)))
              = Some (Some \<lparr> ac_assign = assign, ac_date = date, ac_status = 0 \<rparr>)
          \<and> attendance_classes (db_of (t_class_date e req assign_id d))
              = attendance_classes d @ [\<lparr> ac_assign = assign, ac_date = date, ac_status = 0 \<rparr>]"
proof -
  have auth: "is_authenticated (req_user req)"
  proof (rule ccontr)
    assume "\<not> is_authenticated (req_user req)"
    then have "db_of (t_class_date e req assign_id d) = d"
      by (simp add: t_class_date_def login_redirect_def db_of_triple)
    with changed show False by simp
  qed
  obtain assign where assign: "get_assign_or_404 d assign_id = Some assign"
  proof (cases "get_assign_or_404 d assign_id")
    case None
    then have "db_of (t_class_date e req assign_id d) = d"
      using auth by (simp add: t_class_date_def db_of_triple)
    with changed have False by simp
    then show ?thesis ..
  next
    case (Some a)
    then show ?thesis by (rule that)
  qed
  have post: "req_method req = ''POST''"
  proof (rule ccontr)
    assume "req_method req \<noteq> ''POST''"
    then have "db_of (t_class_date e req assign_id d) = d"
      using t_class_date_page [OF auth assign, of e] by (simp add: db_of_triple)
    with changed show False by simp
  qed
  note eq = t_class_date_create [OF auth assign post create, of e]
  from changed have "db_of (create_attendance e req assign d) \<noteq> d"
    by (simp add: eq)
  from create_attendance_selected [OF this] show ?thesis
    unfolding eq using assign by blast
qed

text \<open>
  C6, as the code has it. Exam-session creation, marks confirmation and both
  attendance confirmations never answer by rendering, and answer with a redirect
  whenever they changed the database. Attendance-session creation is different: when
  \<open>t_class_date\<close> has created the session it renders \<open>t_class_date.html\<close> with the
  new session selected, that is, \<open>selected_assc\<close> is the row just appended to the
  table, of the assignment and the submitted date and not marked; its only redirect
  is the one for a malformed date.
\<close>

theorem write_paths_responses:
  "(req_method req = ''POST'' \<and> POST req ''create_exam'' \<noteq> None \<longrightarrow>
      rendered_template (response_of (t_marks_list req assign_id d)) = None)
   \<and> (db_of (t_marks_list req assign_id d) \<noteq> d \<longrightarrow>
        response_of (t_marks_list req assign_id d) = Redirect ''t_marks_list'' [assign_id])
   \<and> rendered_template (response_of (marks_confirm e req marks_c_id d)) = None
   \<and> (db_of (marks_confirm e req marks_c_id d) \<noteq> d \<longrightarrow>
        redirect_target (response_of (marks_confirm e req marks_c_id d)) = Some ''t_marks_list'')
   \<and> rendered_template (response_of (confirm req ass_c_id d)) = None
   \<and> (db_of (confirm req ass_c_id d) \<noteq> d \<longrightarrow>
        redirect_target (response_of (confirm req ass_c_id d)) = Some ''t_class_date'')
   \<and> (req_method req = ''POST'' \<and> POST req ''create_attendance'' = None
        \<and> POST req ''confirm_attendance'' \<noteq> None \<longrightarrow>
        rendered_template (response_of (t_class_date e req assign_id d)) = None)
   \<and> (db_of (t_class_date e req assign_id d) \<noteq> d \<and> POST req ''create_attendance'' = None \<longrightarrow>
        redirect_target (response_of (t_class_date e req assign_id d)) = Some ''t_class_date'')
   \<and> (db_of (t_class_date e req assign_id d) \<noteq> d \<and> POST req ''create_attendance'' \<noteq> None \<longrightarrow>
        rendered_template (response_of (t_class_date e req assign_id d)) = Some ''t_class_date.html'')
   \<and> (is_authenticated (req_user req) \<and> req_method req = ''POST''
        \<and> POST req ''create_attendance'' \<noteq> None
        \<and> redirect_target (response_of (t_class_date e req assign_id d)) \<noteq> None \<longrightarrow>
        (\<exists>s. POST req ''attendance_date'' = Some s \<and> strptime e s = None))
   \<and> (db_of (t_class_date e req assign_id d) \<noteq> d \<and> POST req ''create_attendance'' \<noteq> None \<longrightarrow>
        (\<exists>s date assign.
            POST req ''attendance_date'' = Some s \<and> strptime e s = Some date
          \<and> get_assign_or_404 d assign_id = Some assign
          \<and> map_option cd_selected_assc
                (context_of (response_of (t_class_date e req assign_id d)))
              = Some (Some \<lparr> ac_assign = assign, ac_date = date, ac_status = 0 \<rparr>)
          \<and> attendance_classes (db_of (t_class_date e req assign_id d))
              = attendance_classes d @ [\<lparr> ac_assign = assign, ac_date = date, ac_status = 0 \<rparr>]))"
proof (intro conjI impI)
  assume "db_of (t_class_date e req assign_id d) \<noteq> d \<and> POST req ''create_attendance'' \<noteq> None"
  then show "\<exists>s date assign.
            POST req ''attendance_date'' = Some s \<and> strptime e s = Some date
          \<and> get_assign_or_404 d assign_id = Some assign
          \<and> map_option cd_selected_assc
                (context_of (response_of (t_class_date e req assign_id d)))
              = Some (Some \<lparr> ac_assign = assign, ac_date = date, ac_status = 0 \<rparr>)
          \<and> attendance_classes (db_of (t_class_date e req assign_id d))
              = attendance_classes d @ [\<lparr> ac_assign = assign, ac_date = date, ac_status = 0 \<rparr>]"
    using t_class_date_create_selected by blast
next
  assume "is_authenticated (req_user req) \<and> req_method req = ''POST''
        \<and> POST req ''create_attendance'' \<noteq> None
        \<and> redirect_target (response_of (t_class_date e req assign_id d)) \<noteq> None"
  then show "\<exists>s. POST req ''attendance_date'' = Some s \<and> strptime e s = None"
    using t_class_date_create_redirect by blast
next
  assume "req_method req = ''POST'' \<and> POST req ''create_exam'' \<noteq> None"
  then show "rendered_template (response_of (t_marks_list req assign_id d)) = None"
    using t_marks_list_create_never_renders by blast
next
  assume "db_of (t_marks_list req assign_id d) \<noteq> d"
  then show "response_of (t_marks_list req assign_id d) = Redirect ''t_marks_list'' [assign_id]"
    by (rule t_marks_list_written)
next
  show "rendered_template (response_of (marks_confirm e req marks_c_id d)) = None"
    by (rule marks_confirm_never_renders)
next
  assume "db_of (marks_confirm e req marks_c_id d) \<noteq> d"
  then show "redirect_target (response_of (marks_confirm e req marks_c_id d)) = Some ''t_marks_list''"
    by (rule marks_confirm_written)
next
  show "rendered_template (response_of (confirm req ass_c_id d)) = None"
    by (rule confirm_never_renders)
next
  assume "db_of (confirm req ass_c_id d) \<noteq> d"
  then show "redirect_target (response_of (confirm req ass_c_id d)) = Some ''t_class_date''"
    by (rule confirm_written)
next
  assume "req_method req = ''POST'' \<and> POST req ''create_attendance'' = None
        \<and> POST req ''confirm_attendance'' \<noteq> None"
  then show "rendered_template (response_of (t_class_date e req assign_id d)) = None"
    using t_class_date_confirm_never_renders by blast
next
  assume "db_of (t_class_date e req assign_id d) \<noteq> d \<and> POST req ''create_attendance'' = None"
  then show "redirect_target (response_of (t_class_date e req assign_id d)) = Some ''t_class_date''"
    using t_class_date_written by blast
next
  assume "db_of (t_class_date e req assign_id d) \<noteq> d \<and> POST req ''create_attendance'' \<noteq> None"
  then show "rendered_template (response_of (t_class_date e req assign_id d)) = Some ''t_class_date.html''"
    using t_class_date_written by blast
qed

theorem write_paths_responses_witness:
  "req_method create_form = ''POST'' \<and> POST create_form ''create_exam'' \<noteq> None
   \<and> db_of (t_marks_list create_form 1 school) \<noteq> school
   \<and> response_of (t_marks_list create_form 1 school) = Redirect ''t_marks_list'' [1]
   \<and> db_of (marks_confirm runtime marks_form 0 school_in_term) \<noteq> school_in_term
   \<and> response_of (marks_confirm runtime marks_form 0 school_in_term) = Redirect ''t_marks_list'' [1]
   \<and> db_of (confirm confirm_form 0 school_in_term) \<noteq> school_in_term
   \<and> response_of (confirm confirm_form 0 school_in_term) = Redirect ''t_class_date'' [1]
   \<and> req_method confirm_form = ''POST'' \<and> POST confirm_form ''create_attendance'' = None
   \<and> POST confirm_form ''confirm_attendance'' \<noteq> None
   \<and> db_of (t_class_date runtime confirm_form 1 school_in_term) \<noteq> school_in_term
   \<and> redirect_target (response_of (t_class_date runtime confirm_form 1 school_in_term)) = Some ''t_class_date''
   \<and> db_of (t_class_date runtime create_form 1 school) \<noteq> school
   \<and> POST create_form ''create_attendance'' \<noteq> None
   \<and> rendered_template (response_of (t_class_date runtime create_form 1 school)) = Some ''t_class_date.html''
   \<and> POST create_form ''attendance_date'' = Some ''2024-01-10''
   \<and> strptime runtime ''2024-01-10'' = Some 738895
   \<and> get_assign_or_404 school 1 = Some assign_X
   \<and> map_option cd_selected_assc
         (context_of (response_of (t_class_date runtime create_form 1 school)))
       = Some (Some \<lparr> ac_assign = assign_X, ac_date = 738895, ac_status = 0 \<rparr>)
   \<and> attendance_classes (db_of (t_class_date runtime create_form 1 school))
       = attendance_classes school @ [\<lparr> ac_assign = assign_X, ac_date = 738895, ac_status = 0 \<rparr>]"
  using write_paths_responses [of create_form 1 school runtime 0 0]
  by (simp add: school_defs t_marks_list_def create_exam_def marks_confirm_def
      confirm_def t_class_date_def create_attendance_def confirm_attendance_def fetch_assc_def
      get_by_pk_def get_assign_or_404_def student_set_def get_or_create_def objects_get_def
      pks_where_def response_of_def db_of_def class_date_page_def Let_def)

text \<open>
  C6 as stated fails for attendance-session creation: the request that creates the
  session of 2024-01-10 is answered with the rendered page, not with a redirect.
\<close>

theorem attendance_creation_renders:
  "attendance_classes school = []
   \<and> attendance_classes (db_of (t_class_date runtime create_form 1 school))
       = [\<lparr> ac_assign = assign_X, ac_date = 738895, ac_status = 0 \<rparr>]
   \<and> rendered_template (response_of (t_class_date runtime create_form 1 school))
       = Some ''t_class_date.html''
   \<and> map_option cd_selected_assc
         (context_of (response_of (t_class_date runtime create_form 1 school)))
       = Some (Some \<lparr> ac_assign = assign_X, ac_date = 738895, ac_status = 0 \<rparr>)
   \<and> redirect_target (response_of (t_class_date runtime create_form 1 school)) = None"
  by (simp add: school_defs t_class_date_def create_attendance_def get_assign_or_404_def
      objects_get_def pks_where_def response_of_def db_of_def class_date_page_def Let_def)

subsection \<open>Status flags\<close>

lemma db_of_forget: "db_of (forget out) = db_of out"
  by (simp add: forget_def db_of_def)

lemma teacher_dashboard_db: "db_of (teacher_dashboard req d) = d"
  by (simp add: teacher_dashboard_def login_redirect_def db_of_def split: list.split)

lemma teacher_logout_db: "db_of (teacher_logout req d) = d"
  by (simp add: teacher_logout_def db_of_def)

lemma index_db: "db_of (index req d) = d"
  by (simp add: index_def login_redirect_def db_of_def)

lemma t_clas_db: "db_of (t_clas req teacher_id choice d) = d"
  by (simp add: t_clas_def login_redirect_def db_of_def split: option.split)

lemma t_marks_entry_db: "db_of (t_marks_entry req marks_c_id d) = d"
  by (simp add: t_marks_entry_def login_redirect_def db_of_def split: option.split)

lemma edit_marks_db: "db_of (edit_marks req marks_c_id d) = d"
  by (simp add: edit_marks_def login_redirect_def db_of_def split: option.split)

lemma t_timetable_db: "db_of (t_timetable te req teacher_id d) = d"
  by (simp add: t_timetable_def login_redirect_def db_of_def Let_def split: option.split)

lemma free_teachers_db: "db_of (free_teachers req asst_id d) = d"
  by (simp add: free_teachers_def login_redirect_def db_of_def Let_def split: option.split)

lemma t_attendance_db: "db_of (t_attendance req ass_c_id d) = d"
  by (simp add: t_attendance_def login_redirect_def db_of_def split: option.split)

lemma edit_att_db: "db_of (edit_att e req ass_c_id d) = d"
  by (simp add: edit_att_def login_redirect_def db_of_def Let_def split: option.split)

lemma view_att_db: "db_of (view_att e req ass_c_id d) = d"
  by (simp add: view_att_def login_redirect_def db_of_def Let_def split: option.split)

lemma t_report_db: "db_of (t_report req assign_id d) = d"
  by (simp add: t_report_def login_redirect_def db_of_def split: option.split)

lemma view_students_db: "db_of (view_students e req assign_id d) = d"
  by (simp add: view_students_def login_redirect_def db_of_def Let_def
      split: option.split sum.split)

lemma marks_confirm_db:
  "db_of (marks_confirm e req marks_c_id d) = d
   \<or> (\<exists>rows. marks_c_id < length (exam_sessions d)
         \<and> db_of (marks_confirm e req marks_c_id d) =
             d\<lparr> marks := rows,
                exam_sessions := (exam_sessions d)
                  [marks_c_id := (exam_sessions d ! marks_c_id)\<lparr> es_status := True \<rparr>] \<rparr>)"
proof (cases "is_authenticated (req_user req) \<and> marks_c_id < length (exam_sessions d)")
  case False
  then have "db_of (marks_confirm e req marks_c_id d) = d"
    by (auto simp: marks_confirm_def login_redirect_def get_by_pk_def db_of_triple)
  then show ?thesis by simp
next
  case True
  show ?thesis
  proof (cases "marks_confirm_loop e req (student_subjects d)
      (a_subject (es_assign (exam_sessions d ! marks_c_id))) (es_name (exam_sessions d ! marks_c_id))
      (student_set d (a_class_id (es_assign (exam_sessions d ! marks_c_id)))) (marks d)")
    case (Inl ex)
    then have "db_of (marks_confirm e req marks_c_id d) = d"
      using True by (simp add: marks_confirm_def get_by_pk_def Let_def db_of_triple)
    then show ?thesis by simp
  next
    case (Inr rows)
    then have "db_of (marks_confirm e req marks_c_id d) =
             d\<lparr> marks := rows,
                exam_sessions := (exam_sessions d)
                  [marks_c_id := (exam_sessions d ! marks_c_id)\<lparr> es_status := True \<rparr>] \<rparr>"
      using True by (simp add: marks_confirm_def get_by_pk_def Let_def db_of_triple)
    then show ?thesis using True by blast
  qed
qed

lemma confirm_db:
  "db_of (confirm req ass_c_id d) = d
   \<or> (\<exists>rows. ass_c_id < length (attendance_classes d)
         \<and> db_of (confirm req ass_c_id d) =
             d\<lparr> attendances := rows,
                attendance_classes := (attendance_classes d)
                  [ass_c_id := (attendance_classes d ! ass_c_id)\<lparr> ac_status := 1 \<rparr>] \<rparr>)"
proof (cases "is_authenticated (req_user req) \<and> ass_c_id < length (attendance_classes d)")
  case False
  then have "db_of (confirm req ass_c_id d) = d"
    by (auto simp: confirm_def login_redirect_def get_by_pk_def db_of_triple)
  then show ?thesis by simp
next
  case True
  show ?thesis
  proof (cases "attendance_loop req (a_subject (ac_assign (attendance_classes d ! ass_c_id))) ass_c_id
           (ac_date (attendance_classes d ! ass_c_id))
           (student_set d (a_class_id (ac_assign (attendance_classes d ! ass_c_id))))
           (attendances d)")
    case (Inl ex)
    then have "db_of (confirm req ass_c_id d) = d"
      using True by (simp add: confirm_def get_by_pk_def Let_def db_of_triple students_or_none)
    then show ?thesis by simp
  next
    case (Inr rows)
    then have "db_of (confirm req ass_c_id d) =
             d\<lparr> attendances := rows,
                attendance_classes := (attendance_classes d)
                  [ass_c_id := (attendance_classes d ! ass_c_id)\<lparr> ac_status := 1 \<rparr>] \<rparr>"
      using True by (simp add: confirm_def get_by_pk_def Let_def db_of_triple students_or_none)
    then show ?thesis using True by blast
  qed
qed

lemma confirm_attendance_db:
  "db_of (confirm_attendance e req assign studs d) = d
   \<or> (\<exists>i rows. i < length (attendance_classes d)
         \<and> db_of (confirm_attendance e req assign studs d) =
             d\<lparr> attendances := rows,
                attendance_classes := (attendance_classes d)
                  [i := (attendance_classes d ! i)\<lparr> ac_status := 1 \<rparr>] \<rparr>)"
proof (cases "fetch_assc e d (POST req ''assc_id'')")
  case (Fetched found)
  obtain assc_pk assc where found: "found = (assc_pk, assc)" by (cases found)
  have range: "assc_pk < length (attendance_classes d)" and row: "assc = attendance_classes d ! assc_pk"
    using fetch_assc_Fetched [OF Fetched [unfolded found]] by simp_all
  show ?thesis
  proof (cases "attendance_loop req (a_subject assign) assc_pk (ac_date assc) studs (attendances d)")
    case (Inl ex)
    then have "db_of (confirm_attendance e req assign studs d) = d"
      using Fetched found by (simp add: confirm_attendance_def db_of_triple)
    then show ?thesis by simp
  next
    case (Inr rows)
    then have "db_of (confirm_attendance e req assign studs d) =
             d\<lparr> attendances := rows,
                attendance_classes := (attendance_classes d)
                  [assc_pk := (attendance_classes d ! assc_pk)\<lparr> ac_status := 1 \<rparr>] \<rparr>"
      using Fetched found row by (simp add: confirm_attendance_def db_of_triple)
    then show ?thesis using range by blast
  qed
next
  case Missing
  then have "db_of (confirm_attendance e req assign studs d) = d"
    by (simp add: confirm_attendance_def db_of_triple)
  then show ?thesis by simp
next
  case (Broke ex)
  then have "db_of (confirm_attendance e req assign studs d) = d"
    by (simp add: confirm_attendance_def db_of_triple)
  then show ?thesis by simp
qed

lemma t_class_date_db:
  "db_of (t_class_date e req assign_id d) = d
   \<or> (\<exists>x. ac_status x = 0 \<and> POST req ''create_attendance'' \<noteq> None
         \<and> db_of (t_class_date e req assign_id d) =
             d\<lparr> attendance_classes := attendance_classes d @ [x] \<rparr>)
   \<or> (\<exists>i rows. i < length (attendance_classes d) \<and> POST req ''confirm_attendance'' \<noteq> None
         \<and> db_of (t_class_date e req assign_id d) =
             d\<lparr> attendances := rows,
                attendance_classes := (attendance_classes d)
                  [i := (attendance_classes d ! i)\<lparr> ac_status := 1 \<rparr>] \<rparr>)"
proof (cases "is_authenticated (req_user req)")
  case False
  then show ?thesis by (simp add: t_class_date_def login_redirect_def db_of_triple)
next
  case auth: True
  show ?thesis
  proof (cases "get_assign_or_404 d assign_id")
    case None
    then show ?thesis using auth by (simp add: t_class_date_def db_of_triple)
  next
    case (Some assign)
    show ?thesis
    proof (cases "req_method req = ''POST''")
      case False
      then show ?thesis
        using t_class_date_page [OF auth Some, of e] by (simp add: db_of_triple)
    next
      case post: True
      show ?thesis
      proof (cases "POST req ''create_attendance''")
        case create: (Some v)
        then have c: "POST req ''create_attendance'' \<noteq> None" by simp
        note eq = t_class_date_create [OF auth Some post c, of e]
        from create_attendance_db [of e req assign d] show ?thesis
        proof
          assume "db_of (create_attendance e req assign d) = d"
          then show ?thesis by (simp add: eq)
        next
          assume "\<exists>s date. POST req ''attendance_date'' = Some s \<and> strptime e s = Some date
             \<and> db_of (create_attendance e req assign d) =
                 d\<lparr> attendance_classes := attendance_classes d @
                      [\<lparr> ac_assign = assign, ac_date = date, ac_status = 0 \<rparr>] \<rparr>"
          then obtain date where "db_of (t_class_date e req assign_id d) =
                 d\<lparr> attendance_classes := attendance_classes d @
                      [\<lparr> ac_assign = assign, ac_date = date, ac_status = 0 \<rparr>] \<rparr>"
            by (auto simp: eq)
          moreover have "ac_status \<lparr> ac_assign = assign, ac_date = date, ac_status = 0 \<rparr> = 0"
            by simp
          ultimately show ?thesis using c by blast
        qed
      next
        case no_create: None
        show ?thesis
        proof (cases "POST req ''confirm_attendance''")
          case conf: (Some v)
          then have c: "POST req ''confirm_attendance'' \<noteq> None" by simp
          note eq = t_class_date_confirm [OF auth Some post no_create c, of e]
          from confirm_attendance_db [of e req assign "student_set d (a_class_id assign)" d]
          show ?thesis
            unfolding eq using c by blast
        next
          case no_conf: None
          have "db_of (t_class_date e req assign_id d) = d"
          proof (cases "POST req ''select_attendance''")
            case None
            then show ?thesis
              using t_class_date_page [OF auth Some, of e] no_create no_conf
              by (simp add: db_of_triple)
          next
            case (Some v)
            then show ?thesis
              using t_class_date_select [OF auth \<open>get_assign_or_404 d assign_id = Some assign\<close>
                  post no_create no_conf, of e]
              by (simp add: select_attendance_db)
          qed
          then show ?thesis by simp
        qed
      qed
    qed
  qed
qed

lemma t_marks_list_tables:
  "db_of (t_marks_list req assign_id d) = d
   \<or> (\<exists>x. es_status x = False
         \<and> db_of (t_marks_list req assign_id d) = d\<lparr> exam_sessions := exam_sessions d @ [x] \<rparr>)"
  using t_marks_list_db [of req assign_id d]
proof
  assume "db_of (t_marks_list req assign_id d) = d"
  then show ?thesis by simp
next
  assume "\<exists>assignment. get_assign_or_404 d assign_id = Some assignment
        \<and> is_authenticated (req_user req)
        \<and> \<not> (t_user (a_teacher assignment) \<noteq> None
             \<and> t_user (a_teacher assignment) \<noteq> Some (u_id (req_user req)))
        \<and> req_method req = ''POST'' \<and> POST req ''create_exam'' \<noteq> None
        \<and> t_marks_list req assign_id d = create_exam req assignment assign_id d"
  then obtain assignment where
    eq: "t_marks_list req assign_id d = create_exam req assignment assign_id d"
    by auto
  from create_exam_db [of req assignment assign_id d] show ?thesis
  proof
    assume "db_of (create_exam req assignment assign_id d) = d"
    then show ?thesis by (simp add: eq)
  next
    assume "\<exists>name. POST req ''exam_name'' = Some name
         \<and> db_of (create_exam req assignment assign_id d) =
             d\<lparr> exam_sessions := exam_sessions d @
                  [\<lparr> es_assign = assignment, es_name = name, es_status = False \<rparr>] \<rparr>"
    then obtain name where "db_of (t_marks_list req assign_id d) =
             d\<lparr> exam_sessions := exam_sessions d @
                  [\<lparr> es_assign = assignment, es_name = name, es_status = False \<rparr>] \<rparr>"
      by (auto simp: eq)
    moreover have "es_status \<lparr> es_assign = assignment, es_name = name, es_status = False \<rparr> = False"
      by simp
    ultimately show ?thesis by blast
  qed
qed

text \<open>What one call can do to the tables: nothing, or one of four writes.\<close>

lemma dispatch_effect:
  "db_of (dispatch e te call req d) = d
   \<or> (\<exists>a x. call = T_marks_list a \<and> es_status x = False
         \<and> db_of (dispatch e te call req d) = d\<lparr> exam_sessions := exam_sessions d @ [x] \<rparr>)
   \<or> (\<exists>i rows. call = Marks_confirm i \<and> i < length (exam_sessions d)
         \<and> db_of (dispatch e te call req d) =
             d\<lparr> marks := rows,
                exam_sessions := (exam_sessions d)[i := (exam_sessions d ! i)\<lparr> es_status := True \<rparr>] \<rparr>)
   \<or> (\<exists>a x. call = T_class_date a \<and> ac_status x = 0 \<and> POST req ''create_attendance'' \<noteq> None
         \<and> db_of (dispatch e te call req d) =
             d\<lparr> attendance_classes := attendance_classes d @ [x] \<rparr>)
   \<or> (\<exists>i rows. (call = Confirm i \<or> (\<exists>a. call = T_class_date a \<and> POST req ''confirm_attendance'' \<noteq> None))
         \<and> i < length (attendance_classes d)
         \<and> db_of (dispatch e te call req d) =
             d\<lparr> attendances := rows,
                attendance_classes := (attendance_classes d)
                  [i := (attendance_classes d ! i)\<lparr> ac_status := 1 \<rparr>] \<rparr>)"
proof (cases call)
  case (T_marks_list a)
  show ?thesis
    using t_marks_list_tables [of req a d] unfolding T_marks_list
    by (auto simp: db_of_forget)
next
  case (Marks_confirm i)
  show ?thesis
    using marks_confirm_db [of e req i d] unfolding Marks_confirm
    by (auto simp: db_of_forget)
next
  case (T_class_date a)
  show ?thesis
    using t_class_date_db [of e req a d] unfolding T_class_date
    by (auto simp: db_of_forget)
next
  case (Confirm i)
  show ?thesis
    using confirm_db [of req i d] unfolding Confirm
    by (auto simp: db_of_forget)
qed (simp_all add: db_of_forget teacher_dashboard_db teacher_logout_db index_db t_clas_db
      t_marks_entry_db edit_marks_db t_timetable_db free_teachers_db t_attendance_db
      edit_att_db view_att_db t_report_db view_students_db)

lemma step_exam_sessions:
  fixes d :: db and e te call req
  defines "old \<equiv> exam_sessions d" and "new \<equiv> exam_sessions (db_of (dispatch e te call req d))"
  shows "length old \<le> length new
       \<and> (\<forall>i < length old. new ! i = old ! i
              \<or> (call = Marks_confirm i \<and> new ! i = (old ! i)\<lparr> es_status := True \<rparr>))
       \<and> (\<forall>i. length old \<le> i \<and> i < length new \<longrightarrow> es_status (new ! i) = False)"
proof -
  from dispatch_effect [of e te call req d]
  consider (same) "new = old"
    | (created) x where "es_status x = False" "new = old @ [x]"
    | (finalized) i where "call = Marks_confirm i" "i < length old"
        "new = old[i := (old ! i)\<lparr> es_status := True \<rparr>]"
    unfolding old_def new_def by (elim disjE exE conjE) simp_all
  then show ?thesis
  proof cases
    case same
    then show ?thesis by auto
  next
    case created
    then show ?thesis
      by (auto simp: nth_append less_Suc_eq)
  next
    case finalized
    then show ?thesis
      by (auto simp: nth_list_update)
  qed
qed

lemma step_attendance_classes:
  fixes d :: db and e te call req
  defines "old \<equiv> attendance_classes d"
    and "new \<equiv> attendance_classes (db_of (dispatch e te call req d))"
  shows "length old \<le> length new
       \<and> (\<forall>i < length old. new ! i = old ! i
              \<or> ((call = Confirm i \<or>
                   (\<exists>a. call = T_class_date a \<and> POST req ''confirm_attendance'' \<noteq> None))
                  \<and> new ! i = (old ! i)\<lparr> ac_status := 1 \<rparr>))
       \<and> (\<forall>i. length old \<le> i \<and> i < length new \<longrightarrow> ac_status (new ! i) = 0)"
proof -
  from dispatch_effect [of e te call req d]
  consider (same) "new = old"
    | (created) x where "ac_status x = 0" "new = old @ [x]"
    | (marked) i where
        "call = Confirm i \<or> (\<exists>a. call = T_class_date a \<and> POST req ''confirm_attendance'' \<noteq> None)"
        "i < length old" "new = old[i := (old ! i)\<lparr> ac_status := 1 \<rparr>]"
    unfolding old_def new_def by (elim disjE exE conjE) simp_all
  then show ?thesis
  proof cases
    case same
    then show ?thesis by auto
  next
    case created
    then show ?thesis
      by (auto simp: nth_append less_Suc_eq)
  next
    case marked
    show ?thesis
    proof (intro conjI allI impI)
      show "length old \<le> length new" using marked by simp
    next
      fix j assume "j < length old"
      show "new ! j = old ! j
              \<or> ((call = Confirm j \<or>
                   (\<exists>a. call = T_class_date a \<and> POST req ''confirm_attendance'' \<noteq> None))
                  \<and> new ! j = (old ! j)\<lparr> ac_status := 1 \<rparr>)"
      proof (cases "j = i")
        case False
        then show ?thesis using marked by simp
      next
        case True
        have upd: "new ! j = (old ! j)\<lparr> ac_status := 1 \<rparr>"
          using marked True by simp
        from marked(1) show ?thesis
        proof
          assume "call = Confirm i"
          then show ?thesis using upd True by simp
        next
          assume "\<exists>a. call = T_class_date a \<and> POST req ''confirm_attendance'' \<noteq> None"
          then show ?thesis using upd by blast
        qed
      qed
    next
      fix j assume "length old \<le> j \<and> j < length new"
      then show "ac_status (new ! j) = 0" using marked by simp
    qed
  qed
qed

lemma run_exam_sessions:
  assumes "i < length (exam_sessions d)"
  shows "i < length (exam_sessions (run e te calls d))
       \<and> (es_status (exam_sessions d ! i) \<longrightarrow> es_status (exam_sessions (run e te calls d) ! i))
       \<and> (es_status (exam_sessions (run e te calls d) ! i) \<and> \<not> es_status (exam_sessions d ! i)
            \<longrightarrow> (\<exists>req. (Marks_confirm i, req) \<in> set calls))"
  using assms
proof (induction calls arbitrary: d)
  case Nil
  then show ?case by simp
next
  case (Cons c rest)
  obtain call req where c: "c = (call, req)" by (cases c)
  define d1 where "d1 = db_of (dispatch e te call req d)"
  have step: "length (exam_sessions d) \<le> length (exam_sessions d1)"
    "exam_sessions d1 ! i = exam_sessions d ! i
       \<or> (call = Marks_confirm i \<and> exam_sessions d1 ! i = (exam_sessions d ! i)\<lparr> es_status := True \<rparr>)"
    using step_exam_sessions [of d e te call req] Cons.prems unfolding d1_def by simp_all
  have i1: "i < length (exam_sessions d1)"
    using step(1) Cons.prems by simp
  note IH = Cons.IH [OF i1]
  have run: "run e te (c # rest) d = run e te rest d1"
    by (simp add: c d1_def)
  from step(2) show ?case
  proof
    assume same: "exam_sessions d1 ! i = exam_sessions d ! i"
    show ?thesis
      using IH unfolding run same by auto
  next
    assume conf: "call = Marks_confirm i \<and> exam_sessions d1 ! i = (exam_sessions d ! i)\<lparr> es_status := True \<rparr>"
    then have "(Marks_confirm i, req) \<in> set (c # rest)"
      by (simp add: c)
    then show ?thesis
      using IH conf unfolding run by auto
  qed
qed

lemma run_attendance_classes:
  assumes "i < length (attendance_classes d)"
  shows "i < length (attendance_classes (run e te calls d))
       \<and> (ac_status (attendance_classes (run e te calls d) ! i) = ac_status (attendance_classes d ! i)
          \<or> ac_status (attendance_classes (run e te calls d) ! i) = 1)
       \<and> (ac_status (attendance_classes d ! i) = 1
            \<longrightarrow> ac_status (attendance_classes (run e te calls d) ! i) = 1)
       \<and> (ac_status (attendance_classes (run e te calls d) ! i) \<noteq> ac_status (attendance_classes d ! i)
            \<longrightarrow> (\<exists>req. (Confirm i, req) \<in> set calls
                      \<or> (\<exists>a. (T_class_date a, req) \<in> set calls
                             \<and> POST req ''confirm_attendance'' \<noteq> None)))"
  using assms
proof (induction calls arbitrary: d)
  case Nil
  then show ?case by simp
next
  case (Cons c rest)
  obtain call req where c: "c = (call, req)" by (cases c)
  define d1 where "d1 = db_of (dispatch e te call req d)"
  have step: "length (attendance_classes d) \<le> length (attendance_classes d1)"
    "attendance_classes d1 ! i = attendance_classes d ! i
       \<or> ((call = Confirm i \<or> (\<exists>a. call = T_class_date a \<and> POST req ''confirm_attendance'' \<noteq> None))
          \<and> attendance_classes d1 ! i = (attendance_classes d ! i)\<lparr> ac_status := 1 \<rparr>)"
    using step_attendance_classes [of d e te call req] Cons.prems unfolding d1_def by simp_all
  have i1: "i < length (attendance_classes d1)"
    using step(1) Cons.prems by simp
  note IH = Cons.IH [OF i1]
  have run: "run e te (c # rest) d = run e te rest d1"
    by (simp add: c d1_def)
  from step(2) show ?case
  proof
    assume same: "attendance_classes d1 ! i = attendance_classes d ! i"
    show ?thesis
      using IH unfolding run same by auto
  next
    assume conf: "(call = Confirm i \<or> (\<exists>a. call = T_class_date a \<and> POST req ''confirm_attendance'' \<noteq> None))
          \<and> attendance_classes d1 ! i = (attendance_classes d ! i)\<lparr> ac_status := 1 \<rparr>"
    then have by_call: "\<exists>rq. (Confirm i, rq) \<in> set (c # rest)
                      \<or> (\<exists>a. (T_class_date a, rq) \<in> set (c # rest)
                             \<and> POST rq ''confirm_attendance'' \<noteq> None)"
      unfolding c by (intro exI [of _ req]) auto
    have one: "ac_status (attendance_classes d1 ! i) = 1"
      using conf by simp
    show ?thesis
      using IH one by_call unfolding run by auto
  qed
qed

text \<open>
  C7. One call of any view leaves every existing ExamSession row as it is, or, when the
  call is \<open>marks_confirm\<close> for that row, sets its status to true; a new row starts
  with status false. It leaves every existing AttendanceClass row as it is, or, when
  the call is \<open>confirm\<close> for that row or the \<open>confirm_attendance\<close> form of
  \<open>t_class_date\<close>, sets its status to 1; a new row starts with status 0. So along
  any sequence of calls a status that is true (or 1) stays so, and a status that
  changed was changed by one of those calls.
\<close>

theorem status_flags_one_directional:
  "length (exam_sessions d) \<le> length (exam_sessions (db_of (dispatch e te call req d)))
   \<and> (\<forall>i < length (exam_sessions d).
         exam_sessions (db_of (dispatch e te call req d)) ! i = exam_sessions d ! i
       \<or> (call = Marks_confirm i
          \<and> exam_sessions (db_of (dispatch e te call req d)) ! i
              = (exam_sessions d ! i)\<lparr> es_status := True \<rparr>))
   \<and> (\<forall>i. length (exam_sessions d) \<le> i
           \<and> i < length (exam_sessions (db_of (dispatch e te call req d)))
         \<longrightarrow> es_status (exam_sessions (db_of (dispatch e te call req d)) ! i) = False)
   \<and> length (attendance_classes d) \<le> length (attendance_classes (db_of (dispatch e te call req d)))
   \<and> (\<forall>i < length (attendance_classes d).
         attendance_classes (db_of (dispatch e te call req d)) ! i = attendance_classes d ! i
       \<or> ((call = Confirm i
            \<or> (\<exists>a. call = T_class_date a \<and> POST req ''confirm_attendance'' \<noteq> None))
          \<and> attendance_classes (db_of (dispatch e te call req d)) ! i
              = (attendance_classes d ! i)\<lparr> ac_status := 1 \<rparr>))
   \<and> (\<forall>i. length (attendance_classes d) \<le> i
           \<and> i < length (attendance_classes (db_of (dispatch e te call req d)))
         \<longrightarrow> ac_status (attendance_classes (db_of (dispatch e te call req d)) ! i) = 0)
   \<and> (\<forall>i < length (exam_sessions d).
         i < length (exam_sessions (run e te calls d))
       \<and> (es_status (exam_sessions d ! i) \<longrightarrow> es_status (exam_sessions (run e te calls d) ! i))
       \<and> (es_status (exam_sessions (run e te calls d) ! i) \<and> \<not> es_status (exam_sessions d ! i)
            \<longrightarrow> (\<exists>rq. (Marks_confirm i, rq) \<in> set calls)))
   \<and> (\<forall>i < length (attendance_classes d).
         i < length (attendance_classes (run e te calls d))
       \<and> (ac_status (attendance_classes (run e te calls d) ! i) = ac_status (attendance_classes d ! i)
          \<or> ac_status (attendance_classes (run e te calls d) ! i) = 1)
       \<and> (ac_status (attendance_classes d ! i) = 1
            \<longrightarrow> ac_status (attendance_classes (run e te calls d) ! i) = 1)
       \<and> (ac_status (attendance_classes (run e te calls d) ! i) \<noteq> ac_status (attendance_classes d ! i)
            \<longrightarrow> (\<exists>rq. (Confirm i, rq) \<in> set calls
                      \<or> (\<exists>a. (T_class_date a, rq) \<in> set calls
                             \<and> POST rq ''confirm_attendance'' \<noteq> None))))"
proof -
  note es = step_exam_sessions [of d e te call req]
  note ac = step_attendance_classes [of d e te call req]
  have run_es: "\<forall>i < length (exam_sessions d).
         i < length (exam_sessions (run e te calls d))
       \<and> (es_status (exam_sessions d ! i) \<longrightarrow> es_status (exam_sessions (run e te calls d) ! i))
       \<and> (es_status (exam_sessions (run e te calls d) ! i) \<and> \<not> es_status (exam_sessions d ! i)
            \<longrightarrow> (\<exists>rq. (Marks_confirm i, rq) \<in> set calls))"
    using run_exam_sessions [of _ d e te calls] by blast
  have run_ac: "\<forall>i < length (attendance_classes d).
         i < length (attendance_classes (run e te calls d))
       \<and> (ac_status (attendance_classes (run e te calls d) ! i) = ac_status (attendance_classes d ! i)
          \<or> ac_status (attendance_classes (run e te calls d) ! i) = 1)
       \<and> (ac_status (attendance_classes d ! i) = 1
            \<longrightarrow> ac_status (attendance_classes (run e te calls d) ! i) = 1)
       \<and> (ac_status (attendance_classes (run e te calls d) ! i) \<noteq> ac_status (attendance_classes d ! i)
            \<longrightarrow> (\<exists>rq. (Confirm i, rq) \<in> set calls
                      \<or> (\<exists>a. (T_class_date a, rq) \<in> set calls
                             \<and> POST rq ''confirm_attendance'' \<noteq> None)))"
    using run_attendance_classes [of _ d e te calls] by blast
  from es ac run_es run_ac show ?thesis
    by (intro conjI) (elim conjE, assumption)+
qed

lemmas view_defs = t_marks_list_def create_exam_def marks_confirm_def confirm_def t_class_date_def
  create_attendance_def confirm_attendance_def fetch_assc_def t_marks_entry_def
  get_by_pk_def get_assign_or_404_def student_set_def get_or_create_def objects_get_def
  pks_where_def response_of_def messages_of_def db_of_def forget_def login_redirect_def

theorem status_flags_witness:
  "0 < length (exam_sessions school_in_term)
   \<and> \<not> es_status (exam_sessions school_in_term ! 0)
   \<and> es_status (exam_sessions (db_of (dispatch runtime timetable_consts (Marks_confirm 0) marks_form school_in_term)) ! 0)
   \<and> map es_status (exam_sessions (run runtime timetable_consts term_calls school_in_term)) = [True]
   \<and> (Marks_confirm 0, marks_form) \<in> set term_calls
   \<and> 0 < length (attendance_classes school_in_term)
   \<and> ac_status (attendance_classes school_in_term ! 0) = 0
   \<and> map ac_status (attendance_classes (run runtime timetable_consts term_calls school_in_term)) = [1]
   \<and> (Confirm 0, confirm_form) \<in> set term_calls"
  using status_flags_one_directional [of school_in_term runtime timetable_consts "Marks_confirm 0"
      marks_form term_calls]
  by (simp add: school_defs view_defs Let_def)

subsection \<open>Ownership of an assignment\<close>

lemma cie_score_defined:
  assumes "D \<noteq> 0"
  shows "\<exists>cie. cie_score K D ms = Inr cie"
  using assms by (simp add: cie_score_def py_truediv_def)

lemma student_data_defined:
  assumes D: "CIE_DIVISOR e \<noteq> 0"
    and uniq: "distinct (map (\<lambda>ss. (ss_student ss, ss_subject ss)) (student_subjects d))"
  shows "\<exists>row. student_data e d assignment student = Inr row"
proof -
  let ?p = "\<lambda>ss. ss_student ss = s_pk student \<and> ss_subject ss = a_subject assignment"
  have p: "?p = (\<lambda>ss. (ss_student ss, ss_subject ss) = (s_pk student, a_subject assignment))"
    by auto
  from pks_where_unique_key [OF uniq, of "(s_pk student, a_subject assignment)"]
  have "pks_where ?p (student_subjects d) = [] \<or> (\<exists>i. pks_where ?p (student_subjects d) = [i])"
    unfolding p .
  then show ?thesis
  proof
    assume "pks_where ?p (student_subjects d) = []"
    then show ?thesis
      by (simp add: student_data_def objects_get_def)
  next
    assume "\<exists>i. pks_where ?p (student_subjects d) = [i]"
    then obtain i where i: "pks_where ?p (student_subjects d) = [i]" ..
    obtain cie where "cie_score (CIE_CALCULATION_LIMIT e) (CIE_DIVISOR e)
        (map m_marks1 (marks_by_name d i)) = Inr cie"
      using cie_score_defined [OF D] by blast
    then show ?thesis
      using i by (simp add: student_data_def objects_get_def Let_def)
  qed
qed

lemma students_data_loop_defined:
  assumes D: "CIE_DIVISOR e \<noteq> 0"
    and uniq: "distinct (map (\<lambda>ss. (ss_student ss, ss_subject ss)) (student_subjects d))"
  shows "\<exists>rows. students_data_loop e d assignment studs = Inr rows"
proof (induction studs)
  case Nil
  then show ?case by simp
next
  case (Cons student rest)
  obtain row where "student_data e d assignment student = Inr row"
    using student_data_defined [OF D uniq] by blast
  moreover obtain rows where "students_data_loop e d assignment rest = Inr rows"
    using Cons.IH by blast
  ultimately show ?case by simp
qed

lemma t_marks_list_null_owner:
  assumes auth: "is_authenticated (req_user req)"
    and got: "get_assign_or_404 d assign_id = Some assignment"
    and null: "t_user (a_teacher assignment) = None"
  shows "t_marks_list req assign_id d =
           (if req_method req = ''POST'' \<and> POST req ''create_exam'' \<noteq> None
            then create_exam req assignment assign_id d
            else (Render ''t_marks_list.html'' (marks_list_page assignment d), [], d))"
  using assms by (simp add: t_marks_list_def Let_def)

lemma view_students_null_owner:
  assumes auth: "is_authenticated (req_user req)"
    and got: "get_assign_or_404 d assign_id = Some assignment"
    and null: "t_user (a_teacher assignment) = None"
  shows "view_students e req assign_id d =
           (case students_data_loop e d assignment
                   (sort_key s_name (student_set d (a_class_id assignment))) of
              Inl ex \<Rightarrow> (Raised ex, [], d)
            | Inr students_data \<Rightarrow>
                (Render ''t_view_students.html''
                   \<lparr> vs_assignment = assignment, vs_students_data = students_data,
                     vs_students_total = int (length students_data) \<rparr>,
                 [], d))"
  using assms by (simp add: view_students_def Let_def)

lemma create_exam_no_denial:
  "(MsgError, AssignmentAccessDenied) \<notin> set (messages_of (create_exam req assignment assign_id d))"
proof (cases "POST req ''exam_name''")
  case None
  then show ?thesis by (simp add: create_exam_def messages_of_triple)
next
  case (Some name)
  show ?thesis
  proof (cases "name = []")
    case True
    then show ?thesis using Some by (simp add: create_exam_def messages_of_triple)
  next
    case False
    then show ?thesis
      using Some
      by (simp add: create_exam_def messages_of_def split: sum.split prod.split)
  qed
qed

text \<open>
  C10, as the code has it. When the teacher of the assignment has no user account,
  \<open>t_marks_list\<close> and \<open>view_students\<close> never answer an authenticated user with the
  access-denied message or the redirect to the dashboard; they go on with the view.
  \<open>view_students\<close> renders the students (it raises only if a row cannot be built:
  a zero CIE divisor, or two enrolments of one student in the subject).
  \<open>t_marks_list\<close> renders the exam sessions, except for a \<open>create_exam\<close> POST,
  which it handles for that user and answers with the redirect to \<open>t_marks_list\<close>.
\<close>

theorem null_owner_skips_ownership_check:
  assumes auth: "is_authenticated (req_user req)"
    and got: "get_assign_or_404 d assign_id = Some assignment"
    and null: "t_user (a_teacher assignment) = None"
  shows "(MsgError, AssignmentAccessDenied) \<notin> set (messages_of (t_marks_list req assign_id d))
       \<and> redirect_target (response_of (t_marks_list req assign_id d)) \<noteq> Some ''teacher_dashboard''
       \<and> (\<not> (req_method req = ''POST'' \<and> POST req ''create_exam'' \<noteq> None) \<longrightarrow>
            t_marks_list req assign_id d =
              (Render ''t_marks_list.html'' (marks_list_page assignment d), [], d))
       \<and> (req_method req = ''POST'' \<and> POST req ''create_exam'' \<noteq> None \<longrightarrow>
            t_marks_list req assign_id d = create_exam req assignment assign_id d
          \<and> response_of (t_marks_list req assign_id d) = Redirect ''t_marks_list'' [assign_id])
       \<and> (MsgError, AssignmentAccessDenied) \<notin> set (messages_of (view_students e req assign_id d))
       \<and> redirect_target (response_of (view_students e req assign_id d)) = None
       \<and> (CIE_DIVISOR e \<noteq> 0
          \<and> distinct (map (\<lambda>ss. (ss_student ss, ss_subject ss)) (student_subjects d)) \<longrightarrow>
            rendered_template (response_of (view_students e req assign_id d))
              = Some ''t_view_students.html'')"
proof -
  note ml = t_marks_list_null_owner [OF assms]
  note vs = view_students_null_owner [OF assms, of e]
  have 1: "(MsgError, AssignmentAccessDenied) \<notin> set (messages_of (t_marks_list req assign_id d))"
    using create_exam_no_denial [of req assignment assign_id d]
    by (simp add: ml messages_of_triple)
  have 2: "redirect_target (response_of (t_marks_list req assign_id d)) \<noteq> Some ''teacher_dashboard''"
    by (simp add: ml create_exam_response response_of_triple)
  have 3: "\<not> (req_method req = ''POST'' \<and> POST req ''create_exam'' \<noteq> None) \<longrightarrow>
            t_marks_list req assign_id d =
              (Render ''t_marks_list.html'' (marks_list_page assignment d), [], d)"
    by (auto simp add: ml)
  have 4: "req_method req = ''POST'' \<and> POST req ''create_exam'' \<noteq> None \<longrightarrow>
            t_marks_list req assign_id d = create_exam req assignment assign_id d
          \<and> response_of (t_marks_list req assign_id d) = Redirect ''t_marks_list'' [assign_id]"
    by (simp add: ml create_exam_response)
  have 5: "(MsgError, AssignmentAccessDenied) \<notin> set (messages_of (view_students e req assign_id d))"
    by (simp add: vs messages_of_def split: sum.split)
  have 6: "redirect_target (response_of (view_students e req assign_id d)) = None"
    by (simp add: vs response_of_def split: sum.split)
  have 7: "CIE_DIVISOR e \<noteq> 0
          \<and> distinct (map (\<lambda>ss. (ss_student ss, ss_subject ss)) (student_subjects d)) \<longrightarrow>
            rendered_template (response_of (view_students e req assign_id d))
              = Some ''t_view_students.html''"
  proof
    assume h: "CIE_DIVISOR e \<noteq> 0
          \<and> distinct (map (\<lambda>ss. (ss_student ss, ss_subject ss)) (student_subjects d))"
    then obtain rows where "students_data_loop e d assignment
        (sort_key s_name (student_set d (a_class_id assignment))) = Inr rows"
      using students_data_loop_defined [of e d assignment] by blast
    then show "rendered_template (response_of (view_students e req assign_id d))
              = Some ''t_view_students.html''"
      by (simp add: vs response_of_triple)
  qed
  from 1 2 3 4 5 6 7 show ?thesis by (intro conjI)
qed

theorem null_owner_witness:
  "is_authenticated (req_user (get_request user_B))
   \<and> get_assign_or_404 school 3 = Some assign_Z
   \<and> t_user (a_teacher assign_Z) = None
   \<and> u_id (req_user (get_request user_B)) = 20
   \<and> rendered_template (response_of (t_marks_list (get_request user_B) 3 school))
       = Some ''t_marks_list.html''
   \<and> messages_of (t_marks_list (get_request user_B) 3 school) = []
   \<and> CIE_DIVISOR runtime \<noteq> 0
   \<and> distinct (map (\<lambda>ss. (ss_student ss, ss_subject ss)) (student_subjects school))
   \<and> rendered_template (response_of (view_students runtime (get_request user_B) 3 school))
       = Some ''t_view_students.html''"
proof -
  have a: "is_authenticated (req_user (get_request user_B))"
    by (simp add: school_defs)
  have g: "get_assign_or_404 school 3 = Some assign_Z"
    by (simp add: school_defs get_assign_or_404_def)
  have n: "t_user (a_teacher assign_Z) = None"
    by (simp add: school_defs)
  have m: "req_method (get_request user_B) \<noteq> ''POST''"
    by (simp add: school_defs)
  have c: "CIE_DIVISOR runtime \<noteq> 0"
    by (simp add: school_defs)
  have u: "distinct (map (\<lambda>ss. (ss_student ss, ss_subject ss)) (student_subjects school))"
    by (simp add: school_defs)
  have i: "u_id (req_user (get_request user_B)) = 20"
    by (simp add: school_defs)
  from null_owner_skips_ownership_check [OF a g n, of runtime] m c u
  have "rendered_template (response_of (t_marks_list (get_request user_B) 3 school))
       = Some ''t_marks_list.html''
     \<and> messages_of (t_marks_list (get_request user_B) 3 school) = []
     \<and> rendered_template (response_of (view_students runtime (get_request user_B) 3 school))
       = Some ''t_view_students.html''"
    by (simp add: response_of_triple messages_of_triple)
  with a g n i c u show ?thesis by (intro conjI) simp_all
qed

text \<open>
  C10 as stated fails: teacher B posts \<open>create_exam\<close> for the assignment of teacher C,
  who has no user account; the exam session is created and the answer is a redirect to
  \<open>t_marks_list\<close>, not a rendered page.
\<close>

theorem null_owner_create_exam_redirects:
  "is_authenticated (req_user create_form_B)
   \<and> get_assign_or_404 school 3 = Some assign_Z
   \<and> t_user (a_teacher assign_Z) = None
   \<and> response_of (t_marks_list create_form_B 3 school) = Redirect ''t_marks_list'' [3]
   \<and> rendered_template (response_of (t_marks_list create_form_B 3 school)) = None
   \<and> messages_of (t_marks_list create_form_B 3 school) = [(MsgSuccess, ExamCreated ''Quiz'')]
   \<and> exam_sessions (db_of (t_marks_list create_form_B 3 school))
       = [\<lparr> es_assign = assign_Z, es_name = ''Quiz'', es_status = False \<rparr>]"
  by (simp add: school_defs view_defs Let_def)

text \<open>
  The nine views that do not compare the owner with the user never queue the
  access-denied message and never redirect to the dashboard, whoever asks.
\<close>

lemma marks_confirm_no_denial:
  "(MsgError, AssignmentAccessDenied) \<notin> set (messages_of (marks_confirm e req marks_c_id d))
   \<and> redirect_target (response_of (marks_confirm e req marks_c_id d)) \<noteq> Some ''teacher_dashboard''"
  by (simp add: marks_confirm_def login_redirect_def messages_of_def response_of_def Let_def
      split: option.split sum.split)

lemma confirm_no_denial:
  "(MsgError, AssignmentAccessDenied) \<notin> set (messages_of (confirm req ass_c_id d))
   \<and> redirect_target (response_of (confirm req ass_c_id d)) \<noteq> Some ''teacher_dashboard''"
  by (simp add: confirm_def login_redirect_def messages_of_def response_of_def Let_def
      split: option.split sum.split)

lemma read_views_no_denial:
  "(MsgError, AssignmentAccessDenied) \<notin> set (messages_of (t_marks_entry req marks_c_id d))"
  "(MsgError, AssignmentAccessDenied) \<notin> set (messages_of (edit_marks req marks_c_id d))"
  "(MsgError, AssignmentAccessDenied) \<notin> set (messages_of (t_attendance req ass_c_id d))"
  "(MsgError, AssignmentAccessDenied) \<notin> set (messages_of (edit_att e req ass_c_id d))"
  "(MsgError, AssignmentAccessDenied) \<notin> set (messages_of (view_att e req ass_c_id d))"
  "(MsgError, AssignmentAccessDenied) \<notin> set (messages_of (t_report req assign_id d))"
  by (simp_all add: t_marks_entry_def edit_marks_def t_attendance_def edit_att_def view_att_def
      t_report_def login_redirect_def messages_of_def Let_def split: option.split)

lemma create_attendance_no_denial:
  "(MsgError, AssignmentAccessDenied) \<notin> set (messages_of (create_attendance e req assign d))"
proof (cases "POST req ''attendance_date''")
  case None
  then show ?thesis by (simp add: create_attendance_def messages_of_triple)
next
  case (Some s)
  show ?thesis
  proof (cases "strptime e s")
    case None
    then show ?thesis using Some by (simp add: create_attendance_def messages_of_triple)
  next
    case date: (Some attendance_date)
    then show ?thesis
      using Some
      by (simp add: create_attendance_def messages_of_def Let_def split: sum.split)
  qed
qed

lemma t_class_date_no_denial:
  "(MsgError, AssignmentAccessDenied) \<notin> set (messages_of (t_class_date e req assign_id d))"
proof (cases "is_authenticated (req_user req)")
  case False
  then show ?thesis by (simp add: t_class_date_def login_redirect_def messages_of_triple)
next
  case auth: True
  show ?thesis
  proof (cases "get_assign_or_404 d assign_id")
    case None
    then show ?thesis using auth by (simp add: t_class_date_def messages_of_triple)
  next
    case (Some assign)
    have c: "(MsgError, AssignmentAccessDenied) \<notin>
        set (messages_of (confirm_attendance e req assign studs d))" for studs
      by (simp add: confirm_attendance_def messages_of_def split: fetched.split sum.split prod.split)
    have s: "(MsgError, AssignmentAccessDenied) \<notin>
        set (messages_of (select_attendance e req assign d))"
      by (simp add: select_attendance_def messages_of_def split: fetched.split prod.split)
    show ?thesis
      using auth Some create_attendance_no_denial [of e req assign d] c s
      by (simp add: t_class_date_def Let_def messages_of_triple)
  qed
qed

text \<open>
  C1 fails on the code. Teacher B submits marks for the exam session of teacher A's
  assignment: \<open>marks_confirm\<close> stores the marks, finalizes the session and redirects
  to \<open>t_marks_list\<close> without any message, where \<open>t_marks_list\<close> itself turns
  teacher B away with the access-denied message and the redirect to the dashboard.
\<close>

theorem other_teacher_confirms_marks:
  "is_authenticated (req_user marks_form_B)
   \<and> u_id (req_user marks_form_B) = 20
   \<and> t_user (a_teacher (es_assign (exam_sessions school_in_term ! 0))) = Some 10
   \<and> response_of (marks_confirm runtime marks_form_B 0 school_in_term) = Redirect ''t_marks_list'' [1]
   \<and> messages_of (marks_confirm runtime marks_form_B 0 school_in_term) = []
   \<and> map es_status (exam_sessions school_in_term) = [False]
   \<and> map es_status (exam_sessions (db_of (marks_confirm runtime marks_form_B 0 school_in_term))) = [True]
   \<and> marks school_in_term = []
   \<and> marks (db_of (marks_confirm runtime marks_form_B 0 school_in_term))
       = [\<lparr> m_studentsubject = 0, m_name = ''Mid-1'', m_marks1 = 18 \<rparr>,
          \<lparr> m_studentsubject = 1, m_name = ''Mid-1'', m_marks1 = 20 \<rparr>]
   \<and> response_of (t_marks_list (get_request user_B) 1 school_in_term)
       = Redirect ''teacher_dashboard'' []
   \<and> messages_of (t_marks_list (get_request user_B) 1 school_in_term)
       = [(MsgError, AssignmentAccessDenied)]"
  by (simp add: school_defs view_defs Let_def)

end
